(* ===== verification/Prelude.thy ===== *)
theory Prelude
  imports Main
begin

text \<open>
  Shared vocabulary of the development: the names of the model's types, the one error
  type every component raises (a JavaScript exception with the fields the code reads),
  the exception-and-state combinators that model \<open>async\<close>/\<open>await\<close> with
  \<open>try\<close>/\<open>catch\<close>, the decimal printing and parsing of numbers that the access
  conditions rely on, and the generic lemmas the component theories share.
\<close>

named_theorems js_simps \<open>evaluation rules of the exception-and-state combinators\<close>
named_theorems model_defs \<open>definitions unfolded when a scenario is evaluated\<close>
named_theorems never_throws_intros \<open>closure rules of \<open>never_throws\<close> under the combinators\<close>

section \<open>Types of the model\<close>

type_synonym address = string
type_synonym chain_id = int
type_synonym song_id = nat
type_synonym wei = nat

section \<open>Errors\<close>

text \<open>
  The codes of \<open>ethers\<close> errors that the program can meet; the source reads them
  through \<open>error.code\<close>.
\<close>

datatype ethers_code = INSUFFICIENT_FUNDS | CALL_EXCEPTION | UNSUPPORTED_OPERATION | BAD_DATA

text \<open>Errors raised by the Lit network client.\<close>

datatype lit_error =
    LitNodeClientNotReady
  | InvalidAuthSig
  | AccessDenied
  | DecryptionFailed
  | UnsupportedConditionChain
  | InvalidConditions

text \<open>
  Every exception the program throws or lets through, one constructor per kind:
  \<open>Unsupported chain ID\<close> (lit-protocol.ts), the ethers and Lit errors, the
  \<open>TypeError\<close> of a call to a method the contract object does not have,
  \<open>No encrypted lyrics found\<close>, \<open>Failed to store song data\<close> and
  \<open>Contract not properly initialized\<close> (ceramic-orbis.ts), a missing environment
  variable (config.ts) and a \<open>JSON.parse\<close> syntax error.
\<close>

datatype error =
    UnsupportedChainId chain_id
  | EthersError ethers_code
  | LitError lit_error
  | TypeError string
  | NoEncryptedLyrics
  | StoreFailed
  | ContractNotInitialized
  | MissingEnv string
  | JsonSyntaxError

text \<open>\<open>error.code\<close>: only ethers errors carry a code.\<close>

fun error_code :: "error \<Rightarrow> ethers_code option" where
  "error_code (EthersError c) = Some c"
| "error_code _ = None"

section \<open>Exceptions and state\<close>

text \<open>
  An \<open>async\<close> function of the source runs against the state of the world and either
  returns a value or throws; effects made before a throw persist (a sent transaction is
  not rolled back). It is modelled as a function from the state to a result of type
  \<open>error + 'a\<close> and the new state.
\<close>

type_synonym ('s, 'a) js = "'s \<Rightarrow> (error + 'a) \<times> 's"

definition ret :: "'a \<Rightarrow> ('s, 'a) js" where
  "ret x = (\<lambda>s. (Inr x, s))"

definition throw :: "error \<Rightarrow> ('s, 'a) js" where
  "throw e = (\<lambda>s. (Inl e, s))"

definition bindJ :: "('s, 'a) js \<Rightarrow> ('a \<Rightarrow> ('s, 'b) js) \<Rightarrow> ('s, 'b) js" where
  "bindJ m f = (\<lambda>s. case m s of (Inl e, s') \<Rightarrow> (Inl e, s') | (Inr x, s') \<Rightarrow> f x s')"

definition catchJ :: "('s, 'a) js \<Rightarrow> (error \<Rightarrow> ('s, 'a) js) \<Rightarrow> ('s, 'a) js" where
  "catchJ m h = (\<lambda>s. case m s of (Inl e, s') \<Rightarrow> h e s' | (Inr x, s') \<Rightarrow> (Inr x, s'))"

text \<open>Lifting a pure, fallible computation (a synchronous call that may throw).\<close>

definition liftE :: "error + 'a \<Rightarrow> ('s, 'a) js" where
  "liftE r = (\<lambda>s. (r, s))"

text \<open>A computation that never throws the error \<open>e\<close>, from any state.\<close>

definition never_throws :: "error \<Rightarrow> ('s, 'a) js \<Rightarrow> bool" where
  "never_throws e m \<longleftrightarrow> (\<forall>s. fst (m s) \<noteq> Inl e)"

section \<open>Decimal numbers\<close>

text \<open>
  \<open>Number.prototype.toString\<close> on a non-negative integer (the safe integers of
  JavaScript, below \<open>2^53\<close>, print exactly) and the parsing of a decimal
  \<open>uint256\<close> argument that an EVM call encoder performs.
\<close>

definition digit_char :: "nat \<Rightarrow> char" where
  "digit_char d = char_of (48 + d)"

fun dec_string :: "nat \<Rightarrow> string" where
  "dec_string n =
     (if n < 10 then [digit_char n] else dec_string (n div 10) @ [digit_char (n mod 10)])"

declare dec_string.simps [simp del]

definition is_digit :: "char \<Rightarrow> bool" where
  "is_digit c \<longleftrightarrow> (48::nat) \<le> of_char c \<and> of_char c \<le> (57::nat)"

definition digit_val :: "char \<Rightarrow> nat" where
  "digit_val c = of_char c - 48"

definition parse_dec :: "string \<Rightarrow> nat option" where
  "parse_dec s =
     (if s \<noteq> [] \<and> list_all is_digit s
      then Some (foldl (\<lambda>acc c. 10 * acc + digit_val c) 0 s) else None)"

section \<open>Lemmas\<close>

subsection \<open>Exceptions and state\<close>

lemma ret_apply [simp, js_simps]: "ret x s = (Inr x, s)"
  by (simp add: ret_def)

lemma throw_apply [simp, js_simps]: "throw e s = (Inl e, s)"
  by (simp add: throw_def)

lemma liftE_apply [simp, js_simps]: "liftE r s = (r, s)"
  by (simp add: liftE_def)

lemma bindJ_apply [simp, js_simps]:
  "bindJ m f s = (case m s of (Inl e, s') \<Rightarrow> (Inl e, s') | (Inr x, s') \<Rightarrow> f x s')"
  by (simp add: bindJ_def)

lemma catchJ_apply [simp, js_simps]:
  "catchJ m h s = (case m s of (Inl e, s') \<Rightarrow> h e s' | (Inr x, s') \<Rightarrow> (Inr x, s'))"
  by (simp add: catchJ_def)

lemma liftE_Inr: "liftE (Inr x) = ret x"
  by (simp add: fun_eq_iff)

lemma bindJ_ret_left: "bindJ (ret x) f = f x"
  by (simp add: fun_eq_iff)

lemma bindJ_ret_right: "bindJ m ret = m"
  by (simp add: fun_eq_iff split: prod.split sum.split)

lemma bindJ_assoc: "bindJ (bindJ m f) g = bindJ m (\<lambda>x. bindJ (f x) g)"
  by (simp add: fun_eq_iff split: prod.split sum.split)

lemma bindJ_throw: "bindJ (throw e) f = throw e"
  by (simp add: fun_eq_iff)

lemma catchJ_ret: "catchJ (ret x) h = ret x"
  by (simp add: fun_eq_iff)

lemma catchJ_throw: "catchJ (throw e) h = h e"
  by (simp add: fun_eq_iff)

lemma never_throws_ret [never_throws_intros]: "never_throws e (ret x)"
  and never_throws_throw [never_throws_intros]: "e' \<noteq> e \<Longrightarrow> never_throws e (throw e')"
  and never_throws_liftE [never_throws_intros]: "r \<noteq> Inl e \<Longrightarrow> never_throws e (liftE r)"
  by (simp_all add: never_throws_def)

lemma never_throws_bindJ [never_throws_intros]:
  assumes m: "never_throws e m" and f: "\<And>x. never_throws e (f x)"
  shows "never_throws e (bindJ m f)"
  unfolding never_throws_def
proof
  fix s
  obtain r s' where ms: "m s = (r, s')" by fastforce
  show "fst (bindJ m f s) \<noteq> Inl e"
  proof (cases r)
    case (Inl e')
    with m ms show ?thesis by (auto simp: never_throws_def dest: spec [of _ s])
  next
    case (Inr x)
    with f [of x] ms show ?thesis by (simp add: never_throws_def)
  qed
qed

lemma never_throws_case_prod [never_throws_intros]:
  "(\<And>a b. never_throws e (f a b)) \<Longrightarrow> never_throws e (case_prod f x)"
  by (cases x) simp

lemma bindJ_Inl:
  "m s = (Inl e, s') \<Longrightarrow> bindJ m f s = (Inl e, s')"
  by simp

lemma bindJ_Inr:
  "m s = (Inr x, s') \<Longrightarrow> bindJ m f s = f x s'"
  by simp

subsection \<open>Decimal numbers\<close>

lemma of_char_digit_char: "d < 10 \<Longrightarrow> of_char (digit_char d) = 48 + d"
  by (simp add: digit_char_def)

lemma is_digit_digit_char [simp]: "d < 10 \<Longrightarrow> is_digit (digit_char d)"
  by (simp add: is_digit_def of_char_digit_char)

lemma digit_val_digit_char [simp]: "d < 10 \<Longrightarrow> digit_val (digit_char d) = d"
  by (simp add: digit_val_def of_char_digit_char)

lemma dec_string_nonempty [simp]: "dec_string n \<noteq> []"
  by (subst dec_string.simps) simp

lemma dec_string_digits: "list_all is_digit (dec_string n)"
proof (induction n rule: dec_string.induct)
  case (1 n)
  then show ?case by (subst dec_string.simps) simp
qed

lemma foldl_dec_string:
  "foldl (\<lambda>acc c. 10 * acc + digit_val c) 0 (dec_string n) = n"
proof (induction n rule: dec_string.induct)
  case (1 n)
  show ?case
  proof (cases "n < 10")
    case True
    then show ?thesis by (subst dec_string.simps) simp
  next
    case False
    with "1.IH" show ?thesis by (subst dec_string.simps) simp
  qed
qed

text \<open>Printing then parsing gives the number back, so printing is injective.\<close>

lemma parse_dec_string [simp]: "parse_dec (dec_string n) = Some n"
  by (simp add: parse_dec_def dec_string_digits foldl_dec_string)

lemma dec_string_inj: "dec_string m = dec_string n \<longleftrightarrow> m = n"
  by (metis option.inject parse_dec_string)

subsection \<open>Lists and options\<close>

lemma find_Some_in_set: "find P xs = Some x \<Longrightarrow> x \<in> set xs \<and> P x"
  by (induction xs) (auto split: if_splits)

lemma digit_char_0: "digit_char 0 = CHR ''0''"
  by code_simp

lemma digit_char_1: "digit_char (Suc 0) = CHR ''1''"
  by code_simp

lemma dec_string_times10: "0 < n \<Longrightarrow> dec_string (10 * n) = dec_string n @ [digit_char 0]"
  by (subst dec_string.simps) simp

text \<open>The powers of ten print as a one followed by zeros.\<close>

lemma dec_string_pow10: "dec_string (10 ^ k) = CHR ''1'' # replicate k (CHR ''0'')"
proof (induction k)
  case 0
  then show ?case by (simp add: dec_string.simps digit_char_1)
next
  case (Suc k)
  then show ?case by (simp add: dec_string_times10 digit_char_0 replicate_append_same)
qed

end
