(* ===== verification/ChainRegistry.thy ===== *)
theory ChainRegistry
  imports Prelude
begin

text \<open>
  The chain registry: \<open>LitProtocolService.getChainName\<close> (src/lit-protocol.ts) scans
  the entries of the Lit library's \<open>LIT_CHAINS\<close> table in order and returns the name of
  the first entry whose numeric \<open>chainId\<close> equals its argument, or throws
  \<open>Unsupported chain ID\<close>. The table is an association list from chain name to chain
  id, in the order of \<open>Object.entries\<close>; its names are the keys of a JavaScript object
  and so are distinct. The Lit nodes read a condition's chain name back to a chain
  through the same table (\<open>chain_id_of\<close>).
\<close>

type_synonym chain_table = "(string \<times> chain_id) list"

text \<open>
  An excerpt of \<open>LIT_CHAINS\<close> from \<open>@lit-protocol/constants\<close>, enough to evaluate
  the scenarios; every theorem below is stated for an arbitrary table.
\<close>

definition LIT_CHAINS :: chain_table where
  "LIT_CHAINS =
     [(''ethereum'', 1), (''polygon'', 137), (''fantom'', 250), (''xdai'', 100),
      (''bsc'', 56), (''arbitrum'', 42161), (''avalanche'', 43114), (''optimism'', 10),
      (''base'', 8453), (''sepolia'', 11155111), (''baseSepolia'', 84532)]"

text \<open>The \<open>for ... of Object.entries(LIT_CHAINS)\<close> loop with its early return.\<close>

fun getChainName :: "chain_table \<Rightarrow> chain_id \<Rightarrow> error + string" where
  "getChainName [] chainId = Inl (UnsupportedChainId chainId)"
| "getChainName ((name, cid) # rest) chainId =
     (if cid = chainId then Inr name else getChainName rest chainId)"

text \<open>A table is well formed when its names are distinct, as object keys are.\<close>

definition chain_table_wf :: "chain_table \<Rightarrow> bool" where
  "chain_table_wf tbl \<longleftrightarrow> distinct (map fst tbl)"

text \<open>The Lit nodes' reading of a chain name: the id stored under that key.\<close>

definition chain_id_of :: "chain_table \<Rightarrow> string \<Rightarrow> chain_id option" where
  "chain_id_of tbl name = map_of tbl name"

subsection \<open>Behaviour of the lookup\<close>

lemma getChainName_find:
  "getChainName tbl chainId =
     (case find (\<lambda>(n, c). c = chainId) tbl of
        None \<Rightarrow> Inl (UnsupportedChainId chainId)
      | Some (n, c) \<Rightarrow> Inr n)"
  by (induction tbl chainId rule: getChainName.induct) auto

lemma getChainName_Inr_mem: "getChainName tbl chainId = Inr n \<Longrightarrow> (n, chainId) \<in> set tbl"
  by (induction tbl chainId rule: getChainName.induct) (auto split: if_splits sum.splits)

lemma getChainName_Inl_iff:
  "getChainName tbl chainId = Inl e \<longleftrightarrow>
     e = UnsupportedChainId chainId \<and> chainId \<notin> snd ` set tbl"
  by (induction tbl chainId rule: getChainName.induct) (auto split: if_splits sum.splits)

lemma getChainName_supported:
  "chainId \<in> snd ` set tbl \<Longrightarrow> \<exists>n. getChainName tbl chainId = Inr n"
  by (cases "getChainName tbl chainId") (auto simp: getChainName_Inl_iff)

text \<open>
  C1. The lookup returns a name exactly when the table has an entry with that name and the
  requested id, and no earlier entry has that id: the first match of the scan.
\<close>

theorem getChainName_Inr_iff:
  "getChainName tbl chainId = Inr n \<longleftrightarrow>
     (\<exists>pre post. tbl = pre @ (n, chainId) # post \<and> chainId \<notin> snd ` set pre)"
proof (induction tbl)
  case Nil
  then show ?case by simp
next
  case (Cons entry rest)
  obtain m c where entry: "entry = (m, c)" by (cases entry)
  show ?case
  proof (cases "c = chainId")
    case True
    have "(\<exists>pre post. (m, c) # rest = pre @ (n, chainId) # post \<and> chainId \<notin> snd ` set pre)
          \<longleftrightarrow> m = n"
    proof
      assume "\<exists>pre post. (m, c) # rest = pre @ (n, chainId) # post \<and> chainId \<notin> snd ` set pre"
      then obtain pre post where split: "(m, c) # rest = pre @ (n, chainId) # post"
        and notin: "chainId \<notin> snd ` set pre" by blast
      with True have "pre = []" by (cases pre) auto
      with split show "m = n" by simp
    next
      assume "m = n"
      with True have "(m, c) # rest = [] @ (n, chainId) # rest" by simp
      then show "\<exists>pre post. (m, c) # rest = pre @ (n, chainId) # post \<and> chainId \<notin> snd ` set pre"
        by fastforce
    qed
    with True entry show ?thesis by auto
  next
    case False
    have "(\<exists>pre post. (m, c) # rest = pre @ (n, chainId) # post \<and> chainId \<notin> snd ` set pre)
          \<longleftrightarrow> (\<exists>pre post. rest = pre @ (n, chainId) # post \<and> chainId \<notin> snd ` set pre)"
    proof
      assume "\<exists>pre post. (m, c) # rest = pre @ (n, chainId) # post \<and> chainId \<notin> snd ` set pre"
      then obtain pre post where split: "(m, c) # rest = pre @ (n, chainId) # post"
        and notin: "chainId \<notin> snd ` set pre" by blast
      with False obtain pre' where "pre = (m, c) # pre'" by (cases pre) auto
      with split notin show "\<exists>pre post. rest = pre @ (n, chainId) # post \<and> chainId \<notin> snd ` set pre"
        by auto
    next
      assume "\<exists>pre post. rest = pre @ (n, chainId) # post \<and> chainId \<notin> snd ` set pre"
      then obtain pre post where "rest = pre @ (n, chainId) # post" and "chainId \<notin> snd ` set pre"
        by blast
      with False have "(m, c) # rest = ((m, c) # pre) @ (n, chainId) # post"
        and "chainId \<notin> snd ` set ((m, c) # pre)" by auto
      then show "\<exists>pre post. (m, c) # rest = pre @ (n, chainId) # post \<and> chainId \<notin> snd ` set pre"
        by blast
    qed
    with False entry Cons.IH show ?thesis by simp
  qed
qed

text \<open>
  Round trip: on a well-formed table, the chain name returned for an id leads the
  Lit nodes back to that same id.
\<close>

lemma chain_id_of_getChainName:
  assumes "chain_table_wf tbl" and "getChainName tbl chainId = Inr n"
  shows "chain_id_of tbl n = Some chainId"
proof -
  from assms(2) have "(n, chainId) \<in> set tbl" by (rule getChainName_Inr_mem)
  with assms(1) show ?thesis
    by (simp add: chain_id_of_def chain_table_wf_def)
qed

lemma LIT_CHAINS_wf: "chain_table_wf LIT_CHAINS"
  by (simp add: chain_table_wf_def LIT_CHAINS_def)

end
