(* ===== verification/Ledger.thy ===== *)
theory Ledger
  imports Prelude
begin

text \<open>
  The ledger the program pays on and reads from, and the \<open>ethers\<close> contract objects
  through which it does so. The KaraokeAccess contract itself is not in the repository;
  its functions are modelled from their use in the sources and the spec:
  \<open>purchaseSong(uint256) payable\<close> grants the sender access to a song when enough value
  is attached, \<open>hasSongAccess(address, uint256) view returns (bool)\<close> reads the
  access ledger, and the owner can revoke an access (spec, section 4.4: access is granted
  and revoked purely on chain; the entry point is \<open>revokeAccess(address, uint256)\<close>). A contract object (\<open>new ethers.Contract(target, abi, runner)\<close>) has
  the functions of its ABI and a runner: a provider can only read, a wallet can also send.
\<close>

section \<open>ABI values\<close>

datatype abi_value = VAddr address | VUint nat | VBool bool

section \<open>The KaraokeAccess contract\<close>

record karaoke_state =
  k_access :: "(address \<times> song_id) set"
  k_price :: wei
  k_funds :: wei
  k_owner :: address

definition karaoke_hasSongAccess :: "karaoke_state \<Rightarrow> address \<Rightarrow> song_id \<Rightarrow> bool" where
  "karaoke_hasSongAccess k user songId \<longleftrightarrow> (user, songId) \<in> k_access k"

text \<open>\<open>purchaseSong\<close>: \<open>None\<close> is a revert (not enough value attached).\<close>

definition karaoke_purchaseSong ::
  "karaoke_state \<Rightarrow> address \<Rightarrow> wei \<Rightarrow> song_id \<Rightarrow> karaoke_state option" where
  "karaoke_purchaseSong k sender value songId =
     (if k_price k \<le> value
      then Some (k\<lparr>k_access := insert (sender, songId) (k_access k), k_funds := k_funds k + value\<rparr>)
      else None)"

text \<open>\<open>revokeAccess\<close>: only the owner may call it, with no value attached.\<close>

definition karaoke_revokeAccess ::
  "karaoke_state \<Rightarrow> address \<Rightarrow> wei \<Rightarrow> address \<Rightarrow> song_id \<Rightarrow> karaoke_state option" where
  "karaoke_revokeAccess k sender value user songId =
     (if sender = k_owner k \<and> value = 0
      then Some (k\<lparr>k_access := k_access k - {(user, songId)}\<rparr>)
      else None)"

text \<open>A transaction to the contract, by function name and ABI arguments; \<open>None\<close> reverts.\<close>

definition karaoke_send ::
  "karaoke_state \<Rightarrow> address \<Rightarrow> wei \<Rightarrow> string \<Rightarrow> abi_value list \<Rightarrow> karaoke_state option" where
  "karaoke_send k sender value fname args =
     (if fname = ''purchaseSong'' then
        (case args of [VUint songId] \<Rightarrow> karaoke_purchaseSong k sender value songId | _ \<Rightarrow> None)
      else if fname = ''revokeAccess'' then
        (case args of [VAddr user, VUint songId] \<Rightarrow> karaoke_revokeAccess k sender value user songId | _ \<Rightarrow> None)
      else None)"

section \<open>The ledger\<close>

text \<open>
  Account balances, the deployed KaraokeAccess contracts by address, and the fee a
  transaction costs its sender.
\<close>

record ledger =
  l_balance :: "address \<Rightarrow> wei"
  l_contracts :: "address \<Rightarrow> karaoke_state option"
  l_fee :: wei

record receipt =
  r_from :: address
  r_to :: address

text \<open>A read-only call (\<open>eth_call\<close>).\<close>

fun ledger_call :: "ledger \<Rightarrow> address \<Rightarrow> string \<Rightarrow> abi_value list \<Rightarrow> error + abi_value" where
  "ledger_call l target fname args =
     (case l_contracts l target of
        None \<Rightarrow> Inl (EthersError BAD_DATA)
      | Some k \<Rightarrow>
          (case (fname = ''hasSongAccess'', args) of
             (True, [VAddr user, VUint songId]) \<Rightarrow> Inr (VBool (karaoke_hasSongAccess k user songId))
           | _ \<Rightarrow> Inl (EthersError CALL_EXCEPTION)))"

text \<open>
  A transaction from \<open>sender\<close> with \<open>value\<close> attached: refused with
  \<open>INSUFFICIENT_FUNDS\<close> when the sender cannot pay value and fee, with
  \<open>CALL_EXCEPTION\<close> when the contract reverts; otherwise mined, with its receipt.
\<close>

fun ledger_send ::
  "ledger \<Rightarrow> address \<Rightarrow> address \<Rightarrow> string \<Rightarrow> abi_value list \<Rightarrow> wei \<Rightarrow> error + (receipt \<times> ledger)" where
  "ledger_send l sender target fname args value =
     (if l_balance l sender < value + l_fee l then Inl (EthersError INSUFFICIENT_FUNDS)
      else case l_contracts l target of
        None \<Rightarrow> Inl (EthersError CALL_EXCEPTION)
      | Some k \<Rightarrow>
          (case karaoke_send k sender value fname args of
             None \<Rightarrow> Inl (EthersError CALL_EXCEPTION)
           | Some k' \<Rightarrow>
               Inr (\<lparr>r_from = sender, r_to = target\<rparr>,
                    l\<lparr>l_balance := (l_balance l)(sender := l_balance l sender - (value + l_fee l)),
                      l_contracts := (l_contracts l)(target := Some k')\<rparr>)))"

declare ledger_call.simps [simp del] ledger_send.simps [simp del]

text \<open>Whether a user holds access to a song on the contract at \<open>target\<close>.\<close>

definition has_access :: "ledger \<Rightarrow> address \<Rightarrow> address \<Rightarrow> song_id \<Rightarrow> bool" where
  "has_access l target user songId \<longleftrightarrow>
     (case l_contracts l target of None \<Rightarrow> False | Some k \<Rightarrow> karaoke_hasSongAccess k user songId)"

section \<open>Contract objects\<close>

text \<open>
  The runner of a contract object: a provider (read only) or a wallet with its address.
  An ABI entry names a function and says whether it is a \<open>view\<close> function.
\<close>

datatype runner = RProvider | RWallet address

record abi_fn =
  fn_name :: string
  fn_view :: bool

record contract =
  c_target :: address
  c_abi :: "abi_fn list"
  c_runner :: runner

text \<open>
  \<open>contract.f(args, {value})\<close> in ethers v6: a function the ABI does not declare is
  \<open>undefined\<close>, and calling it is a \<open>TypeError\<close>; a view function is a static call
  through the runner; any other function is sent as a transaction, which needs a runner
  that can send (a wallet), else \<open>UNSUPPORTED_OPERATION\<close>.
\<close>

definition abi_lookup :: "contract \<Rightarrow> string \<Rightarrow> abi_fn option" where
  "abi_lookup c f = find (\<lambda>a. fn_name a = f) (c_abi c)"

datatype call_result = CallValue abi_value | CallSent receipt

fun contract_invoke ::
  "contract \<Rightarrow> string \<Rightarrow> abi_value list \<Rightarrow> wei \<Rightarrow> ledger \<Rightarrow> error + (call_result \<times> ledger)" where
  "contract_invoke c f args value l =
     (case abi_lookup c f of
        None \<Rightarrow> Inl (TypeError f)
      | Some a \<Rightarrow>
          (if fn_view a
           then (case ledger_call l (c_target c) f args of
                   Inl e \<Rightarrow> Inl e
                 | Inr v \<Rightarrow> Inr (CallValue v, l))
           else (case c_runner c of
                   RProvider \<Rightarrow> Inl (EthersError UNSUPPORTED_OPERATION)
                 | RWallet sender \<Rightarrow>
                     (case ledger_send l sender (c_target c) f args value of
                        Inl e \<Rightarrow> Inl e
                      | Inr (r, l') \<Rightarrow> Inr (CallSent r, l')))))"

declare contract_invoke.simps [simp del]

text \<open>\<open>ethers.parseEther("0.001")\<close>, the value both purchase paths attach.\<close>

definition PURCHASE_VALUE :: wei where
  "PURCHASE_VALUE = 10 ^ 15"

section \<open>Lemmas\<close>

subsection \<open>Reads\<close>

lemma ledger_call_hasSongAccess:
  "l_contracts l t = Some k \<Longrightarrow>
     ledger_call l t ''hasSongAccess'' [VAddr u, VUint s] = Inr (VBool (has_access l t u s))"
  by (simp add: ledger_call.simps has_access_def)

lemma ledger_call_no_contract:
  "l_contracts l t = None \<Longrightarrow> ledger_call l t f args = Inl (EthersError BAD_DATA)"
  by (simp add: ledger_call.simps)

subsection \<open>Transactions\<close>

lemma ledger_send_insufficient:
  "l_balance l s < v + l_fee l \<Longrightarrow> ledger_send l s t f args v = Inl (EthersError INSUFFICIENT_FUNDS)"
  by (simp add: ledger_send.simps)

lemma ledger_send_insufficient_iff:
  "ledger_send l s t f args v = Inl (EthersError INSUFFICIENT_FUNDS) \<longleftrightarrow> l_balance l s < v + l_fee l"
  by (auto simp: ledger_send.simps split: option.splits bool.splits list.splits abi_value.splits
           prod.splits if_splits)

lemma ledger_send_Inr:
  assumes "ledger_send l s t f args v = Inr (r, l')"
  shows "\<exists>k k'. l_contracts l t = Some k \<and> karaoke_send k s v f args = Some k' \<and> v + l_fee l \<le> l_balance l s
      \<and> r = \<lparr>r_from = s, r_to = t\<rparr>
      \<and> l' = l\<lparr>l_balance := (l_balance l)(s := l_balance l s - (v + l_fee l)),
              l_contracts := (l_contracts l)(t := Some k')\<rparr>"
  using assms
  by (auto simp: ledger_send.simps split: option.splits if_splits)

lemma ledger_send_purchase_Inr:
  assumes "ledger_send l s t ''purchaseSong'' [VUint songId] v = Inr (r, l')"
  shows "\<exists>k k'. l_contracts l t = Some k
      \<and> karaoke_purchaseSong k s v songId = Some k' \<and> v + l_fee l \<le> l_balance l s
      \<and> r = \<lparr>r_from = s, r_to = t\<rparr>
      \<and> l' = l\<lparr>l_balance := (l_balance l)(s := l_balance l s - (v + l_fee l)),
              l_contracts := (l_contracts l)(t := Some k')\<rparr>"
  using ledger_send_Inr [OF assms] by (auto simp: karaoke_send_def)

lemma karaoke_purchaseSong_access:
  "karaoke_purchaseSong k s v songId = Some k' \<Longrightarrow>
     k_access k' = insert (s, songId) (k_access k)"
  by (auto simp: karaoke_purchaseSong_def split: if_splits)

text \<open>A mined purchase grants its sender access to the song it names.\<close>

lemma ledger_send_grants:
  "ledger_send l s t ''purchaseSong'' [VUint songId] v = Inr (r, l') \<Longrightarrow>
     r_from r = s \<and> has_access l' t s songId"
  by (drule ledger_send_purchase_Inr)
     (auto simp: has_access_def karaoke_hasSongAccess_def dest: karaoke_purchaseSong_access)

text \<open>A purchase at or above the price, by a sender who can pay it and the fee, is mined.\<close>

lemma ledger_send_purchase_ok:
  assumes "l_contracts l t = Some k" and "k_price k \<le> v" and "v + l_fee l \<le> l_balance l s"
  obtains r l' where "ledger_send l s t ''purchaseSong'' [VUint songId] v = Inr (r, l')"
  using assms that by (auto simp: ledger_send.simps karaoke_send_def karaoke_purchaseSong_def)

text \<open>The owner's \<open>revokeAccess\<close> removes exactly the access it names.\<close>

lemma ledger_send_revoke:
  assumes "l_contracts l t = Some k" and "k_owner k = s" and "l_fee l \<le> l_balance l s"
  shows "\<exists>r l'. ledger_send l s t ''revokeAccess'' [VAddr u, VUint songId] 0 = Inr (r, l')
           \<and> \<not> has_access l' t u songId
           \<and> (\<forall>u' x. (u', x) \<noteq> (u, songId) \<longrightarrow> has_access l' t u' x = has_access l t u' x)"
  using assms
  by (auto simp: ledger_send.simps karaoke_send_def karaoke_revokeAccess_def has_access_def
      karaoke_hasSongAccess_def)

subsection \<open>Contract objects\<close>

lemma contract_invoke_undeclared:
  "abi_lookup c f = None \<Longrightarrow> contract_invoke c f args v l = Inl (TypeError f)"
  by (simp add: contract_invoke.simps)

lemma contract_invoke_provider_send:
  "abi_lookup c f = Some a \<Longrightarrow> \<not> fn_view a \<Longrightarrow> c_runner c = RProvider \<Longrightarrow>
     contract_invoke c f args v l = Inl (EthersError UNSUPPORTED_OPERATION)"
  by (simp add: contract_invoke.simps)

lemma contract_invoke_view:
  "abi_lookup c f = Some a \<Longrightarrow> fn_view a \<Longrightarrow>
     contract_invoke c f args v l =
       (case ledger_call l (c_target c) f args of Inl e \<Rightarrow> Inl e | Inr x \<Rightarrow> Inr (CallValue x, l))"
  by (simp add: contract_invoke.simps)

lemma contract_invoke_send:
  "abi_lookup c f = Some a \<Longrightarrow> \<not> fn_view a \<Longrightarrow> c_runner c = RWallet s \<Longrightarrow>
     contract_invoke c f args v l =
       (case ledger_send l s (c_target c) f args v of
          Inl e \<Rightarrow> Inl e | Inr (r, l') \<Rightarrow> Inr (CallSent r, l'))"
  by (simp add: contract_invoke.simps)

text \<open>Reading through a contract object never changes the ledger.\<close>

lemma contract_invoke_view_ledger:
  "abi_lookup c f = Some a \<Longrightarrow> fn_view a \<Longrightarrow> contract_invoke c f args v l = Inr (x, l') \<Longrightarrow> l' = l"
  by (auto simp: contract_invoke_view split: sum.splits)

end
