(* ===== verification/Conditions.thy ===== *)
theory Conditions
  imports ChainRegistry Ledger
begin

text \<open>
  Access conditions. \<open>createAccessControlConditions\<close> (src/lit-protocol.ts) builds one
  EVM contract condition: call \<open>hasSongAccess(:userAddress, songId)\<close> on the karaoke
  contract, on the chain named by the registry, and expect \<open>true\<close>. The condition is
  data in the format of \<open>@lit-protocol/accs-schemas\<close> (\<open>LPACC_EVM_CONTRACT\<close>); the
  Lit nodes evaluate it at decryption time: they substitute the requester's address for
  the placeholder \<open>:userAddress\<close>, encode the other parameters by the ABI's input
  types, call the function on the chain the condition names and compare the result with
  the return value test. That evaluation belongs to the Lit network, not to this
  repository, and is modelled from the spec (\<open>eval_condition\<close>).
\<close>

section \<open>The condition format\<close>

record abi_io =
  io_name :: string
  io_type :: string

record function_abi =
  fa_inputs :: "abi_io list"
  fa_name :: string
  fa_outputs :: "abi_io list"
  fa_stateMutability :: string
  fa_type :: string

record return_value_test =
  rv_key :: string
  rv_comparator :: string
  rv_value :: string

record evm_condition =
  ec_contractAddress :: address
  ec_functionAbi :: function_abi
  ec_functionName :: string
  ec_functionParams :: "string list"
  ec_chain :: string
  ec_returnValueTest :: return_value_test

text \<open>\<open>KARAOKE_ACCESS_ABI\<close>.\<close>

definition KARAOKE_ACCESS_ABI :: function_abi where
  "KARAOKE_ACCESS_ABI =
     \<lparr>fa_inputs = [\<lparr>io_name = ''user'', io_type = ''address''\<rparr>,
                   \<lparr>io_name = ''songId'', io_type = ''uint256''\<rparr>],
      fa_name = ''hasSongAccess'',
      fa_outputs = [\<lparr>io_name = '''', io_type = ''bool''\<rparr>],
      fa_stateMutability = ''view'',
      fa_type = ''function''\<rparr>"

text \<open>The placeholder the Lit nodes replace by the requester's address.\<close>

definition USER_ADDRESS_PARAM :: string where
  "USER_ADDRESS_PARAM = '':userAddress''"

section \<open>Building the condition\<close>

text \<open>
  \<open>createAccessControlConditions(songId, chainId)\<close>; \<open>target\<close> is
  \<open>this.karaokeAccessContract.target\<close> and \<open>tbl\<close> the registry's table.
\<close>

definition karaoke_condition :: "address \<Rightarrow> song_id \<Rightarrow> string \<Rightarrow> evm_condition" where
  "karaoke_condition target songId chain =
     \<lparr>ec_contractAddress = target,
      ec_functionAbi = KARAOKE_ACCESS_ABI,
      ec_functionName = ''hasSongAccess'',
      ec_functionParams = [USER_ADDRESS_PARAM, dec_string songId],
      ec_chain = chain,
      ec_returnValueTest = \<lparr>rv_key = '''', rv_comparator = ''='', rv_value = ''true''\<rparr>\<rparr>"

definition createAccessControlConditions ::
  "chain_table \<Rightarrow> address \<Rightarrow> song_id \<Rightarrow> chain_id \<Rightarrow> error + evm_condition list" where
  "createAccessControlConditions tbl target songId chainId =
     (case getChainName tbl chainId of
        Inl e \<Rightarrow> Inl e
      | Inr chain \<Rightarrow> Inr [karaoke_condition target songId chain])"

section \<open>Evaluation by the Lit nodes\<close>

text \<open>One parameter, encoded by its ABI input type after the placeholder is substituted.\<close>

fun encode_param :: "address \<Rightarrow> abi_io \<Rightarrow> string \<Rightarrow> abi_value option" where
  "encode_param requester io p =
     (if p = USER_ADDRESS_PARAM then Some (VAddr requester)
      else if io_type io = ''address'' then Some (VAddr p)
      else if io_type io = ''uint256'' then map_option VUint (parse_dec p)
      else None)"

fun encode_params :: "address \<Rightarrow> abi_io list \<Rightarrow> string list \<Rightarrow> abi_value list option" where
  "encode_params requester [] [] = Some []"
| "encode_params requester (io # ios) (p # ps) =
     (case (encode_param requester io p, encode_params requester ios ps) of
        (Some v, Some vs) \<Rightarrow> Some (v # vs)
      | _ \<Rightarrow> None)"
| "encode_params requester _ _ = None"

text \<open>The textual form of a return value that the return value test compares.\<close>

fun show_abi_value :: "abi_value \<Rightarrow> string" where
  "show_abi_value (VBool True) = ''true''"
| "show_abi_value (VBool False) = ''false''"
| "show_abi_value (VUint n) = dec_string n"
| "show_abi_value (VAddr a) = a"

fun test_return :: "return_value_test \<Rightarrow> abi_value \<Rightarrow> bool" where
  "test_return t v =
     (if rv_comparator t = ''='' then show_abi_value v = rv_value t
      else if rv_comparator t = ''!='' then show_abi_value v \<noteq> rv_value t
      else False)"

text \<open>
  A condition holds for a requester when its chain is known, the ledger of that chain
  answers the call, and the answer passes the test. A condition set holds when every
  condition holds.
\<close>

definition eval_condition ::
  "chain_table \<Rightarrow> (chain_id \<Rightarrow> ledger option) \<Rightarrow> address \<Rightarrow> evm_condition \<Rightarrow> bool" where
  "eval_condition tbl ledgers requester c =
     (case chain_id_of tbl (ec_chain c) of
        None \<Rightarrow> False
      | Some cid \<Rightarrow>
          (case ledgers cid of
             None \<Rightarrow> False
           | Some l \<Rightarrow>
               (case encode_params requester (fa_inputs (ec_functionAbi c)) (ec_functionParams c) of
                  None \<Rightarrow> False
                | Some args \<Rightarrow>
                    (case ledger_call l (ec_contractAddress c) (ec_functionName c) args of
                       Inl _ \<Rightarrow> False
                     | Inr v \<Rightarrow> test_return (ec_returnValueTest c) v))))"

definition conditions_hold ::
  "chain_table \<Rightarrow> (chain_id \<Rightarrow> ledger option) \<Rightarrow> address \<Rightarrow> evm_condition list \<Rightarrow> bool" where
  "conditions_hold tbl ledgers requester cs \<longleftrightarrow> list_all (eval_condition tbl ledgers requester) cs"

section \<open>Lemmas\<close>

lemma createAccessControlConditions_Inl:
  "createAccessControlConditions tbl target songId chainId = Inl e \<longleftrightarrow>
     e = UnsupportedChainId chainId \<and> chainId \<notin> snd ` set tbl"
proof -
  have "createAccessControlConditions tbl target songId chainId = Inl e \<longleftrightarrow>
          getChainName tbl chainId = Inl e"
    by (simp add: createAccessControlConditions_def split: sum.split)
  then show ?thesis by (simp add: getChainName_Inl_iff)
qed

lemma createAccessControlConditions_Inr:
  "createAccessControlConditions tbl target songId chainId = Inr cs \<longleftrightarrow>
     (\<exists>chain. getChainName tbl chainId = Inr chain \<and> cs = [karaoke_condition target songId chain])"
  by (auto simp: createAccessControlConditions_def split: sum.splits)

lemma dec_string_not_placeholder [simp]: "dec_string n \<noteq> USER_ADDRESS_PARAM"
proof
  assume "dec_string n = USER_ADDRESS_PARAM"
  then have "list_all is_digit USER_ADDRESS_PARAM" using dec_string_digits by metis
  then show False by (simp add: USER_ADDRESS_PARAM_def is_digit_def)
qed

lemma encode_params_karaoke:
  "encode_params requester (fa_inputs KARAOKE_ACCESS_ABI) [USER_ADDRESS_PARAM, dec_string songId] =
     Some [VAddr requester, VUint songId]"
  by (simp add: KARAOKE_ACCESS_ABI_def)

lemma show_abi_value_true: "show_abi_value (VBool b) = ''true'' \<longleftrightarrow> b"
  by (cases b) simp_all

text \<open>
  The condition built for a song means, on the ledger of the chain it was built for,
  exactly that the requester holds access to that song on the target contract.
\<close>

lemma eval_condition_karaoke:
  assumes wf: "chain_table_wf tbl" and chain: "getChainName tbl chainId = Inr chain"
    and led: "ledgers chainId = Some l" and dep: "l_contracts l target \<noteq> None"
  shows "eval_condition tbl ledgers requester (karaoke_condition target songId chain)
         \<longleftrightarrow> has_access l target requester songId"
proof -
  from wf chain have "chain_id_of tbl chain = Some chainId"
    by (rule chain_id_of_getChainName)
  moreover from dep obtain k where "l_contracts l target = Some k" by blast
  ultimately show ?thesis
    using led by (simp add: eval_condition_def karaoke_condition_def encode_params_karaoke
        ledger_call_hasSongAccess show_abi_value_true del: encode_params.simps)
qed

text \<open>
  Hence the condition set built for a song holds for a requester exactly when the
  requester has bought the song: the predicate the Lit nodes re-evaluate at decryption
  time is the purchase ledger itself.
\<close>

lemma conditions_hold_created:
  assumes "chain_table_wf tbl" and "createAccessControlConditions tbl target songId chainId = Inr cs"
    and "ledgers chainId = Some l" and "l_contracts l target \<noteq> None"
  shows "conditions_hold tbl ledgers requester cs \<longleftrightarrow> has_access l target requester songId"
proof -
  from assms(2) obtain chain where ch: "getChainName tbl chainId = Inr chain"
    and cs: "cs = [karaoke_condition target songId chain]"
    by (auto simp: createAccessControlConditions_Inr)
  from assms(1) ch assms(3,4) cs show ?thesis
    by (simp add: conditions_hold_def eval_condition_karaoke)
qed

end
