(* ===== verification/LitNetwork.thy ===== *)
theory LitNetwork
  imports Conditions
begin

text \<open>
  The Lit network and its client, the external threshold-encryption service the program
  calls (\<open>@lit-protocol/lit-node-client\<close>; not in the repository, modelled from the
  spec). The model is an ideal functionality: \<open>encrypt\<close> binds the data to its
  condition set under a fresh ciphertext and integrity hash; \<open>decrypt\<close> checks the
  caller's authorization signature, re-evaluates the condition set against the ledger at
  request time and releases the data only if every condition holds and the ciphertext,
  hash and conditions are exactly those bound at encryption. The client must be
  connected first. Every request that reaches the network is counted in \<open>ln_calls\<close>,
  so that "no network call" can be stated.

  Authorization signatures (\<open>AuthSig\<close>) carry the signed message; a SIWE message is
  kept as its fields (the text \<open>prepareMessage\<close> renders and the nodes parse back),
  a plain message as its text. A signature is modelled as the pair of signer and message
  it was made for.
\<close>

section \<open>Bytes\<close>

text \<open>
  A \<open>Uint8Array\<close>: a view of \<open>u_length\<close> bytes at \<open>u_offset\<close> of an underlying
  buffer. Strings are byte strings here (the UTF-8 encoding that
  \<open>uint8arrayFromString\<close> produces and \<open>Buffer.toString\<close> reads back).
\<close>

record uint8array =
  u_buffer :: "char list"
  u_offset :: nat
  u_length :: nat

definition uint8arrayFromString :: "string \<Rightarrow> uint8array" where
  "uint8arrayFromString s = \<lparr>u_buffer = s, u_offset = 0, u_length = length s\<rparr>"

definition view_bytes :: "uint8array \<Rightarrow> char list" where
  "view_bytes a = take (u_length a) (drop (u_offset a) (u_buffer a))"

section \<open>Authorization signatures\<close>

record siwe_message =
  sm_domain :: string
  sm_address :: address
  sm_statement :: string
  sm_uri :: string
  sm_version :: string
  sm_chainId :: int
  sm_nonce :: string
  sm_issuedAt :: int
  sm_expirationTime :: "int option"

datatype signed_message = PlainMessage string | SiweMsg siwe_message

datatype signature = Signature address signed_message

record auth_sig =
  as_sig :: signature
  as_derivedVia :: string
  as_signedMessage :: signed_message
  as_address :: address

text \<open>
  The nodes' check of an authorization at time \<open>now\<close> (milliseconds), from the spec's
  AuthorizationSig: a signed canonical challenge with issued-at and expiry, which the
  network must not accept past its expiry. The signature is the claimed address's
  signature of the message, and the message is a SIWE challenge that names that address,
  is already issued, carries an expiry and has not expired. A plain message is not such a
  challenge: it has no validity window, so the network refuses it.
\<close>

fun message_valid :: "int \<Rightarrow> address \<Rightarrow> signed_message \<Rightarrow> bool" where
  "message_valid now a (PlainMessage _) = False"
| "message_valid now a (SiweMsg m) =
     (sm_address m = a \<and> sm_issuedAt m \<le> now \<and>
      (case sm_expirationTime m of None \<Rightarrow> False | Some t \<Rightarrow> now < t))"

definition auth_sig_valid :: "int \<Rightarrow> auth_sig \<Rightarrow> bool" where
  "auth_sig_valid now a \<longleftrightarrow>
     as_sig a = Signature (as_address a) (as_signedMessage a) \<and>
     message_valid now (as_address a) (as_signedMessage a)"

section \<open>The network\<close>

record lit_entry =
  le_data :: string
  le_hash :: string
  le_conds :: "evm_condition list"

record lit_net =
  ln_ready :: bool
  ln_store :: "string \<Rightarrow> lit_entry option"
  ln_next :: nat
  ln_calls :: nat

record encrypt_request =
  er_chain :: string
  er_dataToEncrypt :: uint8array
  er_evmContractConditions :: "evm_condition list"
  er_authSig :: auth_sig

record decrypt_request =
  dr_chain :: string
  dr_ciphertext :: string
  dr_dataToEncryptHash :: string
  dr_evmContractConditions :: "evm_condition list"
  dr_authSig :: auth_sig

definition lit_connect :: "lit_net \<Rightarrow> lit_net" where
  "lit_connect n = n\<lparr>ln_ready := True, ln_calls := Suc (ln_calls n)\<rparr>"

text \<open>\<open>client.encrypt\<close>: a fresh ciphertext and hash bound to the data and conditions.\<close>

definition lit_encrypt :: "lit_net \<Rightarrow> encrypt_request \<Rightarrow> (error + (string \<times> string)) \<times> lit_net" where
  "lit_encrypt n r =
     (if \<not> ln_ready n then (Inl (LitError LitNodeClientNotReady), n)
      else
        let ct = ''ct:'' @ dec_string (ln_next n);
            h = ''hash:'' @ dec_string (ln_next n);
            e = \<lparr>le_data = view_bytes (er_dataToEncrypt r), le_hash = h,
                 le_conds = er_evmContractConditions r\<rparr>
        in (Inr (ct, h),
            n\<lparr>ln_store := (ln_store n)(ct := Some e), ln_next := Suc (ln_next n),
              ln_calls := Suc (ln_calls n)\<rparr>))"

text \<open>
  \<open>client.decrypt\<close> at time \<open>now\<close>, the nodes reading the ledgers \<open>ledgers\<close>: the
  authorization is checked first, then the conditions are evaluated for the signer, and
  only then is the ciphertext opened, which needs the hash and conditions it was bound to.
\<close>

definition lit_decrypt ::
  "chain_table \<Rightarrow> (chain_id \<Rightarrow> ledger option) \<Rightarrow> int \<Rightarrow> lit_net \<Rightarrow> decrypt_request \<Rightarrow>
     (error + uint8array) \<times> lit_net" where
  "lit_decrypt tbl ledgers now n r =
     (if \<not> ln_ready n then (Inl (LitError LitNodeClientNotReady), n)
      else
        let n' = n\<lparr>ln_calls := Suc (ln_calls n)\<rparr>;
            res =
              (if \<not> auth_sig_valid now (dr_authSig r) then Inl (LitError InvalidAuthSig)
               else if \<not> conditions_hold tbl ledgers (as_address (dr_authSig r)) (dr_evmContractConditions r)
               then Inl (LitError AccessDenied)
               else case ln_store n (dr_ciphertext r) of
                 None \<Rightarrow> Inl (LitError DecryptionFailed)
               | Some e \<Rightarrow>
                   (if le_hash e = dr_dataToEncryptHash r \<and> le_conds e = dr_evmContractConditions r
                    then Inr (uint8arrayFromString (le_data e))
                    else Inl (LitError DecryptionFailed)))
        in (res, n'))"

text \<open>
  The network's invariant: every stored ciphertext was issued under an index below the
  next one, so the next ciphertext is fresh.
\<close>

definition lit_inv :: "lit_net \<Rightarrow> bool" where
  "lit_inv n \<longleftrightarrow> (\<forall>ct e. ln_store n ct = Some e \<longrightarrow> (\<exists>i < ln_next n. ct = ''ct:'' @ dec_string i))"

section \<open>Lemmas\<close>

lemma view_bytes_fromString [simp]: "view_bytes (uint8arrayFromString s) = s"
  by (simp add: view_bytes_def uint8arrayFromString_def)

lemma u_buffer_fromString [simp]: "u_buffer (uint8arrayFromString s) = s"
  by (simp add: uint8arrayFromString_def)

text \<open>What encryption stores, and that it keeps every earlier entry.\<close>

lemma lit_encrypt_Inr:
  assumes "lit_encrypt n r = (Inr (ct, h), n')"
  shows "ln_ready n \<and> ln_store n' ct = Some \<lparr>le_data = view_bytes (er_dataToEncrypt r), le_hash = h,
             le_conds = er_evmContractConditions r\<rparr>
         \<and> ln_ready n' \<and> ln_next n' = Suc (ln_next n) \<and> ln_calls n' = Suc (ln_calls n)"
  using assms by (auto simp: lit_encrypt_def Let_def split: if_splits)

lemma lit_encrypt_nonempty:
  "lit_encrypt n r = (Inr (ct, h), n') \<Longrightarrow> ct \<noteq> [] \<and> h \<noteq> []"
  by (auto simp: lit_encrypt_def Let_def split: if_splits)

lemma lit_encrypt_fresh:
  assumes "lit_encrypt n r = (Inr (ct, h), n')"
  shows "ct = ''ct:'' @ dec_string (ln_next n)"
  using assms by (auto simp: lit_encrypt_def Let_def split: if_splits)

lemma lit_inv_fresh: "lit_inv n \<Longrightarrow> ln_store n (''ct:'' @ dec_string (ln_next n)) = None"
  by (auto simp: lit_inv_def dec_string_inj)

lemma lit_encrypt_inv:
  assumes inv: "lit_inv n" and enc: "lit_encrypt n r = (res, n')"
  shows "lit_inv n'"
proof (cases "ln_ready n")
  case False
  with enc show ?thesis using inv by (simp add: lit_encrypt_def)
next
  case True
  show ?thesis unfolding lit_inv_def
  proof (intro allI impI)
    fix ct e
    assume st: "ln_store n' ct = Some e"
    show "\<exists>i < ln_next n'. ct = ''ct:'' @ dec_string i"
    proof (cases "ct = ''ct:'' @ dec_string (ln_next n)")
      case True
      with enc \<open>ln_ready n\<close> show ?thesis by (auto simp: lit_encrypt_def Let_def)
    next
      case False
      with enc st \<open>ln_ready n\<close> have "ln_store n ct = Some e"
        by (auto simp: lit_encrypt_def Let_def)
      with inv obtain i where i: "i < ln_next n" "ct = ''ct:'' @ dec_string i"
        by (auto simp: lit_inv_def)
      from enc \<open>ln_ready n\<close> have "ln_next n' = Suc (ln_next n)"
        by (auto simp: lit_encrypt_def Let_def)
      with i show ?thesis by (metis less_SucI)
    qed
  qed
qed

lemma lit_connect_inv: "lit_inv n \<Longrightarrow> lit_inv (lit_connect n)"
  by (simp add: lit_inv_def lit_connect_def)

text \<open>Under the invariant, encryption never overwrites an entry.\<close>

lemma lit_encrypt_keeps:
  assumes "lit_inv n" and "lit_encrypt n r = (res, n')" and "ln_store n c = Some e"
  shows "ln_store n' c = Some e"
proof -
  from assms(1) have "ln_store n (''ct:'' @ dec_string (ln_next n)) = None" by (rule lit_inv_fresh)
  with assms(2,3) show ?thesis
    by (auto simp: lit_encrypt_def Let_def split: if_splits)
qed

lemma lit_decrypt_store:
  "lit_decrypt tbl ledgers now n r = (res, n') \<Longrightarrow>
     ln_store n' = ln_store n \<and> ln_ready n' = ln_ready n \<and> ln_next n' = ln_next n"
  by (auto simp: lit_decrypt_def Let_def split: if_splits)

lemma lit_decrypt_Inr:
  assumes "lit_decrypt tbl ledgers now n r = (Inr a, n')"
  shows "\<exists>e. ln_ready n \<and> auth_sig_valid now (dr_authSig r)
     \<and> conditions_hold tbl ledgers (as_address (dr_authSig r)) (dr_evmContractConditions r)
     \<and> ln_store n (dr_ciphertext r) = Some e \<and> le_hash e = dr_dataToEncryptHash r
     \<and> le_conds e = dr_evmContractConditions r \<and> a = uint8arrayFromString (le_data e)"
  using assms by (auto simp: lit_decrypt_def Let_def split: if_splits option.splits)

text \<open>The three outcomes of a decryption request on a connected client.\<close>

lemma lit_decrypt_released:
  assumes "ln_ready n" and "auth_sig_valid now (dr_authSig r)"
    and "conditions_hold tbl ledgers (as_address (dr_authSig r)) (dr_evmContractConditions r)"
    and "ln_store n (dr_ciphertext r) = Some e" and "le_hash e = dr_dataToEncryptHash r"
    and "le_conds e = dr_evmContractConditions r"
  shows "lit_decrypt tbl ledgers now n r =
           (Inr (uint8arrayFromString (le_data e)), n\<lparr>ln_calls := Suc (ln_calls n)\<rparr>)"
  using assms by (simp add: lit_decrypt_def)

lemma lit_decrypt_denied:
  assumes "ln_ready n" and "auth_sig_valid now (dr_authSig r)"
    and "\<not> conditions_hold tbl ledgers (as_address (dr_authSig r)) (dr_evmContractConditions r)"
  shows "lit_decrypt tbl ledgers now n r = (Inl (LitError AccessDenied), n\<lparr>ln_calls := Suc (ln_calls n)\<rparr>)"
  using assms by (simp add: lit_decrypt_def)

lemma lit_decrypt_invalid_auth:
  assumes "ln_ready n" and "\<not> auth_sig_valid now (dr_authSig r)"
  shows "lit_decrypt tbl ledgers now n r = (Inl (LitError InvalidAuthSig), n\<lparr>ln_calls := Suc (ln_calls n)\<rparr>)"
  using assms by (simp add: lit_decrypt_def)

end
