(* ===== verification/OrbisDB.thy ===== *)
theory OrbisDB
  imports Prelude
begin

text \<open>
  The content store, OrbisDB (\<open>@useorbis/db-sdk\<close>; not in the repository, modelled
  from the spec and from the calls the sources make). Documents are kept with the model
  and context they were inserted under; \<open>select\<close> returns, in insertion order, the
  documents of one model and context that satisfy a \<open>where\<close> clause. Only the clause
  the program builds is modelled: a disjunction of case-insensitive substring tests on
  named fields, with ASCII case folding. An insert needs a connected user (\<open>initAuth\<close>);
  without one the run yields no document. Each run of a query is counted in
  \<open>db_calls\<close>.
\<close>

record 'r orbis_db =
  db_user :: bool
  db_docs :: "(string \<times> string \<times> 'r) list"
  db_calls :: nat

datatype where_clause = WContainsInsensitive string string | WOr "where_clause list"

definition lower_char :: "char \<Rightarrow> char" where
  "lower_char c = (if (65::nat) \<le> of_char c \<and> of_char c \<le> (90::nat) then char_of (of_char c + (32::nat)) else c)"

definition to_lower :: "string \<Rightarrow> string" where
  "to_lower s = map lower_char s"

fun contains :: "string \<Rightarrow> string \<Rightarrow> bool" where
  "contains s q = (take (length q) s = q \<or> (case s of [] \<Rightarrow> False | _ # s' \<Rightarrow> contains s' q))"

declare contains.simps [simp del]

definition contains_insensitive :: "string \<Rightarrow> string \<Rightarrow> bool" where
  "contains_insensitive s q \<longleftrightarrow> contains (to_lower s) (to_lower q)"

fun eval_where :: "('r \<Rightarrow> string \<Rightarrow> string) \<Rightarrow> where_clause \<Rightarrow> 'r \<Rightarrow> bool" where
  "eval_where field (WContainsInsensitive f q) r = contains_insensitive (field r f) q"
| "eval_where field (WOr cs) r = list_ex (\<lambda>c. eval_where field c r) cs"

definition orbis_insert :: "'r orbis_db \<Rightarrow> string \<Rightarrow> string \<Rightarrow> 'r \<Rightarrow> 'r option \<times> 'r orbis_db" where
  "orbis_insert db model ctx r =
     (if db_user db
      then (Some r, db\<lparr>db_docs := db_docs db @ [(model, ctx, r)], db_calls := Suc (db_calls db)\<rparr>)
      else (None, db\<lparr>db_calls := Suc (db_calls db)\<rparr>))"

definition orbis_select ::
  "('r \<Rightarrow> string \<Rightarrow> string) \<Rightarrow> 'r orbis_db \<Rightarrow> string \<Rightarrow> string \<Rightarrow> where_clause option \<Rightarrow> 'r list \<times> 'r orbis_db" where
  "orbis_select field db model ctx wh =
     (map (\<lambda>(m, c, r). r)
        (filter (\<lambda>(m, c, r). m = model \<and> c = ctx \<and>
                   (case wh of None \<Rightarrow> True | Some w \<Rightarrow> eval_where field w r)) (db_docs db)),
      db\<lparr>db_calls := Suc (db_calls db)\<rparr>)"

definition orbis_connect :: "'r orbis_db \<Rightarrow> 'r orbis_db" where
  "orbis_connect db = db\<lparr>db_user := True, db_calls := Suc (db_calls db)\<rparr>"

section \<open>Lemmas\<close>

lemma contains_Nil_query [simp]: "contains s []"
  by (subst contains.simps) simp

lemma contains_append: "contains (xs @ q @ ys) q"
proof (induction xs)
  case Nil
  then show ?case by (subst contains.simps) simp
next
  case (Cons x xs)
  then show ?case by (subst contains.simps) simp
qed

lemma contains_iff: "contains s q \<longleftrightarrow> (\<exists>xs ys. s = xs @ q @ ys)"
proof
  show "contains s q \<Longrightarrow> \<exists>xs ys. s = xs @ q @ ys"
  proof (induction s q rule: contains.induct)
    case (1 s q)
    show ?case
    proof (cases "take (length q) s = q")
      case True
      then have "s = [] @ q @ drop (length q) s" by (metis append_Nil append_take_drop_id)
      then show ?thesis by blast
    next
      case False
      with "1.prems" obtain c s' where s: "s = c # s'" and "contains s' q"
        by (subst (asm) contains.simps) (auto split: list.splits)
      with "1.IH" obtain xs ys where "s' = xs @ q @ ys" by blast
      with s have "s = (c # xs) @ q @ ys" by simp
      then show ?thesis by blast
    qed
  qed
  show "\<exists>xs ys. s = xs @ q @ ys \<Longrightarrow> contains s q"
    using contains_append by blast
qed

lemma orbis_select_docs [simp]: "db_docs (snd (orbis_select field db model ctx wh)) = db_docs db"
  by (simp add: orbis_select_def)

lemma orbis_select_None:
  "fst (orbis_select field db model ctx None) =
     map (\<lambda>(m, c, r). r) (filter (\<lambda>(m, c, r). m = model \<and> c = ctx) (db_docs db))"
  by (simp add: orbis_select_def)

lemma orbis_insert_Some:
  "db_user db \<Longrightarrow> orbis_insert db model ctx r = (Some r, db\<lparr>db_docs := db_docs db @ [(model, ctx, r)],
     db_calls := Suc (db_calls db)\<rparr>)"
  by (simp add: orbis_insert_def)


lemma contains_insensitive_self: "contains_insensitive s s"
  using contains_append [of "[]" "to_lower s" "[]"] by (simp add: contains_insensitive_def)

end
