(* ===== verification/World.thy ===== *)
theory World
  imports LitNetwork OrbisDB
begin

text \<open>
  The state of the world the scripts run in: the clock (\<open>Date.now()\<close>, milliseconds
  since the epoch, UTC) and the host's time zone (\<open>w_tz t\<close>: the offset in milliseconds
  of local time from UTC at the instant \<open>t\<close>, which changes at daylight-saving steps),
  the chain the JSON-RPC provider is connected to and its ledger, the Lit network, the
  OrbisDB store (its documents of type \<open>'r\<close>) and the process environment. The
  operations of this theory are the effects the program's components have on it: a call
  through a contract object, the wait for a transaction, and the requests to the Lit
  network. Only the provider's chain has a ledger the Lit nodes can read.
\<close>

record 'r world =
  w_now :: int
  w_tz :: "int \<Rightarrow> int"
  w_chain :: chain_id
  w_ledger :: ledger
  w_lit :: lit_net
  w_db :: "'r orbis_db"
  w_env :: "string \<Rightarrow> string option"

text \<open>
  ECMAScript's \<open>LocalTime(t)\<close> and \<open>UTC(t)\<close> (ECMA-262, 21.4.1.25-26): local time
  adds the offset in force at \<open>t\<close>; a local time is turned back into an instant by
  subtracting the offset in force at the instant it denotes under the offset of the
  local reading.
\<close>

definition local_time :: "'r world \<Rightarrow> int \<Rightarrow> int" where
  "local_time w t = t + w_tz w t"

definition utc_time :: "'r world \<Rightarrow> int \<Rightarrow> int" where
  "utc_time w l = l - w_tz w (l - w_tz w l)"

definition w_ledgers :: "'r world \<Rightarrow> chain_id \<Rightarrow> ledger option" where
  "w_ledgers w = (\<lambda>c. if c = w_chain w then Some (w_ledger w) else None)"

text \<open>\<open>await contract.f(...args, {value})\<close>.\<close>

definition invoke :: "contract \<Rightarrow> string \<Rightarrow> abi_value list \<Rightarrow> wei \<Rightarrow> ('r world, call_result) js" where
  "invoke c f args value =
     (\<lambda>w. case contract_invoke c f args value (w_ledger w) of
            Inl e \<Rightarrow> (Inl e, w)
          | Inr (res, l') \<Rightarrow> (Inr res, w\<lparr>w_ledger := l'\<rparr>))"

text \<open>
  \<open>await tx.wait()\<close>: the receipt of a sent transaction (mined when sent, in this
  model); a value returned by a static call has no \<open>wait\<close> method.
\<close>

fun tx_wait :: "call_result \<Rightarrow> ('r world, receipt) js" where
  "tx_wait (CallSent r) = ret r"
| "tx_wait (CallValue v) = throw (TypeError ''wait'')"

text \<open>JavaScript truthiness of an awaited call result (a transaction response is an object).\<close>

fun truthy :: "call_result \<Rightarrow> bool" where
  "truthy (CallValue (VBool b)) = b"
| "truthy (CallValue (VUint n)) = (n \<noteq> 0)"
| "truthy (CallValue (VAddr a)) = (a \<noteq> [])"
| "truthy (CallSent r) = True"

definition lit_connectJ :: "('r world, unit) js" where
  "lit_connectJ = (\<lambda>w. (Inr (), w\<lparr>w_lit := lit_connect (w_lit w)\<rparr>))"

definition lit_encryptJ :: "encrypt_request \<Rightarrow> ('r world, string \<times> string) js" where
  "lit_encryptJ r = (\<lambda>w. case lit_encrypt (w_lit w) r of (res, n') \<Rightarrow> (res, w\<lparr>w_lit := n'\<rparr>))"

definition lit_decryptJ :: "chain_table \<Rightarrow> decrypt_request \<Rightarrow> ('r world, uint8array) js" where
  "lit_decryptJ tbl r =
     (\<lambda>w. case lit_decrypt tbl (w_ledgers w) (w_now w) (w_lit w) r of (res, n') \<Rightarrow> (res, w\<lparr>w_lit := n'\<rparr>))"

section \<open>Lemmas\<close>

lemma invoke_apply:
  "invoke c f args value w =
     (case contract_invoke c f args value (w_ledger w) of
        Inl e \<Rightarrow> (Inl e, w) | Inr (res, l') \<Rightarrow> (Inr res, w\<lparr>w_ledger := l'\<rparr>))"
  by (simp add: invoke_def)

lemma invoke_view_unchanged:
  "abi_lookup c f = Some a \<Longrightarrow> fn_view a \<Longrightarrow> invoke c f args v w = (res, w') \<Longrightarrow> w' = w"
  by (auto simp: invoke_def contract_invoke_view split: sum.splits)

lemma w_ledgers_chain [simp]: "w_ledgers w (w_chain w) = Some (w_ledger w)"
  by (simp add: w_ledgers_def)

lemma lit_decryptJ_apply:
  "lit_decryptJ tbl r w =
     (fst (lit_decrypt tbl (w_ledgers w) (w_now w) (w_lit w) r),
      w\<lparr>w_lit := snd (lit_decrypt tbl (w_ledgers w) (w_now w) (w_lit w) r)\<rparr>)"
  by (simp add: lit_decryptJ_def split: prod.split)

lemma lit_encryptJ_apply:
  "lit_encryptJ r w = (fst (lit_encrypt (w_lit w) r), w\<lparr>w_lit := snd (lit_encrypt (w_lit w) r)\<rparr>)"
  by (simp add: lit_encryptJ_def split: prod.split)

end
