(* ===== verification/LitService.thy ===== *)
theory LitService
  imports World
begin

text \<open>
  \<open>LitProtocolService\<close> (src/lit-protocol.ts): the encryption gateway
  (\<open>encryptString\<close>), the decryption gateway (\<open>decryptString\<close>) and the purchase
  orchestrator (\<open>purchaseSongAccess\<close>), over a Lit client and a contract object. The
  service's fields are its contract object and the chain table it reads (the imported
  constant \<open>LIT_CHAINS\<close>); its Lit client is the world's. Its methods are operations
  on the world (\<open>('r world, 'a) js\<close>), composed as the source composes its awaits.
\<close>

record lit_service =
  ls_contract :: contract
  ls_chains :: chain_table

text \<open>The result of \<open>encryptString\<close>, also the payload \<open>decryptString\<close> takes.\<close>

record encrypted_data =
  ed_ciphertext :: string
  ed_dataToEncryptHash :: string
  ed_evmContractConditions :: "evm_condition list"

text \<open>The ABI entry ethers derives from a JSON fragment.\<close>

definition abi_fn_of :: "function_abi \<Rightarrow> abi_fn" where
  "abi_fn_of fa =
     \<lparr>fn_name = fa_name fa,
      fn_view = (fa_stateMutability fa = ''view'' \<or> fa_stateMutability fa = ''pure'')\<rparr>"

text \<open>
  The constructor: a new, unconnected Lit client, and a contract object whose ABI is
  \<open>[KARAOKE_ACCESS_ABI]\<close> and whose runner is the provider.
\<close>

definition LitProtocolService_new :: "address \<Rightarrow> ('r world, lit_service) js" where
  "LitProtocolService_new contractAddress =
     (\<lambda>w. (Inr \<lparr>ls_contract = \<lparr>c_target = contractAddress, c_abi = [abi_fn_of KARAOKE_ACCESS_ABI],
                                 c_runner = RProvider\<rparr>,
                 ls_chains = LIT_CHAINS\<rparr>,
           w\<lparr>w_lit := (w_lit w)\<lparr>ln_ready := False\<rparr>\<rparr>))"

definition lit_service_connect :: "lit_service \<Rightarrow> ('r world, unit) js" where
  "lit_service_connect ls = lit_connectJ"

definition encryptString ::
  "lit_service \<Rightarrow> string \<Rightarrow> song_id \<Rightarrow> chain_id \<Rightarrow> auth_sig \<Rightarrow> ('r world, encrypted_data) js" where
  "encryptString ls text songId chainId authSig =
     bindJ (liftE (createAccessControlConditions (ls_chains ls) (c_target (ls_contract ls)) songId chainId))
       (\<lambda>evmContractConditions.
     bindJ (liftE (getChainName (ls_chains ls) chainId))
       (\<lambda>chain.
     bindJ (lit_encryptJ \<lparr>er_chain = chain, er_dataToEncrypt = uint8arrayFromString text,
                         er_evmContractConditions = evmContractConditions, er_authSig = authSig\<rparr>)
       (\<lambda>(ciphertext, dataToEncryptHash).
     ret \<lparr>ed_ciphertext = ciphertext, ed_dataToEncryptHash = dataToEncryptHash,
          ed_evmContractConditions = evmContractConditions\<rparr>)))"

text \<open>
  \<open>decryptString\<close>: the plaintext is read from \<open>decryptedData.buffer\<close>, the whole
  buffer underneath the returned view.
\<close>

definition decryptString ::
  "lit_service \<Rightarrow> encrypted_data \<Rightarrow> chain_id \<Rightarrow> auth_sig \<Rightarrow> ('r world, string) js" where
  "decryptString ls encryptedData chainId authSig =
     bindJ (liftE (getChainName (ls_chains ls) chainId))
       (\<lambda>chain.
     bindJ (lit_decryptJ (ls_chains ls)
              \<lparr>dr_chain = chain, dr_ciphertext = ed_ciphertext encryptedData,
               dr_dataToEncryptHash = ed_dataToEncryptHash encryptedData,
               dr_evmContractConditions = ed_evmContractConditions encryptedData,
               dr_authSig = authSig\<rparr>)
       (\<lambda>decryptedData. ret (u_buffer decryptedData)))"

text \<open>
  \<open>purchaseSongAccess\<close>: send the purchase, wait for its receipt, read access for the
  receipt's sender; on an error whose code is \<open>INSUFFICIENT_FUNDS\<close>, and only when the
  contract's runner is a wallet, read access for the wallet's address and return
  \<open>true\<close> if it is held; every other error, and the original one otherwise, is rethrown.
\<close>

definition purchaseSongAccess :: "lit_service \<Rightarrow> song_id \<Rightarrow> ('r world, call_result) js" where
  "purchaseSongAccess ls songId =
     (let c = ls_contract ls in
      catchJ
        (bindJ (invoke c ''purchaseSong'' [VUint songId] PURCHASE_VALUE)
           (\<lambda>tx. bindJ (tx_wait tx)
           (\<lambda>receipt. invoke c ''hasSongAccess'' [VAddr (r_from receipt), VUint songId] 0)))
        (\<lambda>err.
           if error_code err = Some INSUFFICIENT_FUNDS
           then (case c_runner c of
                   RWallet address \<Rightarrow>
                     bindJ (invoke c ''hasSongAccess'' [VAddr address, VUint songId] 0)
                       (\<lambda>hasAccess. if truthy hasAccess then ret (CallValue (VBool True)) else throw err)
                 | RProvider \<Rightarrow> throw err)
           else throw err))"

text \<open>
  A contract object that can run the purchase as intended: its ABI declares a
  non-view \<open>purchaseSong\<close> and a view \<open>hasSongAccess\<close>, and its runner is a wallet.
\<close>

definition wallet_contract :: "contract \<Rightarrow> address \<Rightarrow> bool" where
  "wallet_contract c s \<longleftrightarrow>
     c_runner c = RWallet s \<and>
     (case abi_lookup c ''purchaseSong'' of Some a \<Rightarrow> \<not> fn_view a | None \<Rightarrow> False) \<and>
     (case abi_lookup c ''hasSongAccess'' of Some a \<Rightarrow> fn_view a | None \<Rightarrow> False)"

section \<open>Lemmas\<close>

lemma abi_lookup_lit_contract:
  "abi_lookup \<lparr>c_target = t, c_abi = [abi_fn_of KARAOKE_ACCESS_ABI], c_runner = r\<rparr> f =
     (if f = ''hasSongAccess'' then Some \<lparr>fn_name = ''hasSongAccess'', fn_view = True\<rparr> else None)"
  by (simp add: abi_lookup_def abi_fn_of_def KARAOKE_ACCESS_ABI_def)

lemma LitProtocolService_new_Inr:
  "LitProtocolService_new a w = (Inr ls, w') \<Longrightarrow>
     ls_contract ls = \<lparr>c_target = a, c_abi = [abi_fn_of KARAOKE_ACCESS_ABI], c_runner = RProvider\<rparr>
     \<and> ls_chains ls = LIT_CHAINS"
  by (auto simp: LitProtocolService_new_def)

subsection \<open>Encryption\<close>

lemma encryptString_unsupported:
  "chainId \<notin> snd ` set (ls_chains ls) \<Longrightarrow>
     encryptString ls text songId chainId a w = (Inl (UnsupportedChainId chainId), w)"
  by (simp add: encryptString_def createAccessControlConditions_def
      getChainName_Inl_iff [THEN iffD2] split: sum.split)

text \<open>What a successful encryption returns and stores.\<close>

lemma encryptString_Inr:
  assumes "encryptString ls text songId chainId a w = (Inr ed, w')"
  shows "\<exists>chain. getChainName (ls_chains ls) chainId = Inr chain
     \<and> ed_evmContractConditions ed = [karaoke_condition (c_target (ls_contract ls)) songId chain]
     \<and> ln_store (w_lit w') (ed_ciphertext ed) =
         Some \<lparr>le_data = text, le_hash = ed_dataToEncryptHash ed, le_conds = ed_evmContractConditions ed\<rparr>
     \<and> lit_encrypt (w_lit w) \<lparr>er_chain = chain, er_dataToEncrypt = uint8arrayFromString text,
          er_evmContractConditions = ed_evmContractConditions ed, er_authSig = a\<rparr>
        = (Inr (ed_ciphertext ed, ed_dataToEncryptHash ed), w_lit w')
     \<and> w' = w\<lparr>w_lit := w_lit w'\<rparr>"
proof -
  from assms obtain chain where ch: "getChainName (ls_chains ls) chainId = Inr chain"
    by (auto simp: encryptString_def createAccessControlConditions_def split: sum.splits)
  let ?r = "\<lparr>er_chain = chain, er_dataToEncrypt = uint8arrayFromString text,
             er_evmContractConditions = [karaoke_condition (c_target (ls_contract ls)) songId chain],
             er_authSig = a\<rparr>"
  from assms ch obtain ct h where enc: "lit_encrypt (w_lit w) ?r = (Inr (ct, h), w_lit w')"
    and ed: "ed = \<lparr>ed_ciphertext = ct, ed_dataToEncryptHash = h,
                   ed_evmContractConditions = [karaoke_condition (c_target (ls_contract ls)) songId chain]\<rparr>"
    and w': "w' = w\<lparr>w_lit := w_lit w'\<rparr>"
    by (auto simp: encryptString_def createAccessControlConditions_def lit_encryptJ_def
        split: prod.splits sum.splits)
  from enc have "ln_store (w_lit w') ct = Some \<lparr>le_data = text, le_hash = h,
      le_conds = [karaoke_condition (c_target (ls_contract ls)) songId chain]\<rparr>"
    by (auto dest: lit_encrypt_Inr)
  with ch enc ed w' show ?thesis by auto
qed

subsection \<open>Decryption\<close>

lemma decryptString_apply:
  "getChainName (ls_chains ls) chainId = Inr chain \<Longrightarrow>
     decryptString ls ed chainId a w =
       (case lit_decrypt (ls_chains ls) (w_ledgers w) (w_now w) (w_lit w)
               \<lparr>dr_chain = chain, dr_ciphertext = ed_ciphertext ed,
                dr_dataToEncryptHash = ed_dataToEncryptHash ed,
                dr_evmContractConditions = ed_evmContractConditions ed, dr_authSig = a\<rparr> of
          (Inl e, n') \<Rightarrow> (Inl e, w\<lparr>w_lit := n'\<rparr>)
        | (Inr d, n') \<Rightarrow> (Inr (u_buffer d), w\<lparr>w_lit := n'\<rparr>))"
  by (simp add: decryptString_def lit_decryptJ_def split: prod.split sum.split)

text \<open>
  Whatever \<open>decryptString\<close> returns is the data the network bound to the payload's
  ciphertext, with exactly the payload's hash and conditions, released because those
  conditions hold for the signer of a valid authorization at request time.
\<close>

lemma decryptString_Inr:
  assumes "decryptString ls ed chainId a w = (Inr p, w')"
  shows "\<exists>e. ln_store (w_lit w) (ed_ciphertext ed) = Some e \<and> p = le_data e
     \<and> le_hash e = ed_dataToEncryptHash ed \<and> le_conds e = ed_evmContractConditions ed
     \<and> auth_sig_valid (w_now w) a
     \<and> conditions_hold (ls_chains ls) (w_ledgers w) (as_address a) (ed_evmContractConditions ed)"
proof -
  from assms obtain chain where ch: "getChainName (ls_chains ls) chainId = Inr chain"
    by (auto simp: decryptString_def split: sum.splits)
  from assms ch obtain d n' where
    dec: "lit_decrypt (ls_chains ls) (w_ledgers w) (w_now w) (w_lit w)
            \<lparr>dr_chain = chain, dr_ciphertext = ed_ciphertext ed,
             dr_dataToEncryptHash = ed_dataToEncryptHash ed,
             dr_evmContractConditions = ed_evmContractConditions ed, dr_authSig = a\<rparr> = (Inr d, n')"
    and p: "p = u_buffer d"
    by (auto simp: decryptString_apply split: prod.splits sum.splits)
  from lit_decrypt_Inr [OF dec] p show ?thesis by auto
qed

subsection \<open>Encryption then decryption\<close>

text \<open>
  The ciphertext, hash and conditions of a successful encryption, and the chain they were
  built for: the facts the decryption theorems start from.
\<close>

lemma encryptString_bound:
  assumes "encryptString ls text songId chainId a w = (Inr ed, w')"
  obtains chain where "getChainName (ls_chains ls) chainId = Inr chain"
    and "createAccessControlConditions (ls_chains ls) (c_target (ls_contract ls)) songId chainId =
           Inr (ed_evmContractConditions ed)"
    and "ln_store (w_lit w') (ed_ciphertext ed) =
           Some \<lparr>le_data = text, le_hash = ed_dataToEncryptHash ed, le_conds = ed_evmContractConditions ed\<rparr>"
  using assms by (auto simp: createAccessControlConditions_Inr dest!: encryptString_Inr)

text \<open>
  Decryption of an encrypted payload that the network still holds, on the chain it was
  built for and for a valid authorization: the plaintext comes back exactly when the
  signer holds access on the ledger at that moment, and otherwise access is denied; the
  only effect is the one request made to the network.
\<close>

lemma decryptString_after_encrypt:
  assumes wf: "chain_table_wf (ls_chains ls)"
    and enc: "encryptString ls P songId chainId a0 w0 = (Inr ed, w1)"
    and keep: "ln_store (w_lit w2) (ed_ciphertext ed) = ln_store (w_lit w1) (ed_ciphertext ed)"
    and ready: "ln_ready (w_lit w2)" and chain: "w_chain w2 = chainId"
    and deployed: "l_contracts (w_ledger w2) (c_target (ls_contract ls)) \<noteq> None"
    and auth: "auth_sig_valid (w_now w2) a"
  shows "decryptString ls ed chainId a w2 =
           (if has_access (w_ledger w2) (c_target (ls_contract ls)) (as_address a) songId
            then Inr P else Inl (LitError AccessDenied),
            w2\<lparr>w_lit := (w_lit w2)\<lparr>ln_calls := Suc (ln_calls (w_lit w2))\<rparr>\<rparr>)"
proof -
  from enc obtain ch where ch: "getChainName (ls_chains ls) chainId = Inr ch"
    and cs: "createAccessControlConditions (ls_chains ls) (c_target (ls_contract ls)) songId chainId =
               Inr (ed_evmContractConditions ed)"
    and st: "ln_store (w_lit w1) (ed_ciphertext ed) =
               Some \<lparr>le_data = P, le_hash = ed_dataToEncryptHash ed, le_conds = ed_evmContractConditions ed\<rparr>"
    by (rule encryptString_bound)
  have "w_ledgers w2 chainId = Some (w_ledger w2)" using chain by (simp add: w_ledgers_def)
  with wf cs deployed have hold: "conditions_hold (ls_chains ls) (w_ledgers w2) (as_address a)
      (ed_evmContractConditions ed) \<longleftrightarrow> has_access (w_ledger w2) (c_target (ls_contract ls)) (as_address a) songId"
    by (simp add: conditions_hold_created)
  show ?thesis
  proof (cases "has_access (w_ledger w2) (c_target (ls_contract ls)) (as_address a) songId")
    case True
    with hold ready auth keep st show ?thesis
      by (simp add: decryptString_apply [OF ch] lit_decrypt_released)
  next
    case False
    with hold ready auth show ?thesis
      by (simp add: decryptString_apply [OF ch] lit_decrypt_denied)
  qed
qed

text \<open>
  C2. Round trip: lyrics encrypted for a song are returned exactly by a later decryption
  whose authorization is valid and whose signer currently holds access to the song, on
  the chain the lyrics were encrypted for, as long as the network still holds the
  ciphertext.
\<close>

theorem decrypt_after_encrypt:
  assumes wf: "chain_table_wf (ls_chains ls)"
    and enc: "encryptString ls P songId chainId a0 w0 = (Inr ed, w1)"
    and keep: "ln_store (w_lit w2) (ed_ciphertext ed) = ln_store (w_lit w1) (ed_ciphertext ed)"
    and ready: "ln_ready (w_lit w2)" and chain: "w_chain w2 = chainId"
    and deployed: "l_contracts (w_ledger w2) (c_target (ls_contract ls)) \<noteq> None"
    and auth: "auth_sig_valid (w_now w2) a"
    and paid: "has_access (w_ledger w2) (c_target (ls_contract ls)) (as_address a) songId"
  shows "fst (decryptString ls ed chainId a w2) = Inr P"
  using decryptString_after_encrypt [OF wf enc keep ready chain deployed auth] paid by simp

text \<open>
  C3. Negative round trip: a valid authorization whose signer does not hold access to the
  song is refused with \<open>AccessDenied\<close>, and no plaintext is returned.
\<close>

theorem decrypt_without_access_denied:
  assumes wf: "chain_table_wf (ls_chains ls)"
    and enc: "encryptString ls P songId chainId a0 w0 = (Inr ed, w1)"
    and ready: "ln_ready (w_lit w2)" and chain: "w_chain w2 = chainId"
    and deployed: "l_contracts (w_ledger w2) (c_target (ls_contract ls)) \<noteq> None"
    and auth: "auth_sig_valid (w_now w2) a"
    and unpaid: "\<not> has_access (w_ledger w2) (c_target (ls_contract ls)) (as_address a) songId"
  shows "fst (decryptString ls ed chainId a w2) = Inl (LitError AccessDenied)"
proof -
  from enc obtain ch where ch: "getChainName (ls_chains ls) chainId = Inr ch"
    and cs: "createAccessControlConditions (ls_chains ls) (c_target (ls_contract ls)) songId chainId =
               Inr (ed_evmContractConditions ed)"
    by (rule encryptString_bound)
  have "w_ledgers w2 chainId = Some (w_ledger w2)" using chain by (simp add: w_ledgers_def)
  with wf cs deployed unpaid have "\<not> conditions_hold (ls_chains ls) (w_ledgers w2) (as_address a)
      (ed_evmContractConditions ed)"
    by (simp add: conditions_hold_created)
  with ready auth show ?thesis
    by (simp add: decryptString_apply [OF ch] lit_decrypt_denied)
qed

subsection \<open>Purchase\<close>

lemma invoke_hasSongAccess:
  assumes "wallet_contract c s" and "l_contracts (w_ledger w) (c_target c) = Some k"
  shows "invoke c ''hasSongAccess'' [VAddr u, VUint x] v w =
           (Inr (CallValue (VBool (has_access (w_ledger w) (c_target c) u x))), w)"
  using assms
  by (auto simp: wallet_contract_def invoke_def contract_invoke_view ledger_call_hasSongAccess
      split: option.splits)

lemma invoke_purchase:
  assumes "wallet_contract c s"
  shows "invoke c ''purchaseSong'' args v w =
           (case ledger_send (w_ledger w) s (c_target c) ''purchaseSong'' args v of
              Inl e \<Rightarrow> (Inl e, w) | Inr (r, l') \<Rightarrow> (Inr (CallSent r), w\<lparr>w_ledger := l'\<rparr>))"
  using assms
  by (auto simp: wallet_contract_def invoke_def contract_invoke_send split: option.splits sum.splits)

text \<open>
  C4. The service as its constructor builds it cannot purchase: its contract object's ABI
  declares only \<open>hasSongAccess\<close>, so \<open>purchaseSong\<close> is not a function and the call
  throws a \<open>TypeError\<close>; that error has no code, so the recovery branch is never
  entered (and its runner, a provider, is no wallet either). Every call fails, on every
  state of the world, and changes nothing.
\<close>

theorem lit_service_purchase_always_fails:
  assumes "LitProtocolService_new contractAddress w0 = (Inr ls, w1)"
  shows "purchaseSongAccess ls songId w = (Inl (TypeError ''purchaseSong''), w)"
proof -
  from assms have "ls_contract ls = \<lparr>c_target = contractAddress, c_abi = [abi_fn_of KARAOKE_ACCESS_ABI],
                     c_runner = RProvider\<rparr>"
    by (simp add: LitProtocolService_new_Inr)
  then show ?thesis
    by (simp add: purchaseSongAccess_def Let_def invoke_def contract_invoke_undeclared abi_lookup_lit_contract)
qed

text \<open>
  C14. The decryption gateway itself checks nothing about the payload: once the chain is
  known and the client connected, every payload, one with an empty ciphertext included,
  is sent to the network as a decryption request.
\<close>

theorem decryptString_always_requests:
  assumes "getChainName (ls_chains ls) chainId = Inr chain" and "ln_ready (w_lit w)"
  shows "ln_calls (w_lit (snd (decryptString ls ed chainId a w))) = Suc (ln_calls (w_lit w))"
  using assms by (simp add: decryptString_apply lit_decrypt_def Let_def split: sum.split)

end
