(* ===== verification/Json.thy ===== *)
theory Json
  imports Prelude
begin

text \<open>
  \<open>JSON.stringify\<close> and \<open>JSON.parse\<close>, as far as the program uses them: the access
  conditions are stored in OrbisDB as \<open>JSON.stringify(evmContractConditions)\<close>
  (\<open>addSong\<close>) and read back with \<open>JSON.parse\<close> (\<open>getSongLyrics\<close>). Strings are
  byte strings; \<open>stringify\<close> escapes the quote, the backslash and the control
  characters, and \<open>parse\<close> undoes exactly those escapes, skips whitespace between
  tokens and rejects everything else it does not know. Numbers are the non-negative
  integers (the only ones the program could store). The parser is recursive descent with a
  fuel argument; \<open>json_parse\<close> gives it one unit per input character plus one, which
  is enough for every input (any larger fuel gives the same answer) and, for a printed
  value, enough to parse it back.
\<close>

datatype json = JNull | JBool bool | JNum nat | JStr string | JArr "json list"
  | JObj "(string \<times> json) list"

section \<open>Printing\<close>

definition QUOTE :: char where "QUOTE = CHR 0x22"
definition BSLASH :: char where "BSLASH = CHR 0x5C"

definition hex_digit :: "nat \<Rightarrow> char" where
  "hex_digit d = (if d < 10 then char_of (48 + d) else char_of (87 + d))"

text \<open>The escape \<open>JSON.stringify\<close> writes for one character.\<close>

definition esc_char :: "char \<Rightarrow> string" where
  "esc_char c =
     (if c = QUOTE then [BSLASH, QUOTE]
      else if c = BSLASH then [BSLASH, BSLASH]
      else if c = CHR 0x08 then [BSLASH, CHR ''b'']
      else if c = CHR 0x09 then [BSLASH, CHR ''t'']
      else if c = CHR 0x0A then [BSLASH, CHR ''n'']
      else if c = CHR 0x0C then [BSLASH, CHR ''f'']
      else if c = CHR 0x0D then [BSLASH, CHR ''r'']
      else if of_char c < (32::nat)
      then [BSLASH, CHR ''u'', CHR ''0'', CHR ''0'', hex_digit (of_char c div 16), hex_digit (of_char c mod 16)]
      else [c])"

definition quote_string :: "string \<Rightarrow> string" where
  "quote_string s = QUOTE # concat (map esc_char s) @ [QUOTE]"

fun json_print :: "json \<Rightarrow> string"
  and print_elems :: "json list \<Rightarrow> string"
  and print_members :: "(string \<times> json) list \<Rightarrow> string" where
  "json_print JNull = ''null''"
| "json_print (JBool b) = (if b then ''true'' else ''false'')"
| "json_print (JNum n) = dec_string n"
| "json_print (JStr s) = quote_string s"
| "json_print (JArr xs) = CHR ''['' # print_elems xs @ '']''"
| "json_print (JObj ms) = CHR ''{'' # print_members ms @ ''}''"
| "print_elems [] = []"
| "print_elems [x] = json_print x"
| "print_elems (x # y # xs) = json_print x @ CHR '','' # print_elems (y # xs)"
| "print_members [] = []"
| "print_members [(k, v)] = quote_string k @ CHR '':'' # json_print v"
| "print_members ((k, v) # m # ms) = quote_string k @ CHR '':'' # json_print v @ CHR '','' # print_members (m # ms)"

section \<open>Parsing\<close>

definition is_ws :: "char \<Rightarrow> bool" where
  "is_ws c \<longleftrightarrow> c = CHR '' '' \<or> c = CHR 0x09 \<or> c = CHR 0x0A \<or> c = CHR 0x0D"

definition skip_ws :: "string \<Rightarrow> string" where
  "skip_ws s = dropWhile is_ws s"

definition hex_val :: "char \<Rightarrow> nat option" where
  "hex_val c =
     (if (48::nat) \<le> of_char c \<and> of_char c \<le> (57::nat) then Some (of_char c - 48)
      else if (97::nat) \<le> of_char c \<and> of_char c \<le> (102::nat) then Some (of_char c - 87)
      else None)"

text \<open>
  The body of a string literal after its opening quote, up to and including the closing
  quote. A raw control character is a syntax error, as in \<open>JSON.parse\<close>.
\<close>

fun parse_string :: "string \<Rightarrow> (string \<times> string) option"
  and parse_escape :: "string \<Rightarrow> (string \<times> string) option" where
  "parse_string [] = None"
| "parse_string (c # r) =
     (if c = QUOTE then Some ([], r)
      else if c = BSLASH then parse_escape r
      else if of_char c < (32::nat) then None
      else map_option (\<lambda>(s, r'). (c # s, r')) (parse_string r))"
| "parse_escape [] = None"
| "parse_escape (e # r) =
     (let unesc =
        (if e = QUOTE then Some QUOTE else if e = BSLASH then Some BSLASH
         else if e = CHR ''/'' then Some (CHR ''/'')
         else if e = CHR ''b'' then Some (CHR 0x08) else if e = CHR ''t'' then Some (CHR 0x09)
         else if e = CHR ''n'' then Some (CHR 0x0A) else if e = CHR ''f'' then Some (CHR 0x0C)
         else if e = CHR ''r'' then Some (CHR 0x0D) else None)
      in case unesc of
           Some c \<Rightarrow> map_option (\<lambda>(s, r'). (c # s, r')) (parse_string r)
         | None \<Rightarrow>
             (if e = CHR ''u'' \<and> take 2 r = ''00'' \<and> length r \<ge> 4
              then (case (hex_val (r ! 2), hex_val (r ! 3)) of
                      (Some h, Some l) \<Rightarrow>
                        (if 16 * h + l < 128
                         then map_option (\<lambda>(s, r'). (char_of (16 * h + l) # s, r')) (parse_string (drop 4 r))
                         else None)
                    | _ \<Rightarrow> None)
              else None))"

fun parse_digits :: "string \<Rightarrow> nat \<Rightarrow> nat \<times> string" where
  "parse_digits [] acc = (acc, [])"
| "parse_digits (c # r) acc =
     (if is_digit c then parse_digits r (10 * acc + digit_val c) else (acc, c # r))"

text \<open>
  A value, the elements of an array after its first element starts, and the members of an
  object after its first member starts; each call spends one unit of fuel.
\<close>

fun parse_value :: "nat \<Rightarrow> string \<Rightarrow> (json \<times> string) option"
  and parse_elems :: "nat \<Rightarrow> string \<Rightarrow> (json list \<times> string) option"
  and parse_members :: "nat \<Rightarrow> string \<Rightarrow> ((string \<times> json) list \<times> string) option" where
  "parse_value 0 s = None"
| "parse_value (Suc n) s =
     (case skip_ws s of
        [] \<Rightarrow> None
      | c # r \<Rightarrow>
          (if c = QUOTE then map_option (\<lambda>(str, r'). (JStr str, r')) (parse_string r)
           else if c = CHR ''['' then
             (let r0 = skip_ws r in
              if r0 \<noteq> [] \<and> hd r0 = CHR '']'' then Some (JArr [], tl r0)
              else map_option (\<lambda>(xs, r'). (JArr xs, r')) (parse_elems n r))
           else if c = CHR ''{'' then
             (let r0 = skip_ws r in
              if r0 \<noteq> [] \<and> hd r0 = CHR ''}'' then Some (JObj [], tl r0)
              else map_option (\<lambda>(ms, r'). (JObj ms, r')) (parse_members n r))
           else if take 4 (c # r) = ''true'' then Some (JBool True, drop 3 r)
           else if take 5 (c # r) = ''false'' then Some (JBool False, drop 4 r)
           else if take 4 (c # r) = ''null'' then Some (JNull, drop 3 r)
           else if is_digit c then
             (case parse_digits r (digit_val c) of (k, r') \<Rightarrow> Some (JNum k, r'))
           else None))"
| "parse_elems 0 s = None"
| "parse_elems (Suc n) s =
     (case parse_value n s of
        None \<Rightarrow> None
      | Some (v, r) \<Rightarrow>
          (let r0 = skip_ws r in
           if r0 = [] then None
           else if hd r0 = CHR '','' then map_option (\<lambda>(vs, r'). (v # vs, r')) (parse_elems n (tl r0))
           else if hd r0 = CHR '']'' then Some ([v], tl r0)
           else None))"
| "parse_members 0 s = None"
| "parse_members (Suc n) s =
     (let s0 = skip_ws s in
      if s0 = [] \<or> hd s0 \<noteq> QUOTE then None
      else case parse_string (tl s0) of
        None \<Rightarrow> None
      | Some (k, r1) \<Rightarrow>
          (let r2 = skip_ws r1 in
           if r2 = [] \<or> hd r2 \<noteq> CHR '':'' then None
           else case parse_value n (tl r2) of
             None \<Rightarrow> None
           | Some (v, r3) \<Rightarrow>
               (let r4 = skip_ws r3 in
                if r4 = [] then None
                else if hd r4 = CHR '','' then map_option (\<lambda>(ms, r5). ((k, v) # ms, r5)) (parse_members n (tl r4))
                else if hd r4 = CHR ''}'' then Some ([(k, v)], tl r4)
                else None)))"

definition json_parse :: "string \<Rightarrow> error + json" where
  "json_parse s =
     (case parse_value (Suc (length s)) s of
        Some (j, r) \<Rightarrow> (if skip_ws r = [] then Inr j else Inl JsonSyntaxError)
      | None \<Rightarrow> Inl JsonSyntaxError)"

section \<open>Fuel\<close>

text \<open>
  The fuel a printed value needs: one unit per level of nesting and per element or member
  of an array or object.
\<close>

fun json_fuel :: "json \<Rightarrow> nat"
  and elems_fuel :: "json list \<Rightarrow> nat"
  and members_fuel :: "(string \<times> json) list \<Rightarrow> nat" where
  "json_fuel (JArr xs) = Suc (elems_fuel xs)"
| "json_fuel (JObj ms) = Suc (members_fuel ms)"
| "json_fuel _ = 1"
| "elems_fuel [] = 0"
| "elems_fuel [x] = Suc (json_fuel x)"
| "elems_fuel (x # y # xs) = Suc (max (json_fuel x) (elems_fuel (y # xs)))"
| "members_fuel [] = 0"
| "members_fuel [(k, v)] = Suc (json_fuel v)"
| "members_fuel ((k, v) # m # ms) = Suc (max (json_fuel v) (members_fuel (m # ms)))"

definition no_digit_start :: "string \<Rightarrow> bool" where
  "no_digit_start s \<longleftrightarrow> (case s of [] \<Rightarrow> True | c # _ \<Rightarrow> \<not> is_digit c)"

text \<open>Every printed value starts with a character that opens a token.\<close>

definition token_start :: "char \<Rightarrow> bool" where
  "token_start c \<longleftrightarrow> \<not> is_ws c \<and> c \<noteq> CHR '']'' \<and> c \<noteq> CHR ''}'' \<and> c \<noteq> CHR '','' \<and> c \<noteq> CHR '':''"

section \<open>Lemmas\<close>

lemma skip_ws_Cons [simp]: "\<not> is_ws c \<Longrightarrow> skip_ws (c # r) = c # r"
  by (simp add: skip_ws_def)

lemma skip_ws_Nil [simp]: "skip_ws [] = []"
  by (simp add: skip_ws_def)

lemma hex_val_hex_digit: "d < 16 \<Longrightarrow> hex_val (hex_digit d) = Some d"
  by (auto simp: hex_val_def hex_digit_def)

lemma parse_string_esc:
  "parse_string (esc_char c @ r) = map_option (\<lambda>(s, r'). (c # s, r')) (parse_string r)"
proof -
  consider "c = QUOTE" | "c = BSLASH" | "c = CHR 0x08" | "c = CHR 0x09" | "c = CHR 0x0A"
    | "c = CHR 0x0C" | "c = CHR 0x0D"
    | "c \<noteq> QUOTE \<and> c \<noteq> BSLASH \<and> c \<noteq> CHR 0x08 \<and> c \<noteq> CHR 0x09 \<and> c \<noteq> CHR 0x0A \<and> c \<noteq> CHR 0x0C
       \<and> c \<noteq> CHR 0x0D \<and> of_char c < (32::nat)"
    | "c \<noteq> QUOTE \<and> c \<noteq> BSLASH \<and> of_char c \<ge> (32::nat)"
    by (cases "of_char c < (32::nat)") (auto simp: QUOTE_def BSLASH_def)
  then show ?thesis
  proof cases
    case 8
    then have lt: "of_char c < (32::nat)" by simp
    have h: "hex_val (hex_digit (of_char c div 16)) = Some (of_char c div 16)"
      and l: "hex_val (hex_digit (of_char c mod 16)) = Some (of_char c mod 16)"
      using lt by (simp_all add: hex_val_hex_digit)
    have v: "16 * (of_char c div 16) + of_char c mod 16 = (of_char c :: nat)" by simp
    from 8 lt h l v show ?thesis
      by (simp add: esc_char_def QUOTE_def BSLASH_def Let_def)
  next
    case 9
    then show ?thesis by (simp add: esc_char_def QUOTE_def BSLASH_def)
  qed (simp_all add: esc_char_def QUOTE_def BSLASH_def)
qed

lemma parse_string_quoted:
  "parse_string (concat (map esc_char s) @ QUOTE # rest) = Some (s, rest)"
  by (induction s) (simp_all add: parse_string_esc)

lemma parse_digits_append:
  "list_all is_digit ds \<Longrightarrow> no_digit_start rest \<Longrightarrow>
     parse_digits (ds @ rest) acc = (foldl (\<lambda>acc c. 10 * acc + digit_val c) acc ds, rest)"
proof (induction ds arbitrary: acc)
  case Nil
  then show ?case by (cases rest) (simp_all add: no_digit_start_def)
next
  case (Cons d ds)
  then show ?case by simp
qed

lemma parse_dec_string_value:
  assumes "no_digit_start rest"
  obtains d ds where "dec_string n = d # ds" and "is_digit d"
    and "parse_digits (ds @ rest) (digit_val d) = (n, rest)"
proof -
  obtain d ds where eq: "dec_string n = d # ds"
    by (cases "dec_string n") auto
  from dec_string_digits [of n] eq have dig: "is_digit d" "list_all is_digit ds" by simp_all
  have "foldl (\<lambda>acc c. 10 * acc + digit_val c) 0 (d # ds) = n"
    using foldl_dec_string [of n] eq by simp
  then have "foldl (\<lambda>acc c. 10 * acc + digit_val c) (digit_val d) ds = n" by simp
  with dig assms have "parse_digits (ds @ rest) (digit_val d) = (n, rest)"
    by (simp add: parse_digits_append)
  with eq dig that show ?thesis by blast
qed

lemma digit_token_start: "is_digit c \<Longrightarrow> token_start c"
  by (auto simp: token_start_def is_digit_def is_ws_def)

lemma json_print_start: "\<exists>c cs. json_print j = c # cs \<and> token_start c"
proof (cases j)
  case (JNum n)
  obtain d ds where "dec_string n = d # ds" by (cases "dec_string n") auto
  moreover from this dec_string_digits [of n] have "is_digit d" by simp
  ultimately show ?thesis using JNum by (auto intro: digit_token_start)
qed (auto simp: token_start_def is_ws_def quote_string_def QUOTE_def)

lemma digit_not_opener:
  "is_digit c \<Longrightarrow> c \<noteq> QUOTE \<and> c \<noteq> CHR ''['' \<and> c \<noteq> CHR ''{'' \<and> c \<noteq> CHR ''t'' \<and> c \<noteq> CHR ''f''
     \<and> c \<noteq> CHR ''n''"
  by (auto simp: is_digit_def QUOTE_def)

lemma print_elems_start: "xs \<noteq> [] \<Longrightarrow> \<exists>c cs. print_elems xs = c # cs \<and> token_start c"
proof (cases xs)
  case (Cons x ys)
  obtain c cs where "json_print x = c # cs" and "token_start c" using json_print_start by blast
  with Cons show ?thesis by (cases ys) auto
qed simp

lemma print_members_start: "ms \<noteq> [] \<Longrightarrow> \<exists>cs. print_members ms = QUOTE # cs"
proof (cases ms)
  case (Cons m ys)
  then show ?thesis by (cases m; cases ys) (auto simp: quote_string_def)
qed simp

lemma token_start_simps:
  "token_start c \<Longrightarrow> \<not> is_ws c \<and> c \<noteq> CHR '']'' \<and> c \<noteq> CHR ''}''"
  by (simp add: token_start_def)

lemma ws_simps [simp]:
  "\<not> is_ws QUOTE" "\<not> is_ws (CHR ''['')" "\<not> is_ws (CHR ''{'')" "\<not> is_ws (CHR ''t'')"
  "\<not> is_ws (CHR ''f'')" "\<not> is_ws (CHR ''n'')" "\<not> is_ws (CHR '']'')" "\<not> is_ws (CHR ''}'')" "\<not> is_ws (CHR '','')" "\<not> is_ws (CHR '':'')"
  by (simp_all add: is_ws_def QUOTE_def)

lemma no_digit_start_simps [simp]:
  "no_digit_start []" "no_digit_start (CHR '']'' # r)" "no_digit_start (CHR ''}'' # r)"
  "no_digit_start (CHR '','' # r)"
  by (simp_all add: no_digit_start_def is_digit_def)

lemma parse_print:
  "json_fuel j \<le> n \<Longrightarrow> no_digit_start rest \<Longrightarrow> parse_value n (json_print j @ rest) = Some (j, rest)"
  "xs \<noteq> [] \<Longrightarrow> elems_fuel xs \<le> n \<Longrightarrow>
     parse_elems n (print_elems xs @ CHR '']'' # rest) = Some (xs, rest)"
  "ms \<noteq> [] \<Longrightarrow> members_fuel ms \<le> n \<Longrightarrow>
     parse_members n (print_members ms @ CHR ''}'' # rest) = Some (ms, rest)"
proof (induction j and xs and ms arbitrary: n rest and n rest and n rest
       rule: json_print_print_elems_print_members.induct)
  case 1
  then obtain m where "n = Suc m" by (cases n) auto
  then show ?case by (simp add: QUOTE_def)
next
  case (2 b)
  then obtain m where "n = Suc m" by (cases n) auto
  then show ?case by (cases b) (simp_all add: QUOTE_def)
next
  case (3 k)
  then obtain m where n: "n = Suc m" by (cases n) auto
  from "3.prems"(2) obtain d ds where ds: "dec_string k = d # ds" and dig: "is_digit d"
    and pd: "parse_digits (ds @ rest) (digit_val d) = (k, rest)"
    by (rule parse_dec_string_value)
  from dig have "\<not> is_ws d" using digit_token_start token_start_def by blast
  with n ds dig pd digit_not_opener [OF dig] show ?case by simp
next
  case (4 str)
  then obtain m where "n = Suc m" by (cases n) auto
  then show ?case by (simp add: quote_string_def parse_string_quoted)
next
  case (5 xs)
  then obtain m where n: "n = Suc m" by (cases n) auto
  show ?case
  proof (cases "xs = []")
    case True
    with n show ?thesis by (simp add: QUOTE_def)
  next
    case False
    then obtain c cs where pe: "print_elems xs = c # cs" and ts: "token_start c"
      using print_elems_start by blast
    from "5.prems"(1) n have "elems_fuel xs \<le> m" by simp
    with False "5.IH" have "parse_elems m (print_elems xs @ CHR '']'' # rest) = Some (xs, rest)" by blast
    with n pe token_start_simps [OF ts] show ?thesis by (simp add: QUOTE_def)
  qed
next
  case (6 ms)
  then obtain m where n: "n = Suc m" by (cases n) auto
  show ?case
  proof (cases "ms = []")
    case True
    with n show ?thesis by (simp add: QUOTE_def)
  next
    case False
    then obtain cs where pm: "print_members ms = QUOTE # cs" using print_members_start by blast
    from "6.prems"(1) n have "members_fuel ms \<le> m" by simp
    with False "6.IH" have "parse_members m (print_members ms @ CHR ''}'' # rest) = Some (ms, rest)" by blast
    with n pm show ?thesis by (simp add: QUOTE_def is_ws_def)
  qed
next
  case 7
  then show ?case by simp
next
  case (8 x)
  then obtain m where n: "n = Suc m" and f: "json_fuel x \<le> m" by (cases n) auto
  with "8.IH" have "parse_value m (json_print x @ CHR '']'' # rest) = Some (x, CHR '']'' # rest)" by simp
  with n show ?case by simp
next
  case (9 x y xs)
  then obtain m where n: "n = Suc m" and f1: "json_fuel x \<le> m" and f2: "elems_fuel (y # xs) \<le> m"
    by (cases n) auto
  from "9.IH"(1) [OF f1, of "CHR '','' # print_elems (y # xs) @ CHR '']'' # rest"]
  have "parse_value m (json_print x @ CHR '','' # print_elems (y # xs) @ CHR '']'' # rest) =
          Some (x, CHR '','' # print_elems (y # xs) @ CHR '']'' # rest)" by simp
  moreover from "9.IH"(2) f2 have "parse_elems m (print_elems (y # xs) @ CHR '']'' # rest) = Some (y # xs, rest)"
    by simp
  ultimately show ?case using n by simp
next
  case 10
  then show ?case by simp
next
  case (11 k v)
  then obtain m where n: "n = Suc m" and f: "json_fuel v \<le> m" by (cases n) auto
  with "11.IH" have "parse_value m (json_print v @ CHR ''}'' # rest) = Some (v, CHR ''}'' # rest)" by simp
  with n show ?case by (simp add: quote_string_def parse_string_quoted)
next
  case (12 k v m' ms)
  then obtain m where n: "n = Suc m" and f1: "json_fuel v \<le> m" and f2: "members_fuel (m' # ms) \<le> m"
    by (cases n) auto
  from "12.IH"(1) [OF f1, of "CHR '','' # print_members (m' # ms) @ CHR ''}'' # rest"]
  have "parse_value m (json_print v @ CHR '','' # print_members (m' # ms) @ CHR ''}'' # rest) =
          Some (v, CHR '','' # print_members (m' # ms) @ CHR ''}'' # rest)" by simp
  moreover from "12.IH"(2) f2 have "parse_members m (print_members (m' # ms) @ CHR ''}'' # rest) =
      Some (m' # ms, rest)" by simp
  ultimately show ?case using n by (simp add: quote_string_def parse_string_quoted)
qed

lemma json_fuel_le:
  "json_fuel j \<le> length (json_print j)"
  "elems_fuel xs \<le> Suc (length (print_elems xs))"
  "members_fuel ms \<le> Suc (length (print_members ms))"
proof (induction j and xs and ms rule: json_print_print_elems_print_members.induct)
  case (3 k)
  have "dec_string k \<noteq> []" by simp
  then show ?case by (simp add: Suc_leI)
qed (auto simp: quote_string_def)

text \<open>Parsing a printed value gives the value back.\<close>

theorem json_parse_print: "json_parse (json_print j) = Inr j"
proof -
  have "json_fuel j \<le> Suc (length (json_print j))" using json_fuel_le(1) [of j] by simp
  from parse_print(1) [OF this, of "[]"]
  have "parse_value (Suc (length (json_print j))) (json_print j) = Some (j, [])"
    by (simp add: no_digit_start_def)
  then show ?thesis by (simp add: json_parse_def)
qed

text \<open>The parser always consumes input, and never needs more fuel than it consumed.\<close>

lemma skip_ws_length: "length (skip_ws s) \<le> length s"
  by (simp add: skip_ws_def length_dropWhile_le)

lemma parse_string_length:
  "parse_string s = Some (str, r) \<Longrightarrow> length r < length s"
  "parse_escape s = Some (str, r) \<Longrightarrow> length r < length s"
proof (induction s and s arbitrary: str and str rule: parse_string_parse_escape.induct)
  case (4 e r')
  then show ?case
    by (auto simp: Let_def split: if_splits option.splits prod.splits) (meson less_SucI less_imp_diff_less le_imp_less_Suc diff_le_self order.strict_trans2)+
qed (auto split: if_splits)

lemma parse_digits_length: "parse_digits s acc = (k, r) \<Longrightarrow> length r \<le> length s"
  by (induction s acc rule: parse_digits.induct) (auto split: if_splits)

lemma elems_fuel_Cons:
  "elems_fuel (x # xs) = Suc (if xs = [] then json_fuel x else max (json_fuel x) (elems_fuel xs))"
  by (cases xs) simp_all

lemma members_fuel_Cons:
  "members_fuel ((k, v) # ms) = Suc (if ms = [] then json_fuel v else max (json_fuel v) (members_fuel ms))"
  by (cases ms) simp_all

lemma json_fuel_pos: "0 < json_fuel j"
  by (cases j) simp_all

lemma parse_consumes:
  "parse_value n s = Some (j, r) \<Longrightarrow> json_fuel j + length r \<le> length s"
  "parse_elems n s = Some (xs, r) \<Longrightarrow> elems_fuel xs + length r \<le> length s"
  "parse_members n s = Some (ms, r) \<Longrightarrow> members_fuel ms + length r \<le> length s"
proof (induction n s and n s and n s arbitrary: j r and xs r and ms r
       rule: parse_value_parse_elems_parse_members.induct)
  case (2 n s)
  obtain c t where sk: "skip_ws s = c # t"
    using "2.prems" by (cases "skip_ws s") auto
  have lt: "Suc (length t) \<le> length s" using skip_ws_length [of s] sk by simp
  have lt0: "length (skip_ws t) \<le> length t" by (rule skip_ws_length)
  show ?case
  proof (cases "c = QUOTE")
    case True
    with "2.prems" sk lt parse_string_length(1) [of t] show ?thesis by fastforce
  next
    case nq: False
    show ?thesis
    proof (cases "c = CHR ''['' \<or> c = CHR ''{''")
      case True
      show ?thesis
      proof (cases "skip_ws t \<noteq> [] \<and> (hd (skip_ws t) = CHR '']'' \<and> c = CHR ''['' \<or> hd (skip_ws t) = CHR ''}'' \<and> c = CHR ''{'')")
        case True
        with "2.prems" sk nq lt lt0 show ?thesis by (cases "skip_ws t") (auto simp: Let_def)
      next
        case False
        consider "c = CHR ''[''" "\<not> (skip_ws t \<noteq> [] \<and> hd (skip_ws t) = CHR '']'')"
          | "c = CHR ''{''" "\<not> (skip_ws t \<noteq> [] \<and> hd (skip_ws t) = CHR ''}'')"
          using True False by auto
        then show ?thesis
        proof cases
          case 1
          with "2.prems" sk nq obtain xs where pe: "parse_elems n t = Some (xs, r)" and j: "j = JArr xs"
            by (auto simp: Let_def)
          from "2.IH"(1) [OF sk nq 1(1) refl 1(2) pe] j lt show ?thesis by simp
        next
          case 2
          with "2.prems" sk nq obtain ms where pm: "parse_members n t = Some (ms, r)" and j: "j = JObj ms"
            by (auto simp: Let_def)
          from "2.IH"(2) [OF sk nq _ 2(1) refl 2(2) pm] 2 j lt show ?thesis by simp
        qed
      qed
    next
      case False
      with "2.prems" sk nq lt show ?thesis
        by (auto split: if_splits prod.splits dest: parse_digits_length)
    qed
  qed
next
  case (4 n s)
  from "4.prems" obtain v r1 where pv: "parse_value n s = Some (v, r1)"
    by (auto split: option.splits)
  have fv: "json_fuel v + length r1 \<le> length s" by (rule "4.IH"(1) [OF pv])
  have l0: "length (skip_ws r1) \<le> length r1" by (rule skip_ws_length)
  show ?case
  proof (cases "skip_ws r1 \<noteq> [] \<and> hd (skip_ws r1) = CHR '',''")
    case True
    with "4.prems" pv obtain vs where pe: "parse_elems n (tl (skip_ws r1)) = Some (vs, r)" and xs: "xs = v # vs"
      by (auto simp: Let_def)
    have "elems_fuel vs + length r \<le> length (tl (skip_ws r1))"
      using "4.IH"(2) [OF pv refl refl] True pe by simp
    with l0 True have "elems_fuel vs + length r < length r1" by (cases "skip_ws r1") auto
    with xs fv json_fuel_pos [of v] show ?thesis by (auto simp: elems_fuel_Cons max_def)
  next
    case False
    with "4.prems" pv l0 fv show ?thesis
      by (cases "skip_ws r1") (auto simp: Let_def split: if_splits)
  qed
next
  case (6 n s)
  from "6.prems" obtain k r1 where s0: "skip_ws s \<noteq> []" "hd (skip_ws s) = QUOTE"
    and ps: "parse_string (tl (skip_ws s)) = Some (k, r1)"
    by (auto simp: Let_def split: if_splits option.splits)
  from "6.prems" s0 ps obtain v r3 where r2: "skip_ws r1 \<noteq> []" "hd (skip_ws r1) = CHR '':''"
    and pv: "parse_value n (tl (skip_ws r1)) = Some (v, r3)"
    by (auto simp: Let_def split: if_splits option.splits)
  have l1: "length r1 < length (tl (skip_ws s))" by (rule parse_string_length(1) [OF ps])
  have ls: "length (skip_ws s) \<le> length s" "length (skip_ws r1) \<le> length r1"
    "length (skip_ws r3) \<le> length r3"
    by (simp_all add: skip_ws_length)
  have fv: "json_fuel v + length r3 \<le> length (tl (skip_ws r1))"
    using "6.IH"(1) [OF refl _ ps refl refl _ pv] s0 r2 by simp
  have v3: "length r3 < length (skip_ws r1)" using fv r2 json_fuel_pos [of v] by (cases "skip_ws r1") auto
  have k1: "Suc (length r1) < length s" using l1 ls(1) s0 by (cases "skip_ws s") auto
  have eq: "(if skip_ws r3 = [] then None
       else if hd (skip_ws r3) = CHR '','' then
         map_option (\<lambda>(ms, r5). ((k, v) # ms, r5)) (parse_members n (tl (skip_ws r3)))
       else if hd (skip_ws r3) = CHR ''}'' then Some ([(k, v)], tl (skip_ws r3)) else None) = Some (ms, r)"
    using "6.prems" s0 ps r2 pv by (simp add: Let_def)
  show ?case
  proof (cases "skip_ws r3 \<noteq> [] \<and> hd (skip_ws r3) = CHR '',''")
    case True
    with eq obtain ms' where pm: "parse_members n (tl (skip_ws r3)) = Some (ms', r)"
      and ms: "ms = (k, v) # ms'"
      by auto
    have "members_fuel ms' + length r \<le> length (tl (skip_ws r3))"
      using "6.IH"(2) [OF refl _ ps refl refl _ pv refl refl _ _ pm] s0 r2 True by simp
    with ls(3) True have "members_fuel ms' + length r < length r3" by (cases "skip_ws r3") auto
    with v3 k1 ms fv ls(2) show ?thesis by (auto simp: members_fuel_Cons max_def)
  next
    case False
    with eq have ms: "ms = [(k, v)]" and r: "r = tl (skip_ws r3)" and ne: "skip_ws r3 \<noteq> []"
      by (auto split: if_splits)
    from ne r ls(3) have "length r < length r3" by (cases "skip_ws r3") auto
    with v3 k1 ms fv ls(2) show ?thesis by simp
  qed
qed simp_all

lemma parse_fuel_enough:
  "parse_value n s = Some (j, r) \<Longrightarrow> json_fuel j \<le> m \<Longrightarrow> parse_value m s = Some (j, r)"
  "parse_elems n s = Some (xs, r) \<Longrightarrow> elems_fuel xs \<le> m \<Longrightarrow> parse_elems m s = Some (xs, r)"
  "parse_members n s = Some (ms, r) \<Longrightarrow> members_fuel ms \<le> m \<Longrightarrow> parse_members m s = Some (ms, r)"
proof (induction n s and n s and n s arbitrary: j r m and xs r m and ms r m
       rule: parse_value_parse_elems_parse_members.induct)
  case (2 n s)
  obtain m' where m: "m = Suc m'" using "2.prems"(2) json_fuel_pos [of j] by (cases m) auto
  obtain c t where sk: "skip_ws s = c # t"
    using "2.prems"(1) by (cases "skip_ws s") auto
  show ?case
  proof (cases "c = CHR ''['' \<and> \<not> (skip_ws t \<noteq> [] \<and> hd (skip_ws t) = CHR '']'')")
    case arr: True
    with "2.prems"(1) sk obtain xs where pe: "parse_elems n t = Some (xs, r)" and j: "j = JArr xs"
      by (auto simp: Let_def QUOTE_def)
    have nq: "c \<noteq> QUOTE" using arr by (simp add: QUOTE_def)
    from "2.prems"(2) j m have "elems_fuel xs \<le> m'" by simp
    with "2.IH"(1) [OF sk nq conjunct1 [OF arr] refl conjunct2 [OF arr] pe] have "parse_elems m' t = Some (xs, r)"
      by simp
    with m sk arr j show ?thesis by (auto simp: QUOTE_def Let_def)
  next
    case narr: False
    show ?thesis
    proof (cases "c = CHR ''{'' \<and> \<not> (skip_ws t \<noteq> [] \<and> hd (skip_ws t) = CHR ''}'')")
      case obj: True
      with "2.prems"(1) sk obtain ms where pm: "parse_members n t = Some (ms, r)" and j: "j = JObj ms"
        by (auto simp: Let_def QUOTE_def)
      have nq: "c \<noteq> QUOTE" "c \<noteq> CHR ''[''" using obj by (simp_all add: QUOTE_def)
      from "2.prems"(2) j m have "members_fuel ms \<le> m'" by simp
      with "2.IH"(2) [OF sk nq conjunct1 [OF obj] refl conjunct2 [OF obj] pm]
      have "parse_members m' t = Some (ms, r)" by simp
      with m sk obj j show ?thesis by (auto simp: QUOTE_def Let_def)
    next
      case False
      with narr "2.prems"(1) sk m show ?thesis by (auto simp: Let_def split: if_splits)
    qed
  qed
next
  case (4 n s)
  from "4.prems"(1) obtain v r1 where pv: "parse_value n s = Some (v, r1)"
    by (auto split: option.splits)
  from "4.prems"(1) pv have ne: "skip_ws r1 \<noteq> []" by (auto simp: Let_def)
  show ?case
  proof (cases "hd (skip_ws r1) = CHR '',''")
    case True
    with "4.prems"(1) pv ne obtain vs where pe: "parse_elems n (tl (skip_ws r1)) = Some (vs, r)"
      and xs: "xs = v # vs"
      by (auto simp: Let_def)
    from "4.prems"(2) xs obtain m' where m: "m = Suc m'" and fv: "json_fuel v \<le> m'"
      and fvs: "vs \<noteq> [] \<Longrightarrow> elems_fuel vs \<le> m'"
      by (cases m) (auto simp: elems_fuel_Cons split: if_splits)
    have pv': "parse_value m' s = Some (v, r1)" by (rule "4.IH"(1) [OF pv fv])
    have "vs \<noteq> []" using pe by (cases n) (auto simp: Let_def split: option.splits if_splits)
    with "4.IH"(2) [OF pv refl refl] ne True pe fvs
    have "parse_elems m' (tl (skip_ws r1)) = Some (vs, r)" by simp
    with m pv' ne True xs show ?thesis by simp
  next
    case False
    with "4.prems"(1) pv ne have xs: "xs = [v]" by (auto simp: Let_def split: if_splits)
    with "4.prems"(2) obtain m' where m: "m = Suc m'" and fv: "json_fuel v \<le> m'" by (cases m) auto
    have "parse_value m' s = Some (v, r1)" by (rule "4.IH"(1) [OF pv fv])
    with m "4.prems"(1) pv ne False show ?thesis by (simp add: Let_def)
  qed
next
  case (6 n s)
  from "6.prems"(1) obtain k r1 where s0: "skip_ws s \<noteq> []" "hd (skip_ws s) = QUOTE"
    and ps: "parse_string (tl (skip_ws s)) = Some (k, r1)"
    by (auto simp: Let_def split: if_splits option.splits)
  from "6.prems"(1) s0 ps obtain v r3 where r2: "skip_ws r1 \<noteq> []" "hd (skip_ws r1) = CHR '':''"
    and pv: "parse_value n (tl (skip_ws r1)) = Some (v, r3)"
    by (auto simp: Let_def split: if_splits option.splits)
  have eq: "(if skip_ws r3 = [] then None
       else if hd (skip_ws r3) = CHR '','' then
         map_option (\<lambda>(ms, r5). ((k, v) # ms, r5)) (parse_members n (tl (skip_ws r3)))
       else if hd (skip_ws r3) = CHR ''}'' then Some ([(k, v)], tl (skip_ws r3)) else None) = Some (ms, r)"
    using "6.prems"(1) s0 ps r2 pv by (simp add: Let_def)
  then have ms: "\<exists>ms'. ms = (k, v) # ms'" by (auto split: if_splits)
  with "6.prems"(2) obtain m' where m: "m = Suc m'" and fv: "json_fuel v \<le> m'"
    and fms: "\<And>ms'. ms = (k, v) # ms' \<Longrightarrow> ms' \<noteq> [] \<Longrightarrow> members_fuel ms' \<le> m'"
    by (cases m) (auto simp: members_fuel_Cons split: if_splits)
  have pv': "parse_value m' (tl (skip_ws r1)) = Some (v, r3)"
    using "6.IH"(1) [OF refl _ ps refl refl _ pv fv] s0 r2 by simp
  show ?case
  proof (cases "skip_ws r3 \<noteq> [] \<and> hd (skip_ws r3) = CHR '',''")
    case True
    with eq obtain ms' where pm: "parse_members n (tl (skip_ws r3)) = Some (ms', r)"
      and ms': "ms = (k, v) # ms'"
      by auto
    have "ms' \<noteq> []" using pm by (cases n) (auto simp: Let_def split: option.splits if_splits)
    with fms [OF ms'] have "members_fuel ms' \<le> m'" by simp
    with "6.IH"(2) [OF refl _ ps refl refl _ pv refl refl _ _ pm] s0 r2 True
    have "parse_members m' (tl (skip_ws r3)) = Some (ms', r)" by simp
    with m s0 ps r2 pv' True ms' show ?thesis by (simp add: Let_def)
  next
    case False
    with eq m s0 ps r2 pv' show ?thesis by (auto simp: Let_def split: if_splits)
  qed
qed simp_all

lemma parse_value_fuel_irrelevant:
  assumes "length s < n"
  shows "parse_value n s = parse_value (Suc (length s)) s"
proof (cases "parse_value (Suc (length s)) s")
  case nS: None
  show ?thesis
  proof (cases "parse_value n s")
    case (Some x)
    obtain j r where x: "x = (j, r)" by fastforce
    have pn: "parse_value n s = Some (j, r)" using Some x by (simp only:)
    have "json_fuel j \<le> Suc (length s)" using parse_consumes(1) [OF pn] by simp
    from parse_fuel_enough(1) [OF pn this] nS show ?thesis by simp
  next
    case None
    with nS show ?thesis by (simp only:)
  qed
next
  case (Some x)
  obtain j r where x: "x = (j, r)" by fastforce
  have ps: "parse_value (Suc (length s)) s = Some (j, r)" using Some x by (simp only:)
  have "json_fuel j \<le> n" using parse_consumes(1) [OF ps] assms by simp
  from parse_fuel_enough(1) [OF ps this] ps show ?thesis by (simp only:)
qed

text \<open>
  The fuel is adequate: the recursive descent of \<open>JSON.parse\<close>
  finishes within one unit of fuel per input character, so any larger fuel gives the same
  answer and running out of fuel is never the cause of a syntax error. (Each call of
  \<open>parse_value\<close>, \<open>parse_elems\<close>, \<open>parse_members\<close> consumes input:
  \<open>parse_consumes\<close>; a parse needs only the fuel its value's nesting and length
  require: \<open>parse_fuel_enough\<close>.)
\<close>

lemma json_parse_fuel_sufficient:
  assumes "length s < n"
  shows "json_parse s =
           (case parse_value n s of
              Some (j, r) \<Rightarrow> (if skip_ws r = [] then Inr j else Inl JsonSyntaxError)
            | None \<Rightarrow> Inl JsonSyntaxError)"
  using parse_value_fuel_irrelevant [OF assms] by (simp add: json_parse_def)

end
