(* ===== verification/CondJson.thy ===== *)
theory CondJson
  imports Conditions Json
begin

text \<open>
  The stored form of an access condition set. \<open>addSong\<close> (src/ceramic-orbis.ts)
  stores \<open>JSON.stringify(encryptedData.evmContractConditions)\<close>; \<open>getSongLyrics\<close>
  hands \<open>JSON.parse\<close> of that text to the Lit client, which accepts it only if it has the
  shape of an EVM contract condition list (\<open>@lit-protocol/accs-schemas\<close>). The encoder
  writes the keys of each object literal in the order the source writes them; the decoder
  reads a key as \<open>JSON.parse\<close> leaves it (the last occurrence wins) and ignores keys it
  does not know. The theorems show that the stored text decodes to the very conditions
  that were encrypted.
\<close>

section \<open>Encoding\<close>

definition io_to_json :: "abi_io \<Rightarrow> json" where
  "io_to_json io = JObj [(''name'', JStr (io_name io)), (''type'', JStr (io_type io))]"

definition abi_to_json :: "function_abi \<Rightarrow> json" where
  "abi_to_json fa =
     JObj [(''inputs'', JArr (map io_to_json (fa_inputs fa))), (''name'', JStr (fa_name fa)),
           (''outputs'', JArr (map io_to_json (fa_outputs fa))),
           (''stateMutability'', JStr (fa_stateMutability fa)), (''type'', JStr (fa_type fa))]"

definition rvt_to_json :: "return_value_test \<Rightarrow> json" where
  "rvt_to_json t =
     JObj [(''key'', JStr (rv_key t)), (''comparator'', JStr (rv_comparator t)),
           (''value'', JStr (rv_value t))]"

definition cond_to_json :: "evm_condition \<Rightarrow> json" where
  "cond_to_json c =
     JObj [(''contractAddress'', JStr (ec_contractAddress c)),
           (''functionAbi'', abi_to_json (ec_functionAbi c)),
           (''functionName'', JStr (ec_functionName c)),
           (''functionParams'', JArr (map JStr (ec_functionParams c))),
           (''chain'', JStr (ec_chain c)),
           (''returnValueTest'', rvt_to_json (ec_returnValueTest c))]"

definition conds_to_json :: "evm_condition list \<Rightarrow> json" where
  "conds_to_json cs = JArr (map cond_to_json cs)"

text \<open>\<open>JSON.stringify(evmContractConditions)\<close>.\<close>

definition stringify_conds :: "evm_condition list \<Rightarrow> string" where
  "stringify_conds cs = json_print (conds_to_json cs)"

section \<open>Decoding\<close>

text \<open>A key of a parsed object: its last occurrence, as \<open>JSON.parse\<close> keeps it.\<close>

definition jget :: "string \<Rightarrow> (string \<times> json) list \<Rightarrow> json option" where
  "jget k ms = map_of (rev ms) k"

fun as_str :: "json \<Rightarrow> string option" where
  "as_str (JStr s) = Some s"
| "as_str _ = None"

definition get_str :: "string \<Rightarrow> (string \<times> json) list \<Rightarrow> string option" where
  "get_str k ms = Option.bind (jget k ms) as_str"

fun map_opt :: "('a \<Rightarrow> 'b option) \<Rightarrow> 'a list \<Rightarrow> 'b list option" where
  "map_opt f [] = Some []"
| "map_opt f (x # xs) = (case f x of None \<Rightarrow> None | Some y \<Rightarrow> map_option (Cons y) (map_opt f xs))"

definition get_list :: "(json \<Rightarrow> 'a option) \<Rightarrow> string \<Rightarrow> (string \<times> json) list \<Rightarrow> 'a list option"
  where
  "get_list f k ms = (case jget k ms of Some (JArr xs) \<Rightarrow> map_opt f xs | _ \<Rightarrow> None)"

fun io_of_json :: "json \<Rightarrow> abi_io option" where
  "io_of_json (JObj ms) =
     (case (get_str ''name'' ms, get_str ''type'' ms) of
        (Some n, Some t) \<Rightarrow> Some \<lparr>io_name = n, io_type = t\<rparr>
      | _ \<Rightarrow> None)"
| "io_of_json _ = None"

fun abi_of_json :: "json \<Rightarrow> function_abi option" where
  "abi_of_json (JObj ms) =
     (case (get_list io_of_json ''inputs'' ms, get_str ''name'' ms, get_list io_of_json ''outputs'' ms,
            get_str ''stateMutability'' ms, get_str ''type'' ms) of
        (Some ins, Some n, Some outs, Some m, Some t) \<Rightarrow>
          Some \<lparr>fa_inputs = ins, fa_name = n, fa_outputs = outs, fa_stateMutability = m, fa_type = t\<rparr>
      | _ \<Rightarrow> None)"
| "abi_of_json _ = None"

fun rvt_of_json :: "json \<Rightarrow> return_value_test option" where
  "rvt_of_json (JObj ms) =
     (case (get_str ''key'' ms, get_str ''comparator'' ms, get_str ''value'' ms) of
        (Some k, Some c, Some v) \<Rightarrow> Some \<lparr>rv_key = k, rv_comparator = c, rv_value = v\<rparr>
      | _ \<Rightarrow> None)"
| "rvt_of_json _ = None"

fun cond_of_json :: "json \<Rightarrow> evm_condition option" where
  "cond_of_json (JObj ms) =
     (case (get_str ''contractAddress'' ms, Option.bind (jget ''functionAbi'' ms) abi_of_json,
            get_str ''functionName'' ms, get_list as_str ''functionParams'' ms, get_str ''chain'' ms,
            Option.bind (jget ''returnValueTest'' ms) rvt_of_json) of
        (Some a, Some fa, Some fn, Some ps, Some ch, Some t) \<Rightarrow>
          Some \<lparr>ec_contractAddress = a, ec_functionAbi = fa, ec_functionName = fn,
                ec_functionParams = ps, ec_chain = ch, ec_returnValueTest = t\<rparr>
      | _ \<Rightarrow> None)"
| "cond_of_json _ = None"

text \<open>The Lit client's reading of a parsed condition set: a list of well-shaped conditions.\<close>

definition conds_of_json :: "json \<Rightarrow> error + evm_condition list" where
  "conds_of_json j =
     (case j of
        JArr xs \<Rightarrow> (case map_opt cond_of_json xs of Some cs \<Rightarrow> Inr cs | None \<Rightarrow> Inl (LitError InvalidConditions))
      | _ \<Rightarrow> Inl (LitError InvalidConditions))"

text \<open>\<open>JSON.parse\<close> of stored text, read as a condition set.\<close>

definition parse_conds :: "string \<Rightarrow> error + evm_condition list" where
  "parse_conds s = (case json_parse s of Inl e \<Rightarrow> Inl e | Inr j \<Rightarrow> conds_of_json j)"

section \<open>Lemmas\<close>

lemma map_opt_map:
  "(\<And>x. x \<in> set xs \<Longrightarrow> f (g x) = Some x) \<Longrightarrow> map_opt f (map g xs) = Some xs"
  by (induction xs) auto

lemmas json_codec_defs = jget_def get_str_def get_list_def

lemma io_of_json_io [simp]: "io_of_json (io_to_json io) = Some io"
  by (simp add: io_to_json_def json_codec_defs)

lemma abi_of_json_abi [simp]: "abi_of_json (abi_to_json fa) = Some fa"
  by (simp add: abi_to_json_def json_codec_defs map_opt_map)

lemma rvt_of_json_rvt [simp]: "rvt_of_json (rvt_to_json t) = Some t"
  by (simp add: rvt_to_json_def json_codec_defs)

lemma cond_of_json_cond [simp]: "cond_of_json (cond_to_json c) = Some c"
  by (simp add: cond_to_json_def json_codec_defs map_opt_map)

lemma conds_of_json_conds: "conds_of_json (conds_to_json cs) = Inr cs"
  by (simp add: conds_of_json_def conds_to_json_def map_opt_map)

text \<open>Stored condition text parses back (the form the other theories use).\<close>

lemma parse_conds_stringify: "parse_conds (stringify_conds cs) = Inr cs"
  by (simp add: parse_conds_def stringify_conds_def json_parse_print conds_of_json_conds)

end
