(* ===== verification/Config.thy ===== *)
theory Config
  imports World
begin

text \<open>
  The configuration module (src/config.ts). \<open>getEnvVar(name)\<close> removes the first
  occurrence of \<open>VITE_\<close> from the name (\<open>String.prototype.replace\<close> with a string
  pattern), then reads \<open>VITE_<name>\<close> and falls back to \<open><name>\<close> when that is unset
  or empty (the \<open>||\<close> of the source, under which the empty string is false); an
  unset or empty result throws \<open>Missing environment variable\<close>. Loading the module
  creates the OrbisDB client from three variables and reads the song model and context ids;
  \<open>initAuth\<close> reads the private key and connects the database user. The key derivation
  and the OrbisDB session are the SDK's and are not modelled: connecting sets the store's
  user.
\<close>

section \<open>Environment variables\<close>

text \<open>\<open>s.replace(pat, rep)\<close> for a string pattern: the first occurrence only.\<close>

fun replace_first :: "string \<Rightarrow> string \<Rightarrow> string \<Rightarrow> string" where
  "replace_first pat rep [] = (if pat = [] then rep else [])"
| "replace_first pat rep (c # cs) =
     (if take (length pat) (c # cs) = pat then rep @ drop (length pat) (c # cs)
      else c # replace_first pat rep cs)"

text \<open>\<open>process.env[a] || process.env[b]\<close>.\<close>

definition env_or :: "(string \<Rightarrow> string option) \<Rightarrow> string \<Rightarrow> string \<Rightarrow> string option" where
  "env_or env a b = (case env a of Some v \<Rightarrow> if v \<noteq> [] then Some v else env b | None \<Rightarrow> env b)"

definition getEnvVar :: "(string \<Rightarrow> string option) \<Rightarrow> string \<Rightarrow> error + string" where
  "getEnvVar env name =
     (let cleanName = replace_first ''VITE_'' [] name;
          value = env_or env (''VITE_'' @ cleanName) cleanName
      in case value of
           Some v \<Rightarrow> if v = [] then Inl (MissingEnv cleanName) else Inr v
         | None \<Rightarrow> Inl (MissingEnv cleanName))"

definition getEnvVarJ :: "string \<Rightarrow> ('r world, string) js" where
  "getEnvVarJ name = (\<lambda>w. (getEnvVar (w_env w) name, w))"

section \<open>Loading the module\<close>

record orbis_config =
  cfg_ceramic_gateway :: string
  cfg_node_gateway :: string
  cfg_node_env :: string
  cfg_song_model :: string
  cfg_context :: string

text \<open>
  The module's top level in the order it runs: \<open>new OrbisDB({...})\<close> reads its
  arguments left to right, then \<open>ORBIS_SONG_MODEL_ID\<close> and \<open>ORBIS_CONTEXT_ID\<close>.
\<close>

definition load_config :: "('r world, orbis_config) js" where
  "load_config =
     bindJ (getEnvVarJ ''CERAMIC_NODE_URL'') (\<lambda>ceramic.
     bindJ (getEnvVarJ ''ORBIS_NODE_URL'') (\<lambda>node.
     bindJ (getEnvVarJ ''ORBIS_ENVIRONMENT_ID'') (\<lambda>envId.
     bindJ (getEnvVarJ ''ORBIS_SONG_MODEL'') (\<lambda>model.
     bindJ (getEnvVarJ ''ORBIS_CONTEXT_ID'') (\<lambda>ctx.
     ret \<lparr>cfg_ceramic_gateway = ceramic, cfg_node_gateway = node, cfg_node_env = envId,
          cfg_song_model = model, cfg_context = ctx\<rparr>)))))"

text \<open>\<open>initAuth\<close>: the private key must be set; then the user is connected.\<close>

definition initAuth :: "('r world, unit) js" where
  "initAuth =
     bindJ (getEnvVarJ ''ORBIS_PRIVATE_KEY'')
       (\<lambda>privateKey w. (Inr (), w\<lparr>w_db := orbis_connect (w_db w)\<rparr>))"

section \<open>Lemmas\<close>

lemma replace_first_prefix: "replace_first pat rep (pat @ s) = rep @ s"
proof (cases "pat @ s")
  case Nil
  then show ?thesis by simp
next
  case (Cons c cs)
  then have "take (length pat) (c # cs) = pat" and "drop (length pat) (c # cs) = s"
    by (metis append_eq_conv_conj)+
  with Cons show ?thesis by simp
qed

lemma replace_first_absent:
  "pat \<noteq> [] \<Longrightarrow> \<not> (\<exists>xs ys. s = xs @ pat @ ys) \<Longrightarrow> replace_first pat rep s = s"
proof (induction s)
  case Nil
  then show ?case by simp
next
  case (Cons c cs)
  have "take (length pat) (c # cs) \<noteq> pat"
    using Cons.prems(2) by (metis append_Nil append_take_drop_id)
  moreover have "\<not> (\<exists>xs ys. cs = xs @ pat @ ys)"
    using Cons.prems(2) by (metis append_Cons)
  ultimately show ?case using Cons by simp
qed

lemma getEnvVarJ_apply [simp]: "getEnvVarJ name w = (getEnvVar (w_env w) name, w)"
  by (simp add: getEnvVarJ_def)

lemma getEnvVar_Inr:
  "getEnvVar env name = Inr v \<Longrightarrow>
     v \<noteq> [] \<and> (env (''VITE_'' @ replace_first ''VITE_'' [] name) = Some v
                  \<or> env (replace_first ''VITE_'' [] name) = Some v)"
  by (auto simp: getEnvVar_def env_or_def Let_def split: option.splits if_splits)

lemma getEnvVar_Inl:
  "getEnvVar env name = Inl e \<Longrightarrow> e = MissingEnv (replace_first ''VITE_'' [] name)"
  by (auto simp: getEnvVar_def env_or_def Let_def split: option.splits if_splits)

text \<open>
  C17. As the source's comment says, a variable may be asked for with or without the
  \<open>VITE_\<close> prefix: for a name that does not itself contain \<open>VITE_\<close>, asking for
  \<open>VITE_name\<close> and asking for \<open>name\<close> read the same variables and give the same result,
  value or error.
\<close>

theorem getEnvVar_prefix_irrelevant:
  assumes "\<not> (\<exists>xs ys. name = xs @ ''VITE_'' @ ys)"
  shows "getEnvVar env (''VITE_'' @ name) = getEnvVar env name"
proof -
  have "replace_first ''VITE_'' [] (''VITE_'' @ name) = name"
    using replace_first_prefix [of "''VITE_''" "[]" name] by simp
  moreover have "replace_first ''VITE_'' [] name = name"
    using assms by (simp add: replace_first_absent)
  ultimately show ?thesis by (simp add: getEnvVar_def)
qed

end
