(* ===== verification/Karaoke.thy ===== *)
theory Karaoke
  imports LitService CondJson Config
begin

text \<open>
  \<open>KaraokeService\<close> (src/ceramic-orbis.ts): the application service the scripts use.
  It owns a \<open>LitProtocolService\<close> and a second contract object for the same contract,
  built from a human-readable ABI and run by the user's wallet. \<open>addSong\<close> encrypts the
  lyrics and stores the song in OrbisDB with its conditions as JSON text;
  \<open>getSongLyrics\<close> checks that the song carries encrypted lyrics, reads the contract's
  access flag, parses the stored conditions and decrypts. \<open>JSON.parse\<close> returns an
  untyped value, so \<open>decryptString_json\<close> is \<open>decryptString\<close> on that value: the chain
  is looked up first, then the Lit client checks it is ready and that the value is a
  condition set. \<open>purchaseSongAccess\<close> sends
  the payment and waits for it; \<open>searchSongs\<close> queries OrbisDB; \<open>createAuthSig\<close> signs a
  SIWE message valid for a day; \<open>checkContractBalance\<close> reads the contract's balance.
  The database's documents are songs, so the operations run on \<open>song world\<close>.
\<close>

section \<open>Songs and the service\<close>

record song =
  s_title :: string
  s_artist :: string
  s_songId :: song_id
  s_encryptedLyricsCiphertext :: "string option"
  s_encryptedLyricsHash :: "string option"
  s_encryptedLyricsConditions :: "string option"

record karaoke_service =
  ks_litProtocol :: lit_service
  ks_karaokeAccessContract :: contract

section \<open>The human-readable ABI\<close>

text \<open>
  ethers reads a human-readable fragment \<open>function name(params) modifiers\<close>: the name
  runs up to the opening parenthesis, and the function is a static call when a modifier
  after the parameter list is \<open>view\<close> or \<open>pure\<close>.
\<close>

fun split_words :: "string \<Rightarrow> string \<Rightarrow> string list" where
  "split_words acc [] = (if acc = [] then [] else [rev acc])"
| "split_words acc (c # cs) =
     (if c = CHR '' '' then (if acc = [] then split_words [] cs else rev acc # split_words [] cs)
      else split_words (c # acc) cs)"

definition human_abi_fn :: "string \<Rightarrow> abi_fn" where
  "human_abi_fn sig =
     (let body = drop (length ''function '') sig;
          mods = split_words [] (drop 1 (dropWhile (\<lambda>c. c \<noteq> CHR '')'') body))
      in \<lparr>fn_name = takeWhile (\<lambda>c. c \<noteq> CHR ''('') body,
          fn_view = (''view'' \<in> set mods \<or> ''pure'' \<in> set mods)\<rparr>)"

definition KARAOKE_SERVICE_ABI :: "string list" where
  "KARAOKE_SERVICE_ABI =
     [''function purchaseSong(uint256 songId) external payable'',
      ''function hasSongAccess(address user, uint256 songId) public view returns (bool)'']"

section \<open>Operations\<close>

text \<open>
  The constructor; \<open>signer\<close> is the wallet's address (the provider of the source is the
  world's provider).
\<close>

definition KaraokeService_new :: "address \<Rightarrow> address \<Rightarrow> (song world, karaoke_service) js" where
  "KaraokeService_new karaokeAccessAddress signer =
     bindJ (LitProtocolService_new karaokeAccessAddress)
       (\<lambda>litProtocol.
          ret \<lparr>ks_litProtocol = litProtocol,
               ks_karaokeAccessContract =
                 \<lparr>c_target = karaokeAccessAddress, c_abi = map human_abi_fn KARAOKE_SERVICE_ABI,
                  c_runner = RWallet signer\<rparr>\<rparr>)"

definition initialize :: "karaoke_service \<Rightarrow> (song world, unit) js" where
  "initialize ks = lit_service_connect (ks_litProtocol ks)"

text \<open>\<open>db.insert(model).value(doc).context(ctx).run()\<close> and \<open>db.select()...run()\<close>.\<close>

definition orbis_insertJ :: "string \<Rightarrow> string \<Rightarrow> 'r \<Rightarrow> ('r world, 'r option) js" where
  "orbis_insertJ model ctx r =
     (\<lambda>w. case orbis_insert (w_db w) model ctx r of (res, db') \<Rightarrow> (Inr res, w\<lparr>w_db := db'\<rparr>))"

definition orbis_selectJ ::
  "('r \<Rightarrow> string \<Rightarrow> string) \<Rightarrow> string \<Rightarrow> string \<Rightarrow> where_clause option \<Rightarrow> ('r world, 'r list) js" where
  "orbis_selectJ field model ctx wh =
     (\<lambda>w. case orbis_select field (w_db w) model ctx wh of (rows, db') \<Rightarrow> (Inr rows, w\<lparr>w_db := db'\<rparr>))"

definition addSong ::
  "orbis_config \<Rightarrow> karaoke_service \<Rightarrow> song_id \<Rightarrow> string \<Rightarrow> string \<Rightarrow> string \<Rightarrow> chain_id \<Rightarrow> auth_sig \<Rightarrow>
     (song world, song) js" where
  "addSong cfg ks songId title artist lyrics chainId authSig =
     bindJ (encryptString (ks_litProtocol ks) lyrics songId chainId authSig)
       (\<lambda>encryptedData.
          let song = \<lparr>s_title = title, s_artist = artist, s_songId = songId,
                      s_encryptedLyricsCiphertext = Some (ed_ciphertext encryptedData),
                      s_encryptedLyricsHash = Some (ed_dataToEncryptHash encryptedData),
                      s_encryptedLyricsConditions =
                        Some (stringify_conds (ed_evmContractConditions encryptedData))\<rparr>
          in bindJ (orbis_insertJ (cfg_song_model cfg) (cfg_context cfg) song)
               (\<lambda>result. case result of None \<Rightarrow> throw StoreFailed | Some r \<Rightarrow> ret r))"

definition KaraokeService_purchaseSongAccess :: "karaoke_service \<Rightarrow> song_id \<Rightarrow> (song world, unit) js" where
  "KaraokeService_purchaseSongAccess ks songId =
     bindJ (invoke (ks_karaokeAccessContract ks) ''purchaseSong'' [VUint songId] PURCHASE_VALUE)
       (\<lambda>tx. bindJ (tx_wait tx) (\<lambda>_. ret ()))"

text \<open>
  The guard of \<open>getSongLyrics\<close>: the three optional fields are present and non-empty
  (an empty string is false in JavaScript).
\<close>

definition lyrics_fields :: "song \<Rightarrow> (string \<times> string \<times> string) option" where
  "lyrics_fields song =
     (case (s_encryptedLyricsCiphertext song, s_encryptedLyricsHash song, s_encryptedLyricsConditions song) of
        (Some ct, Some h, Some c) \<Rightarrow> if ct \<noteq> [] \<and> h \<noteq> [] \<and> c \<noteq> [] then Some (ct, h, c) else None
      | _ \<Rightarrow> None)"

text \<open>
  The Lit client's own check when \<open>client.decrypt\<close> is called: it must be connected.
\<close>

definition lit_client_ready :: "('r world, unit) js" where
  "lit_client_ready =
     (\<lambda>w. (if ln_ready (w_lit w) then Inr () else Inl (LitError LitNodeClientNotReady), w))"

text \<open>
  \<open>decryptString\<close> (lit-protocol.ts:123-146) called, as \<open>getSongLyrics\<close> calls it,
  with the value \<open>JSON.parse\<close> returned in place of the condition list: the source's
  parameter type is not checked at run time. \<open>getChainName\<close> runs first
  (lit-protocol.ts:132); then \<open>client.decrypt\<close> checks that the client is connected and
  that the conditions have the shape of contract conditions, before any request reaches
  the nodes. Once these pass, the call is \<open>decryptString\<close> on the decoded conditions,
  whose own chain lookup and connection check then succeed again
  (\<open>decryptString_json_conds\<close>).
\<close>

definition decryptString_json ::
  "lit_service \<Rightarrow> string \<Rightarrow> string \<Rightarrow> json \<Rightarrow> chain_id \<Rightarrow> auth_sig \<Rightarrow> ('r world, string) js" where
  "decryptString_json ls ciphertext hash conditions chainId authSig =
     bindJ (liftE (getChainName (ls_chains ls) chainId))
       (\<lambda>chain.
     bindJ lit_client_ready
       (\<lambda>_.
     bindJ (liftE (conds_of_json conditions))
       (\<lambda>evmContractConditions.
     decryptString ls
       \<lparr>ed_ciphertext = ciphertext, ed_dataToEncryptHash = hash,
        ed_evmContractConditions = evmContractConditions\<rparr> chainId authSig)))"

text \<open>
  \<open>getSongLyrics\<close>. The access flag is read and only logged; \<open>JSON.parse\<close> runs
  while the argument of \<open>decryptString\<close> is built.
\<close>

definition getSongLyrics ::
  "karaoke_service \<Rightarrow> song \<Rightarrow> chain_id \<Rightarrow> auth_sig \<Rightarrow> (song world, string) js" where
  "getSongLyrics ks song chainId authSig =
     (case lyrics_fields song of
        None \<Rightarrow> throw NoEncryptedLyrics
      | Some (ciphertext, hash, conditions) \<Rightarrow>
          bindJ (invoke (ks_karaokeAccessContract ks) ''hasSongAccess''
                   [VAddr (as_address authSig), VUint (s_songId song)] 0)
            (\<lambda>hasAccess.
          bindJ (liftE (json_parse conditions))
            (\<lambda>parsed.
          decryptString_json (ks_litProtocol ks) ciphertext hash parsed chainId authSig)))"

text \<open>The fields a \<open>where\<close> clause can name.\<close>

definition song_field :: "song \<Rightarrow> string \<Rightarrow> string" where
  "song_field r f = (if f = ''title'' then s_title r else if f = ''artist'' then s_artist r else [])"

text \<open>\<open>searchSongs(query?)\<close>: the filter is added only when the query is truthy.\<close>

definition search_clause :: "string option \<Rightarrow> where_clause option" where
  "search_clause query =
     (case query of
        Some q \<Rightarrow> if q \<noteq> [] then Some (WOr [WContainsInsensitive ''title'' q, WContainsInsensitive ''artist'' q])
                  else None
      | None \<Rightarrow> None)"

definition searchSongs :: "orbis_config \<Rightarrow> karaoke_service \<Rightarrow> string option \<Rightarrow> (song world, song list) js" where
  "searchSongs cfg ks query = orbis_selectJ song_field (cfg_song_model cfg) (cfg_context cfg) (search_clause query)"

text \<open>
  The well-formedness of a service: its two contract objects are for the same contract,
  the second can send the purchase and read access as the wallet \<open>s\<close>, and the chain
  table is well formed.
\<close>

definition karaoke_service_wf :: "karaoke_service \<Rightarrow> address \<Rightarrow> bool" where
  "karaoke_service_wf ks s \<longleftrightarrow>
     wallet_contract (ks_karaokeAccessContract ks) s \<and>
     c_target (ls_contract (ks_litProtocol ks)) = c_target (ks_karaokeAccessContract ks) \<and>
     chain_table_wf (ls_chains (ks_litProtocol ks))"

text \<open>The documents of one model and context, in insertion order.\<close>

definition songs_in :: "'r orbis_db \<Rightarrow> string \<Rightarrow> string \<Rightarrow> 'r list" where
  "songs_in db model ctx = map (\<lambda>(m, c, r). r) (filter (\<lambda>(m, c, r). m = model \<and> c = ctx) (db_docs db))"

section \<open>Authorization\<close>

text \<open>\<open>b.toString(16).padStart(2, '0')\<close> for each random byte.\<close>

fun to_hex :: "nat \<Rightarrow> string" where
  "to_hex n = (if n < 16 then [hex_digit n] else to_hex (n div 16) @ [hex_digit (n mod 16)])"

declare to_hex.simps [simp del]

definition pad_start :: "nat \<Rightarrow> char \<Rightarrow> string \<Rightarrow> string" where
  "pad_start n c s = replicate (n - length s) c @ s"

definition nonce_of :: "nat list \<Rightarrow> string" where
  "nonce_of bytes = concat (map (\<lambda>b. pad_start 2 (CHR ''0'') (to_hex b)) bytes)"

definition HOUR_MS :: int where
  "HOUR_MS = 3600000"

text \<open>
  \<open>createAuthSig(signer)\<close>: \<open>signer\<close> is the wallet's address and \<open>randomBytes\<close> the
  eight bytes \<open>crypto.getRandomValues\<close> draws. \<open>setHours(getHours() + 24)\<close> works on
  the local reading of the date: the same minutes, seconds and milliseconds, 24 hours
  later on the local clock, converted back to an instant.
\<close>

definition createAuthSig :: "address \<Rightarrow> nat list \<Rightarrow> ('r world, auth_sig) js" where
  "createAuthSig signer randomBytes =
     (\<lambda>w.
       let address = signer;
           nonce = nonce_of randomBytes;
           issuedAt = w_now w;
           expirationDate = utc_time w (local_time w issuedAt + 24 * HOUR_MS);
           siweMessage =
             \<lparr>sm_domain = ''localhost'', sm_address = address,
              sm_statement = ''Sign this message to access encrypted lyrics with Lit Protocol.'',
              sm_uri = ''https://localhost/login'', sm_version = ''1'', sm_chainId = 1,
              sm_nonce = nonce, sm_issuedAt = issuedAt, sm_expirationTime = Some expirationDate\<rparr>
       in (Inr \<lparr>as_sig = Signature address (SiweMsg siweMessage),
                as_derivedVia = ''web3.eth.personal.sign'',
                as_signedMessage = SiweMsg siweMessage, as_address = address\<rparr>, w))"

section \<open>Balance\<close>

text \<open>
  \<open>provider.getBalance(address)\<close>: a KaraokeAccess contract holds the ether paid to it,
  any other account its balance.
\<close>

definition get_balance :: "ledger \<Rightarrow> address \<Rightarrow> wei" where
  "get_balance l a = (case l_contracts l a of Some k \<Rightarrow> k_funds k | None \<Rightarrow> l_balance l a)"

text \<open>
  \<open>ethers.formatEther\<close>, the \<open>toString\<close> of ethers' fixed-point numbers at 18
  decimals: pad the digits with zeros to at least 19, insert the point before the last 18,
  drop leading zeros before a digit and trailing zeros after one.
\<close>

fun strip_zeros :: "string \<Rightarrow> string" where
  "strip_zeros (c # d # r) = (if c = CHR ''0'' \<and> d \<noteq> CHR ''.'' then strip_zeros (d # r) else c # d # r)"
| "strip_zeros [c] = (if c = CHR ''0'' then [] else [c])"
| "strip_zeros [] = []"

definition format_ether :: "wei \<Rightarrow> string" where
  "format_ether v =
     (let s0 = dec_string v;
          s1 = replicate (19 - length s0) (CHR ''0'') @ s0;
          index = length s1 - 18;
          s2 = take index s1 @ CHR ''.'' # drop index s1;
          s3 = strip_zeros s2
      in rev (strip_zeros (rev s3)))"

text \<open>
  \<open>checkContractBalance\<close>. The contract's runner is the wallet, which the scripts always
  build with the provider, so \<open>runner?.provider\<close> is set and the guard never throws in the
  model.
\<close>

definition checkContractBalance :: "karaoke_service \<Rightarrow> ('r world, string) js" where
  "checkContractBalance ks =
     (\<lambda>w. (Inr (format_ether (get_balance (w_ledger w) (c_target (ks_karaokeAccessContract ks)))), w))"

section \<open>Lemmas\<close>

lemma human_abi_purchaseSong:
  "human_abi_fn ''function purchaseSong(uint256 songId) external payable'' =
     \<lparr>fn_name = ''purchaseSong'', fn_view = False\<rparr>"
  by (simp add: human_abi_fn_def)

lemma human_abi_hasSongAccess:
  "human_abi_fn ''function hasSongAccess(address user, uint256 songId) public view returns (bool)'' =
     \<lparr>fn_name = ''hasSongAccess'', fn_view = True\<rparr>"
  by (simp add: human_abi_fn_def)

lemma abi_lookup_karaoke_service:
  "abi_lookup \<lparr>c_target = t, c_abi = map human_abi_fn KARAOKE_SERVICE_ABI, c_runner = r\<rparr> f =
     (if f = ''purchaseSong'' then Some \<lparr>fn_name = ''purchaseSong'', fn_view = False\<rparr>
      else if f = ''hasSongAccess'' then Some \<lparr>fn_name = ''hasSongAccess'', fn_view = True\<rparr> else None)"
  by (simp add: abi_lookup_def KARAOKE_SERVICE_ABI_def human_abi_purchaseSong human_abi_hasSongAccess)

lemma KaraokeService_new_apply:
  "KaraokeService_new a s w =
     (Inr \<lparr>ks_litProtocol = \<lparr>ls_contract = \<lparr>c_target = a, c_abi = [abi_fn_of KARAOKE_ACCESS_ABI],
                                              c_runner = RProvider\<rparr>,
                              ls_chains = LIT_CHAINS\<rparr>,
           ks_karaokeAccessContract = \<lparr>c_target = a, c_abi = map human_abi_fn KARAOKE_SERVICE_ABI,
                                       c_runner = RWallet s\<rparr>\<rparr>,
      w\<lparr>w_lit := (w_lit w)\<lparr>ln_ready := False\<rparr>\<rparr>)"
  by (simp add: KaraokeService_new_def LitProtocolService_new_def)

lemma KaraokeService_new_wf:
  "KaraokeService_new a s w = (Inr ks, w') \<Longrightarrow> karaoke_service_wf ks s"
  by (auto simp: KaraokeService_new_apply karaoke_service_wf_def wallet_contract_def
      abi_lookup_karaoke_service LIT_CHAINS_wf)

subsection \<open>Reading lyrics\<close>

text \<open>Once the conditions decode, the checks before the request are those of \<open>decryptString\<close>.\<close>

lemma decryptString_json_conds:
  assumes "conds_of_json j = Inr cs"
  shows "decryptString_json ls ct h j chainId a =
           decryptString ls \<lparr>ed_ciphertext = ct, ed_dataToEncryptHash = h, ed_evmContractConditions = cs\<rparr> chainId a"
  using assms
  by (auto simp: fun_eq_iff decryptString_json_def decryptString_def lit_client_ready_def lit_decryptJ_def
      lit_decrypt_def split: sum.split)

lemma getSongLyrics_fields:
  assumes wc: "wallet_contract (ks_karaokeAccessContract ks) s"
    and dep: "l_contracts (w_ledger w) (c_target (ks_karaokeAccessContract ks)) = Some k"
    and f: "lyrics_fields song = Some (ct, h, cj)"
  shows "getSongLyrics ks song chainId a w =
     (case json_parse cj of
        Inl e \<Rightarrow> (Inl e, w)
      | Inr j \<Rightarrow> decryptString_json (ks_litProtocol ks) ct h j chainId a w)"
  using assms
  by (simp add: getSongLyrics_def invoke_hasSongAccess split: sum.split)

lemma getSongLyrics_parsed:
  assumes wc: "wallet_contract (ks_karaokeAccessContract ks) s"
    and dep: "l_contracts (w_ledger w) (c_target (ks_karaokeAccessContract ks)) = Some k"
    and f: "lyrics_fields song = Some (ct, h, cj)"
    and pc: "parse_conds cj = Inr conds"
  shows "getSongLyrics ks song chainId a w =
     decryptString (ks_litProtocol ks)
       \<lparr>ed_ciphertext = ct, ed_dataToEncryptHash = h, ed_evmContractConditions = conds\<rparr> chainId a w"
  using getSongLyrics_fields [OF wc dep f] pc
  by (auto simp: parse_conds_def decryptString_json_conds split: sum.splits)

text \<open>Which errors the steps of a read can throw.\<close>

lemma json_parse_Inl: "json_parse s = Inl e \<Longrightarrow> e = JsonSyntaxError"
  by (auto simp: json_parse_def split: option.splits prod.splits if_splits)

lemma conds_of_json_Inl: "conds_of_json j = Inl e \<Longrightarrow> e = LitError InvalidConditions"
  by (auto simp: conds_of_json_def split: json.splits option.splits)

lemma never_throws_invoke [never_throws_intros]:
  "(\<And>f. e \<noteq> TypeError f) \<Longrightarrow> (\<And>c. e \<noteq> EthersError c) \<Longrightarrow> never_throws e (invoke c f args v)"
  by (auto simp: never_throws_def invoke_def contract_invoke.simps ledger_call.simps ledger_send.simps
      split: sum.splits option.splits if_splits runner.splits bool.splits list.splits abi_value.splits)

lemma never_throws_lit [never_throws_intros]:
  "(\<And>le. e \<noteq> LitError le) \<Longrightarrow> never_throws e lit_client_ready"
  "(\<And>le. e \<noteq> LitError le) \<Longrightarrow> never_throws e (lit_decryptJ tbl r)"
  by (auto simp: never_throws_def lit_client_ready_def lit_decryptJ_def lit_decrypt_def Let_def
      split: prod.splits option.splits)

lemma getChainName_not [simp]: "(\<And>c. e \<noteq> UnsupportedChainId c) \<Longrightarrow> getChainName tbl chainId \<noteq> Inl e"
  by (auto simp: getChainName_Inl_iff)

text \<open>Once the fields are present, a read never reports them missing.\<close>

lemma getSongLyrics_present:
  assumes "lyrics_fields song = Some (ct, h, cj)"
  shows "fst (getSongLyrics ks song chainId a w) \<noteq> Inl NoEncryptedLyrics"
proof -
  have "never_throws NoEncryptedLyrics
          (bindJ (invoke (ks_karaokeAccessContract ks) ''hasSongAccess''
                    [VAddr (as_address a), VUint (s_songId song)] 0)
             (\<lambda>hasAccess. bindJ (liftE (json_parse cj))
             (\<lambda>parsed. decryptString_json (ks_litProtocol ks) ct h parsed chainId a)))"
    unfolding decryptString_json_def decryptString_def
    by (intro never_throws_intros) (auto dest: json_parse_Inl conds_of_json_Inl)
  with assms show ?thesis unfolding never_throws_def getSongLyrics_def by (simp del: bindJ_apply) blast
qed

lemma addSong_Inr:
  assumes "addSong cfg ks songId title artist lyrics chainId a w = (Inr song, w')"
  shows "\<exists>ed w1. encryptString (ks_litProtocol ks) lyrics songId chainId a w = (Inr ed, w1)
     \<and> w_lit w' = w_lit w1
     \<and> song = \<lparr>s_title = title, s_artist = artist, s_songId = songId,
               s_encryptedLyricsCiphertext = Some (ed_ciphertext ed),
               s_encryptedLyricsHash = Some (ed_dataToEncryptHash ed),
               s_encryptedLyricsConditions = Some (stringify_conds (ed_evmContractConditions ed))\<rparr>"
  using assms
  by (auto simp: addSong_def orbis_insertJ_def orbis_insert_def Let_def split: prod.splits sum.splits if_splits)

text \<open>A connected network encrypts, and a connected service with a supported chain stores.\<close>

lemma lit_encrypt_ok:
  "ln_ready n \<Longrightarrow> \<exists>ct h n'. lit_encrypt n r = (Inr (ct, h), n') \<and> ln_ready n'"
  by (simp add: lit_encrypt_def Let_def)

lemma encryptString_ok:
  assumes "chainId \<in> snd ` set (ls_chains ls)" and "ln_ready (w_lit w)"
  shows "\<exists>ed w'. encryptString ls text songId chainId a w = (Inr ed, w') \<and> ln_ready (w_lit w')"
proof -
  from getChainName_supported [OF assms(1)] obtain chain where ch: "getChainName (ls_chains ls) chainId = Inr chain"
    by blast
  obtain ct h n' where enc: "lit_encrypt (w_lit w) \<lparr>er_chain = chain, er_dataToEncrypt = uint8arrayFromString text,
        er_evmContractConditions = [karaoke_condition (c_target (ls_contract ls)) songId chain], er_authSig = a\<rparr> =
        (Inr (ct, h), n')" and r: "ln_ready n'"
    using lit_encrypt_ok [OF assms(2)] by blast
  show ?thesis
    using ch enc r by (simp add: encryptString_def createAccessControlConditions_def lit_encryptJ_def)
qed

lemma addSong_ok:
  assumes "chainId \<in> snd ` set (ls_chains (ks_litProtocol ks))" and "ln_ready (w_lit w)" and "db_user (w_db w)"
  shows "\<exists>song w'. addSong cfg ks songId title artist lyrics chainId a w = (Inr song, w') \<and> ln_ready (w_lit w')"
proof -
  obtain ed w1 where enc: "encryptString (ks_litProtocol ks) lyrics songId chainId a w = (Inr ed, w1)"
    and r: "ln_ready (w_lit w1)"
    using encryptString_ok [OF assms(1,2)] by blast
  from encryptString_Inr [OF enc] obtain L where "w1 = w\<lparr>w_lit := L\<rparr>" by auto
  with enc r assms(3) show ?thesis
    by (simp add: addSong_def Let_def orbis_insertJ_def orbis_insert_def)
qed

lemma addSong_world:
  assumes "addSong cfg ks songId title artist lyrics chainId a w = (Inr song, w')"
  shows "w' = w\<lparr>w_lit := w_lit w',
                 w_db := (w_db w)\<lparr>db_docs := db_docs (w_db w) @ [(cfg_song_model cfg, cfg_context cfg, song)],
                                   db_calls := Suc (db_calls (w_db w))\<rparr>\<rparr>"
proof -
  from addSong_Inr [OF assms] obtain ed w1 where
    enc: "encryptString (ks_litProtocol ks) lyrics songId chainId a w = (Inr ed, w1)" by blast
  from encryptString_Inr [OF enc] obtain L where w1: "w1 = w\<lparr>w_lit := L\<rparr>" by auto
  from assms enc w1 have w': "w' = w1\<lparr>w_db := (w_db w)\<lparr>db_docs := db_docs (w_db w) @ [(cfg_song_model cfg, cfg_context cfg, song)],
                                   db_calls := Suc (db_calls (w_db w))\<rparr>\<rparr>"
    by (auto simp: addSong_def Let_def orbis_insertJ_def orbis_insert_def split: if_splits)
  with w1 show ?thesis by simp
qed

lemma stringify_conds_nonempty: "stringify_conds cs \<noteq> []"
  by (simp add: stringify_conds_def conds_to_json_def)

lemma encryptString_fields_nonempty:
  assumes "encryptString ls text songId chainId a w = (Inr ed, w')"
  shows "ed_ciphertext ed \<noteq> [] \<and> ed_dataToEncryptHash ed \<noteq> []"
  using encryptString_Inr [OF assms] by (auto dest: lit_encrypt_nonempty)

text \<open>
  C20. \<open>getSongLyrics\<close> fails with \<open>No encrypted lyrics found\<close>, before any contract
  read or network request and leaving the world unchanged, exactly when the song's
  ciphertext, hash or condition text is missing or empty (false in JavaScript); a song
  with all three fields never gets that error, whatever else fails.
\<close>

theorem getSongLyrics_no_lyrics:
  "getSongLyrics ks song chainId a w = (Inl NoEncryptedLyrics, w) \<longleftrightarrow>
     s_encryptedLyricsCiphertext song \<in> {None, Some []} \<or> s_encryptedLyricsHash song \<in> {None, Some []} \<or>
     s_encryptedLyricsConditions song \<in> {None, Some []}"
proof -
  have none: "lyrics_fields song = None \<longleftrightarrow>
     s_encryptedLyricsCiphertext song \<in> {None, Some []} \<or> s_encryptedLyricsHash song \<in> {None, Some []} \<or>
     s_encryptedLyricsConditions song \<in> {None, Some []}"
    by (auto simp: lyrics_fields_def split: option.splits)
  show ?thesis
  proof (cases "lyrics_fields song")
    case None
    with none show ?thesis by (simp add: getSongLyrics_def)
  next
    case (Some f)
    obtain ct h cj where "f = (ct, h, cj)" by (cases f) auto
    with Some none getSongLyrics_present [of song ct h cj ks chainId a w] show ?thesis
      by (auto simp: prod_eq_iff)
  qed
qed

text \<open>
  C21. A stored condition text that is valid JSON but not a list of contract conditions is
  refused with the Lit client's shape error, after the (read-only) access check and in the
  order of the source: an unsupported chain is reported first (\<open>getChainName\<close> in
  \<open>decryptString\<close>), then a client that is not connected, then the shape; no request
  reaches the network and the world is unchanged.
\<close>

theorem getSongLyrics_bad_conditions:
  assumes wc: "wallet_contract (ks_karaokeAccessContract ks) s"
    and dep: "l_contracts (w_ledger w) (c_target (ks_karaokeAccessContract ks)) = Some k"
    and f: "lyrics_fields song = Some (ct, h, cj)"
    and parsed: "json_parse cj = Inr j" and bad: "conds_of_json j = Inl e"
  shows "getSongLyrics ks song chainId a w =
           (if chainId \<notin> snd ` set (ls_chains (ks_litProtocol ks)) then Inl (UnsupportedChainId chainId)
            else if \<not> ln_ready (w_lit w) then Inl (LitError LitNodeClientNotReady) else Inl e, w)"
proof (cases "getChainName (ls_chains (ks_litProtocol ks)) chainId")
  case (Inl e')
  then have "e' = UnsupportedChainId chainId \<and> chainId \<notin> snd ` set (ls_chains (ks_litProtocol ks))"
    by (simp add: getChainName_Inl_iff)
  with Inl show ?thesis
    by (simp add: getSongLyrics_fields [OF wc dep f] parsed decryptString_json_def)
next
  case (Inr chain)
  then have "chainId \<in> snd ` set (ls_chains (ks_litProtocol ks))"
    by (auto dest!: getChainName_Inr_mem intro: rev_image_eqI)
  with Inr bad show ?thesis
    by (simp add: getSongLyrics_fields [OF wc dep f] parsed decryptString_json_def lit_client_ready_def)
qed

text \<open>
  Reading a song that \<open>addSong\<close> stored is decrypting the payload its encryption
  produced: the stored condition text parses back to the encrypted conditions.
\<close>

lemma getSongLyrics_stored:
  assumes wf: "karaoke_service_wf ks s"
    and add: "addSong cfg ks songId title artist lyrics chainId a0 w1 = (Inr song, w2)"
    and deployed: "l_contracts (w_ledger w3) (c_target (ks_karaokeAccessContract ks)) = Some k"
  obtains ed wE where "encryptString (ks_litProtocol ks) lyrics songId chainId a0 w1 = (Inr ed, wE)"
    and "w_lit w2 = w_lit wE"
    and "getSongLyrics ks song chainId' a w3 = decryptString (ks_litProtocol ks) ed chainId' a w3"
proof -
  from add obtain ed wE where enc: "encryptString (ks_litProtocol ks) lyrics songId chainId a0 w1 = (Inr ed, wE)"
    and lit: "w_lit w2 = w_lit wE"
    and song: "song = \<lparr>s_title = title, s_artist = artist, s_songId = songId,
               s_encryptedLyricsCiphertext = Some (ed_ciphertext ed),
               s_encryptedLyricsHash = Some (ed_dataToEncryptHash ed),
               s_encryptedLyricsConditions = Some (stringify_conds (ed_evmContractConditions ed))\<rparr>"
    by (blast dest: addSong_Inr)
  from wf have wc: "wallet_contract (ks_karaokeAccessContract ks) s" by (simp add: karaoke_service_wf_def)
  have f: "lyrics_fields song = Some (ed_ciphertext ed, ed_dataToEncryptHash ed,
                                      stringify_conds (ed_evmContractConditions ed))"
    using encryptString_fields_nonempty [OF enc] song
    by (simp add: lyrics_fields_def stringify_conds_nonempty)
  have eta: "\<lparr>ed_ciphertext = ed_ciphertext ed, ed_dataToEncryptHash = ed_dataToEncryptHash ed,
              ed_evmContractConditions = ed_evmContractConditions ed\<rparr> = ed"
    by (cases ed) simp
  have "getSongLyrics ks song chainId' a w3 = decryptString (ks_litProtocol ks) ed chainId' a w3"
    using getSongLyrics_parsed [OF wc deployed f parse_conds_stringify] eta by simp
  with enc lit that show ?thesis by blast
qed

text \<open>
  Reading a stored song while the network still holds its ciphertext, on the chain it
  was encrypted for and with a valid authorization: the lyrics exactly when the signer
  holds access at that moment, access denied otherwise, and one request to the network.
\<close>

lemma getSongLyrics_after_addSong:
  assumes wf: "karaoke_service_wf ks s"
    and add: "addSong cfg ks songId title artist lyrics chainId a0 w1 = (Inr song, w2)"
    and keep: "ln_store (w_lit w2) \<subseteq>\<^sub>m ln_store (w_lit w3)"
    and ready: "ln_ready (w_lit w3)" and chain: "w_chain w3 = chainId"
    and deployed: "l_contracts (w_ledger w3) (c_target (ks_karaokeAccessContract ks)) = Some k"
    and auth: "auth_sig_valid (w_now w3) a"
  shows "getSongLyrics ks song chainId a w3 =
           (if has_access (w_ledger w3) (c_target (ks_karaokeAccessContract ks)) (as_address a) songId
            then Inr lyrics else Inl (LitError AccessDenied),
            w3\<lparr>w_lit := (w_lit w3)\<lparr>ln_calls := Suc (ln_calls (w_lit w3))\<rparr>\<rparr>)"
proof -
  obtain ed wE where enc: "encryptString (ks_litProtocol ks) lyrics songId chainId a0 w1 = (Inr ed, wE)"
    and lit: "w_lit w2 = w_lit wE"
    and get: "getSongLyrics ks song chainId a w3 = decryptString (ks_litProtocol ks) ed chainId a w3"
    by (rule getSongLyrics_stored [OF wf add deployed])
  from wf have tgt: "c_target (ls_contract (ks_litProtocol ks)) = c_target (ks_karaokeAccessContract ks)"
    and tbl: "chain_table_wf (ls_chains (ks_litProtocol ks))"
    by (simp_all add: karaoke_service_wf_def)
  from enc obtain ch where "ln_store (w_lit wE) (ed_ciphertext ed) =
      Some \<lparr>le_data = lyrics, le_hash = ed_dataToEncryptHash ed, le_conds = ed_evmContractConditions ed\<rparr>"
    by (rule encryptString_bound)
  with keep lit have k1: "ln_store (w_lit w3) (ed_ciphertext ed) = ln_store (w_lit wE) (ed_ciphertext ed)"
    by (metis domI map_le_def)
  have d1: "l_contracts (w_ledger w3) (c_target (ls_contract (ks_litProtocol ks))) \<noteq> None"
    using deployed tgt by simp
  from decryptString_after_encrypt [OF tbl enc k1 ready chain d1 auth] get tgt
  show ?thesis by simp
qed

text \<open>
  The same read with an authorization the network does not accept at that moment: the
  nodes refuse it before evaluating the conditions, after one request.
\<close>

lemma getSongLyrics_invalid_auth:
  assumes wf: "karaoke_service_wf ks s"
    and add: "addSong cfg ks songId title artist lyrics chainId a0 w1 = (Inr song, w2)"
    and ready: "ln_ready (w_lit w3)"
    and deployed: "l_contracts (w_ledger w3) (c_target (ks_karaokeAccessContract ks)) = Some k"
    and auth: "\<not> auth_sig_valid (w_now w3) a"
  shows "getSongLyrics ks song chainId a w3 =
           (Inl (LitError InvalidAuthSig), w3\<lparr>w_lit := (w_lit w3)\<lparr>ln_calls := Suc (ln_calls (w_lit w3))\<rparr>\<rparr>)"
proof -
  obtain ed wE where enc: "encryptString (ks_litProtocol ks) lyrics songId chainId a0 w1 = (Inr ed, wE)"
    and get: "getSongLyrics ks song chainId a w3 = decryptString (ks_litProtocol ks) ed chainId a w3"
    by (rule getSongLyrics_stored [OF wf add deployed])
  from enc obtain ch where ch: "getChainName (ls_chains (ks_litProtocol ks)) chainId = Inr ch"
    by (rule encryptString_bound)
  from get ready auth show ?thesis
    by (simp add: decryptString_apply [OF ch] lit_decrypt_invalid_auth)
qed

text \<open>
  C6. End to end: a song stored by \<open>addSong\<close> gives back its lyrics through
  \<open>getSongLyrics\<close>, for any valid authorization whose signer holds access to the song on
  the chain the lyrics were encrypted for, while the network still holds the ciphertext.
  The stored condition text parses back to the conditions the lyrics were bound to.
\<close>

theorem addSong_then_getSongLyrics:
  assumes wf: "karaoke_service_wf ks s"
    and add: "addSong cfg ks songId title artist lyrics chainId a0 w1 = (Inr song, w2)"
    and keep: "ln_store (w_lit w3) = ln_store (w_lit w2)"
    and ready: "ln_ready (w_lit w3)" and chain: "w_chain w3 = chainId"
    and deployed: "l_contracts (w_ledger w3) (c_target (ks_karaokeAccessContract ks)) = Some k"
    and auth: "auth_sig_valid (w_now w3) a"
    and paid: "has_access (w_ledger w3) (c_target (ks_karaokeAccessContract ks)) (as_address a) songId"
  shows "fst (getSongLyrics ks song chainId a w3) = Inr lyrics"
proof -
  from keep have "ln_store (w_lit w2) \<subseteq>\<^sub>m ln_store (w_lit w3)" by simp
  from getSongLyrics_after_addSong [OF wf add this ready chain deployed auth] paid show ?thesis by simp
qed

subsection \<open>Search\<close>

lemma searchSongs_apply:
  "searchSongs cfg ks query w =
     (Inr (filter (\<lambda>r. case search_clause query of None \<Rightarrow> True | Some c \<Rightarrow> eval_where song_field c r)
             (songs_in (w_db w) (cfg_song_model cfg) (cfg_context cfg))),
      w\<lparr>w_db := (w_db w)\<lparr>db_calls := Suc (db_calls (w_db w))\<rparr>\<rparr>)"
  by (simp add: searchSongs_def orbis_selectJ_def orbis_select_def songs_in_def filter_map
      filter_filter o_def split_def conj_ac)

text \<open>
  C15. \<open>searchSongs\<close> with a non-empty query returns, in insertion order, exactly the
  songs of the model and context whose title or artist contains the query, ignoring ASCII
  case.
\<close>

theorem searchSongs_query:
  assumes "q \<noteq> []"
  shows "fst (searchSongs cfg ks (Some q) w) =
           Inr (filter (\<lambda>r. contains_insensitive (s_title r) q \<or> contains_insensitive (s_artist r) q)
                  (songs_in (w_db w) (cfg_song_model cfg) (cfg_context cfg)))"
  using assms by (simp add: searchSongs_apply search_clause_def song_field_def)

subsection \<open>Authorization signatures\<close>

lemma createAuthSig_apply:
  "createAuthSig s bytes w =
     (let m = \<lparr>sm_domain = ''localhost'', sm_address = s,
               sm_statement = ''Sign this message to access encrypted lyrics with Lit Protocol.'',
               sm_uri = ''https://localhost/login'', sm_version = ''1'', sm_chainId = 1,
               sm_nonce = nonce_of bytes, sm_issuedAt = w_now w,
               sm_expirationTime = Some (utc_time w (local_time w (w_now w) + 24 * HOUR_MS))\<rparr>
      in (Inr \<lparr>as_sig = Signature s (SiweMsg m), as_derivedVia = ''web3.eth.personal.sign'',
               as_signedMessage = SiweMsg m, as_address = s\<rparr>, w))"
  by (simp add: createAuthSig_def Let_def)

lemma createAuthSig_valid_iff:
  assumes "createAuthSig s bytes w = (Inr a, w')"
  shows "auth_sig_valid t a \<longleftrightarrow>
           w_now w \<le> t \<and> t < utc_time w (local_time w (w_now w) + 24 * HOUR_MS)"
  using assms by (auto simp: createAuthSig_apply Let_def auth_sig_valid_def)

text \<open>
  C16. Where the time zone's offset does not change, the signature \<open>createAuthSig\<close>
  makes is accepted exactly from the moment it is made for the next 24 hours, and refused
  before and after.
\<close>

theorem createAuthSig_valid_window:
  assumes tz: "w_tz w = (\<lambda>_. z)" and sig: "createAuthSig s bytes w = (Inr a, w')"
  shows "auth_sig_valid t a \<longleftrightarrow> w_now w \<le> t \<and> t < w_now w + 24 * HOUR_MS"
  using createAuthSig_valid_iff [OF sig] tz by (simp add: utc_time_def local_time_def)

text \<open>\<open>toString(16).padStart(2, '0')\<close> of a byte is its two hexadecimal digits.\<close>

lemma pad_to_hex_byte:
  assumes "b < 256"
  shows "pad_start 2 (CHR ''0'') (to_hex b) = [hex_digit (b div 16), hex_digit (b mod 16)]"
proof (cases "b < 16")
  case True
  have "hex_digit 0 = CHR ''0''" unfolding hex_digit_def by code_simp
  with True show ?thesis by (simp add: pad_start_def to_hex.simps)
next
  case False
  with assms have "b div 16 < 16" by simp
  with False show ?thesis by (simp add: pad_start_def to_hex.simps [of b] to_hex.simps [of "b div 16"])
qed

text \<open>
  C19. Equivalence: the nonce \<open>createAuthSig\<close> builds by printing each byte in base 16
  and left-padding it to two characters is the fixed-width encoding of the bytes as two
  hexadecimal digits each, high nibble first.
\<close>

theorem nonce_of_hex_pairs:
  assumes "list_all (\<lambda>b. b < 256) bytes"
  shows "nonce_of bytes = concat (map (\<lambda>b. [hex_digit (b div 16), hex_digit (b mod 16)]) bytes)"
  using assms by (induction bytes) (simp_all add: nonce_of_def pad_to_hex_byte)

subsection \<open>Purchase\<close>

lemma KaraokeService_purchase_apply:
  assumes "wallet_contract (ks_karaokeAccessContract ks) s"
  shows "KaraokeService_purchaseSongAccess ks songId w =
     (case ledger_send (w_ledger w) s (c_target (ks_karaokeAccessContract ks)) ''purchaseSong''
             [VUint songId] PURCHASE_VALUE of
        Inl e \<Rightarrow> (Inl e, w)
      | Inr (r, l') \<Rightarrow> (Inr (), w\<lparr>w_ledger := l'\<rparr>))"
  by (simp add: KaraokeService_purchaseSongAccess_def invoke_purchase [OF assms] split: sum.split)

text \<open>
  C10. \<open>KaraokeService.purchaseSongAccess\<close> with a wallet that can pay the price and the
  fee: the transaction is sent and waited for, the wallet is charged, and afterwards it
  holds access to the song.
\<close>

theorem karaoke_purchase_grants:
  assumes wc: "wallet_contract (ks_karaokeAccessContract ks) s"
    and dep: "l_contracts (w_ledger w) (c_target (ks_karaokeAccessContract ks)) = Some k"
    and price: "k_price k \<le> PURCHASE_VALUE"
    and rich: "PURCHASE_VALUE + l_fee (w_ledger w) \<le> l_balance (w_ledger w) s"
  shows "\<exists>w'. KaraokeService_purchaseSongAccess ks songId w = (Inr (), w')
           \<and> has_access (w_ledger w') (c_target (ks_karaokeAccessContract ks)) s songId
           \<and> l_balance (w_ledger w') s = l_balance (w_ledger w) s - (PURCHASE_VALUE + l_fee (w_ledger w))"
proof -
  let ?c = "ks_karaokeAccessContract ks"
  obtain r l' where send: "ledger_send (w_ledger w) s (c_target ?c) ''purchaseSong'' [VUint songId]
                             PURCHASE_VALUE = Inr (r, l')"
    using dep price rich by (rule ledger_send_purchase_ok)
  from ledger_send_grants [OF send] have acc: "has_access l' (c_target ?c) s songId" by simp
  from ledger_send_purchase_Inr [OF send] have bal:
    "l_balance l' s = l_balance (w_ledger w) s - (PURCHASE_VALUE + l_fee (w_ledger w))" by auto
  have "KaraokeService_purchaseSongAccess ks songId w = (Inr (), w\<lparr>w_ledger := l'\<rparr>)"
    using send by (simp add: KaraokeService_purchase_apply [OF wc])
  with acc bal show ?thesis by auto
qed

text \<open>
  C11. Without the funds for price and fee, \<open>KaraokeService.purchaseSongAccess\<close> throws
  \<open>INSUFFICIENT_FUNDS\<close> and changes nothing; it has no recovery of its own.
\<close>

theorem karaoke_purchase_insufficient:
  assumes wc: "wallet_contract (ks_karaokeAccessContract ks) s"
    and poor: "l_balance (w_ledger w) s < PURCHASE_VALUE + l_fee (w_ledger w)"
  shows "KaraokeService_purchaseSongAccess ks songId w = (Inl (EthersError INSUFFICIENT_FUNDS), w)"
  using ledger_send_insufficient [OF poor] by (simp add: KaraokeService_purchase_apply [OF wc])

subsection \<open>Balance\<close>

lemma format_ether_PURCHASE_VALUE: "format_ether PURCHASE_VALUE = ''0.001''"
  unfolding format_ether_def PURCHASE_VALUE_def dec_string_pow10
  by (simp add: eval_nat_numeral)

text \<open>
  C18. A paid purchase through \<open>KaraokeService\<close> moves the price to the contract:
  afterwards \<open>checkContractBalance\<close> reports the contract's earlier funds plus
  \<open>parseEther("0.001")\<close>, formatted as ether, and changes nothing.
\<close>

theorem karaoke_purchase_balance:
  assumes wc: "wallet_contract (ks_karaokeAccessContract ks) s"
    and dep: "l_contracts (w_ledger w) (c_target (ks_karaokeAccessContract ks)) = Some k"
    and price: "k_price k \<le> PURCHASE_VALUE"
    and rich: "PURCHASE_VALUE + l_fee (w_ledger w) \<le> l_balance (w_ledger w) s"
  shows "\<exists>w'. KaraokeService_purchaseSongAccess ks songId w = (Inr (), w')
           \<and> checkContractBalance ks w' = (Inr (format_ether (k_funds k + PURCHASE_VALUE)), w')"
proof -
  let ?c = "ks_karaokeAccessContract ks"
  obtain r l' where send: "ledger_send (w_ledger w) s (c_target ?c) ''purchaseSong'' [VUint songId]
                             PURCHASE_VALUE = Inr (r, l')"
    using dep price rich by (rule ledger_send_purchase_ok)
  from ledger_send_purchase_Inr [OF send] dep obtain k' where
    pur: "karaoke_purchaseSong k s PURCHASE_VALUE songId = Some k'"
    and l': "l_contracts l' (c_target ?c) = Some k'" by auto
  from pur have "k_funds k' = k_funds k + PURCHASE_VALUE"
    by (auto simp: karaoke_purchaseSong_def split: if_splits)
  with l' have bal: "get_balance l' (c_target ?c) = k_funds k + PURCHASE_VALUE"
    by (simp add: get_balance_def)
  have "KaraokeService_purchaseSongAccess ks songId w = (Inr (), w\<lparr>w_ledger := l'\<rparr>)"
    using send by (simp add: KaraokeService_purchase_apply [OF wc])
  with bal show ?thesis by (simp add: checkContractBalance_def)
qed

end
