(* ===== verification/Scripts.thy ===== *)
theory Scripts
  imports Karaoke
begin

text \<open>
  The two entry points. src/unlock-song.ts reads the user's key, connects OrbisDB,
  builds a \<open>KaraokeService\<close>, signs a SIWE authorization, takes the first song of an
  unfiltered search, purchases access and reads the lyrics; when the purchase fails with
  \<open>INSUFFICIENT_FUNDS\<close> it tries to read the lyrics anyway and rethrows the purchase's
  error if that fails too. src/example-usage.ts signs a plain message, adds a song, searches
  for it by title, purchases access to the first hit and reads its lyrics. Loading either
  script first loads the configuration module (an import of src/ceramic-orbis.ts). The
  address of the wallet built from a private key (\<open>new ethers.Wallet(key, provider)\<close>)
  is a parameter \<open>wallet_address\<close>: key derivation is not modelled. The value of a run is
  the lyrics it logs, or \<open>None\<close> when the search finds no song.
\<close>

definition KARAOKE_ADDRESS :: address where
  "KARAOKE_ADDRESS = ''0x83F569503ee532A60e90Ab00fF6BC265826556e0''"

text \<open>\<open>Number((await provider.getNetwork()).chainId)\<close>.\<close>

definition getNetworkChainId :: "('r world, chain_id) js" where
  "getNetworkChainId = (\<lambda>w. (Inr (w_chain w), w))"

text \<open>\<open>const key = process.env.NAME; if (!key) throw ...\<close> at the top of a script.\<close>

definition require_env :: "string \<Rightarrow> ('r world, string) js" where
  "require_env name =
     (\<lambda>w. case w_env w name of
            Some v \<Rightarrow> if v \<noteq> [] then (Inr v, w) else (Inl (MissingEnv name), w)
          | None \<Rightarrow> (Inl (MissingEnv name), w))"

section \<open>unlock-song\<close>

text \<open>
  The inner \<open>try\<close> of \<open>main\<close> in src/unlock-song.ts: purchase, then read; on
  \<open>INSUFFICIENT_FUNDS\<close> read anyway, and if that fails throw the original error.
\<close>

definition unlock_attempt ::
  "karaoke_service \<Rightarrow> song \<Rightarrow> chain_id \<Rightarrow> auth_sig \<Rightarrow> (song world, string) js" where
  "unlock_attempt karaokeService song chainId authSig =
     catchJ
       (bindJ (KaraokeService_purchaseSongAccess karaokeService (s_songId song))
          (\<lambda>_. getSongLyrics karaokeService song chainId authSig))
       (\<lambda>error.
          if error_code error = Some INSUFFICIENT_FUNDS
          then catchJ (getSongLyrics karaokeService song chainId authSig) (\<lambda>decryptError. throw error)
          else throw error)"



section \<open>example-usage\<close>

definition EXAMPLE_MESSAGE :: string where
  "EXAMPLE_MESSAGE = ''Sign this message to access encrypted lyrics''"

text \<open>The authorization example-usage builds by hand from a plain signed message.\<close>

definition plain_auth_sig :: "address \<Rightarrow> string \<Rightarrow> auth_sig" where
  "plain_auth_sig address message =
     \<lparr>as_sig = Signature address (PlainMessage message), as_derivedVia = ''web3.eth.personal.sign'',
      as_signedMessage = PlainMessage message, as_address = address\<rparr>"

definition example_main :: "orbis_config \<Rightarrow> address \<Rightarrow> (song world, string option) js" where
  "example_main cfg signer =
     bindJ initAuth (\<lambda>_.
     bindJ getNetworkChainId (\<lambda>chainId.
     let authSig = plain_auth_sig signer EXAMPLE_MESSAGE in
     bindJ (KaraokeService_new KARAOKE_ADDRESS signer) (\<lambda>karaokeService.
     bindJ (initialize karaokeService) (\<lambda>_.
     bindJ (addSong cfg karaokeService 1 ''Song Title'' ''Artist Name'' ''Encrypted lyrics here...''
              chainId authSig) (\<lambda>result.
     bindJ (searchSongs cfg karaokeService (Some ''Song Title'')) (\<lambda>songs.
     case songs of
       [] \<Rightarrow> ret None
     | song # _ \<Rightarrow>
         bindJ (KaraokeService_purchaseSongAccess karaokeService (s_songId song)) (\<lambda>_.
         bindJ (getSongLyrics karaokeService song chainId authSig) (\<lambda>lyrics. ret (Some lyrics)))))))))"

definition example_usage :: "(string \<Rightarrow> address) \<Rightarrow> (song world, string option) js" where
  "example_usage wallet_address =
     bindJ load_config (\<lambda>cfg.
     bindJ (require_env ''VITE_ORBIS_PRIVATE_KEY'') (\<lambda>privateKey.
     example_main cfg (wallet_address privateKey)))"

section \<open>Lemmas\<close>

lemma load_config_state: "snd (load_config w) = w"
  by (simp add: load_config_def split: sum.split)

text \<open>
  C12. Recovery in unlock-song: when the purchase is refused for insufficient funds, the
  lyrics are read anyway, and if that read succeeds its result and effects are the
  outcome of the attempt.
\<close>

theorem unlock_attempt_recovers:
  assumes wc: "wallet_contract (ks_karaokeAccessContract ks) s"
    and poor: "l_balance (w_ledger w) s < PURCHASE_VALUE + l_fee (w_ledger w)"
    and read: "getSongLyrics ks song chainId a w = (Inr lyrics, w')"
  shows "unlock_attempt ks song chainId a w = (Inr lyrics, w')"
  using ledger_send_insufficient [OF poor] read
  by (simp add: unlock_attempt_def KaraokeService_purchase_apply [OF wc])

text \<open>
  C13. When that read fails too, unlock-song throws the purchase's
  \<open>INSUFFICIENT_FUNDS\<close> error, not the read's, after the read's effects.
\<close>

theorem unlock_attempt_rethrows:
  assumes wc: "wallet_contract (ks_karaokeAccessContract ks) s"
    and poor: "l_balance (w_ledger w) s < PURCHASE_VALUE + l_fee (w_ledger w)"
    and read: "getSongLyrics ks song chainId a w = (Inl e, w')"
  shows "unlock_attempt ks song chainId a w = (Inl (EthersError INSUFFICIENT_FUNDS), w')"
  using ledger_send_insufficient [OF poor] read
  by (simp add: unlock_attempt_def KaraokeService_purchase_apply [OF wc])



text \<open>
  C9. End to end, src/example-usage.ts pays and is then refused: with the OrbisDB key
  set, a provider on a chain of the Lit table, the KaraokeAccess contract deployed at
  \<open>KARAOKE_ADDRESS\<close> with a price the wallet can pay with the fee, and no song
  already stored that matches the search for \<open>Song Title\<close>, \<open>main\<close> connects,
  stores the song, finds it and buys it (the wallet is charged the value and the fee and
  the contract records the access), but the read is refused with \<open>InvalidAuthSig\<close>:
  the authorization it signs is a plain message, not the time-bounded challenge the
  network accepts.
\<close>

theorem example_main_refused_after_purchase:
  assumes key: "getEnvVar (w_env w) ''ORBIS_PRIVATE_KEY'' = Inr key"
    and chain: "w_chain w \<in> snd ` set LIT_CHAINS"
    and dep: "l_contracts (w_ledger w) KARAOKE_ADDRESS = Some k" and price: "k_price k \<le> PURCHASE_VALUE"
    and rich: "PURCHASE_VALUE + l_fee (w_ledger w) \<le> l_balance (w_ledger w) signer"
    and fresh: "\<not> list_ex (eval_where song_field
                   (WOr [WContainsInsensitive ''title'' ''Song Title'', WContainsInsensitive ''artist'' ''Song Title'']))
                 (songs_in (w_db w) (cfg_song_model cfg) (cfg_context cfg))"
  shows "fst (example_main cfg signer w) = Inl (LitError InvalidAuthSig)
         \<and> has_access (w_ledger (snd (example_main cfg signer w))) KARAOKE_ADDRESS signer 1
         \<and> l_balance (w_ledger (snd (example_main cfg signer w))) signer
             = l_balance (w_ledger w) signer - (PURCHASE_VALUE + l_fee (w_ledger w))"
proof -
  let ?auth = "plain_auth_sig signer EXAMPLE_MESSAGE"
  let ?lyrics = "''Encrypted lyrics here...''"
  obtain ks where new: "\<And>v. KaraokeService_new KARAOKE_ADDRESS signer v = (Inr ks, v\<lparr>w_lit := (w_lit v)\<lparr>ln_ready := False\<rparr>\<rparr>)"
    and chains: "ls_chains (ks_litProtocol ks) = LIT_CHAINS"
    and target: "c_target (ks_karaokeAccessContract ks) = KARAOKE_ADDRESS"
    by (simp add: KaraokeService_new_apply)
  have wf: "karaoke_service_wf ks signer" by (rule KaraokeService_new_wf [OF new])
  then have wc: "wallet_contract (ks_karaokeAccessContract ks) signer" by (simp add: karaoke_service_wf_def)
  define w1 where "w1 = w\<lparr>w_db := orbis_connect (w_db w)\<rparr>"
  define w1' where "w1' = w1\<lparr>w_lit := (w_lit w1)\<lparr>ln_ready := False\<rparr>\<rparr>"
  define w2 where "w2 = w1'\<lparr>w_lit := lit_connect (w_lit w1')\<rparr>"
  have s1: "initAuth w = (Inr (), w1)" by (simp add: initAuth_def key w1_def)
  have s2: "getNetworkChainId w1 = (Inr (w_chain w), w1)" by (simp add: getNetworkChainId_def w1_def)
  have s4: "initialize ks w1' = (Inr (), w2)"
    by (simp add: initialize_def lit_service_connect_def lit_connectJ_def w2_def)
  obtain song w3 where s5: "addSong cfg ks 1 ''Song Title'' ''Artist Name'' ?lyrics (w_chain w) ?auth w2 = (Inr song, w3)"
    and ready: "ln_ready (w_lit w3)"
  proof -
    have "\<exists>song w3. addSong cfg ks 1 ''Song Title'' ''Artist Name'' ?lyrics (w_chain w) ?auth w2 = (Inr song, w3)
            \<and> ln_ready (w_lit w3)"
      by (rule addSong_ok) (simp_all add: chain chains w2_def w1'_def w1_def lit_connect_def orbis_connect_def)
    then show ?thesis using that by blast
  qed
  from addSong_Inr [OF s5] have title: "s_title song = ''Song Title''" and sid: "s_songId song = 1" by auto
  have w3: "w3 = w2\<lparr>w_lit := w_lit w3,
                 w_db := (w_db w2)\<lparr>db_docs := db_docs (w_db w2) @ [(cfg_song_model cfg, cfg_context cfg, song)],
                                   db_calls := Suc (db_calls (w_db w2))\<rparr>\<rparr>"
    by (rule addSong_world [OF s5])
  define w3s where "w3s = w3\<lparr>w_db := (w_db w3)\<lparr>db_calls := Suc (db_calls (w_db w3))\<rparr>\<rparr>"
  have match: "eval_where song_field
                 (WOr [WContainsInsensitive ''title'' ''Song Title'', WContainsInsensitive ''artist'' ''Song Title'']) song"
    by (simp add: song_field_def title contains_insensitive_self)
  have "songs_in (w_db w3) (cfg_song_model cfg) (cfg_context cfg) =
          songs_in (w_db w) (cfg_song_model cfg) (cfg_context cfg) @ [song]"
    by (subst w3) (simp add: songs_in_def w2_def w1'_def w1_def orbis_connect_def)
  with fresh match have s6: "searchSongs cfg ks (Some ''Song Title'') w3 = (Inr [song], w3s)"
    by (simp add: searchSongs_apply search_clause_def w3s_def filter_empty_conv list_ex_iff)
  have led: "w_ledger w3s = w_ledger w" by (subst w3s_def, subst w3) (simp add: w2_def w1'_def w1_def)
  obtain r l' where send: "ledger_send (w_ledger w) signer KARAOKE_ADDRESS ''purchaseSong'' [VUint 1] PURCHASE_VALUE
                             = Inr (r, l')"
    using dep price rich by (rule ledger_send_purchase_ok)
  define w4 where "w4 = w3s\<lparr>w_ledger := l'\<rparr>"
  have s7: "KaraokeService_purchaseSongAccess ks (s_songId song) w3s = (Inr (), w4)"
    using KaraokeService_purchase_apply [OF wc, of "s_songId song" w3s] send led target sid
    by (simp add: w4_def)
  from ledger_send_grants [OF send] have acc: "has_access l' KARAOKE_ADDRESS signer 1" by simp
  then obtain k' where dep4: "l_contracts (w_ledger w4) (c_target (ks_karaokeAccessContract ks)) = Some k'"
    by (auto simp: has_access_def w4_def target split: option.splits)
  have ready4: "ln_ready (w_lit w4)" using ready by (simp add: w4_def w3s_def)
  have auth4: "\<not> auth_sig_valid (w_now w4) ?auth" by (simp add: auth_sig_valid_def plain_auth_sig_def)
  have s8: "getSongLyrics ks song (w_chain w) ?auth w4 =
              (Inl (LitError InvalidAuthSig), w4\<lparr>w_lit := (w_lit w4)\<lparr>ln_calls := Suc (ln_calls (w_lit w4))\<rparr>\<rparr>)"
    by (rule getSongLyrics_invalid_auth [OF wf s5 ready4 dep4 auth4])
  have run: "example_main cfg signer w =
               (Inl (LitError InvalidAuthSig), w4\<lparr>w_lit := (w_lit w4)\<lparr>ln_calls := Suc (ln_calls (w_lit w4))\<rparr>\<rparr>)"
    unfolding example_main_def Let_def
    by (simp add: s1 s2 new s4 s5 [unfolded One_nat_def] s6 s7 s8 w1'_def [symmetric])
  from ledger_send_purchase_Inr [OF send]
  have bal: "l_balance l' signer = l_balance (w_ledger w) signer - (PURCHASE_VALUE + l_fee (w_ledger w))" by auto
  show ?thesis using acc bal by (simp add: run w4_def)
qed

end
