(* ===== verification/Scenarios.thy ===== *)
theory Scenarios
  imports LitService
begin

text \<open>
  Concrete runs of the components on the data the scripts use: the KaraokeAccess contract
  at \<open>0x83F5...56e0\<close> on Base Sepolia (chain 84532, the provider of both scripts), song
  1 with the lyrics of src/example-usage.ts, and a buyer with a SIWE authorization valid
  for 24 hours. They instantiate the theorems of the components at inputs where their
  hypotheses hold.
\<close>

definition demo_target :: address where
  "demo_target = ''0x83F569503ee532A60e90Ab00fF6BC265826556e0''"

definition demo_user :: address where
  "demo_user = ''0x00000000000000000000000000000000000A11CE''"

definition demo_lyrics :: string where
  "demo_lyrics = ''Encrypted lyrics here...''"

definition demo_karaoke :: karaoke_state where
  "demo_karaoke = \<lparr>k_access = {}, k_price = PURCHASE_VALUE, k_funds = 0, k_owner = ''0xowner''\<rparr>"

definition demo_ledger :: ledger where
  "demo_ledger =
     \<lparr>l_balance = (\<lambda>_. 0)(demo_user := 2 * PURCHASE_VALUE),
      l_contracts = (\<lambda>_. None)(demo_target := Some demo_karaoke), l_fee = 1000\<rparr>"

definition demo_paid_ledger :: ledger where
  "demo_paid_ledger =
     demo_ledger\<lparr>l_contracts := (\<lambda>_. None)(demo_target :=
        Some (demo_karaoke\<lparr>k_access := {(demo_user, 1)}\<rparr>))\<rparr>"

definition demo_siwe :: siwe_message where
  "demo_siwe =
     \<lparr>sm_domain = ''localhost'', sm_address = demo_user,
      sm_statement = ''Sign this message to access encrypted lyrics with Lit Protocol.'',
      sm_uri = ''https://localhost/login'', sm_version = ''1'', sm_chainId = 1,
      sm_nonce = ''0123456789abcdef'', sm_issuedAt = 0, sm_expirationTime = Some 86400000\<rparr>"

definition demo_auth :: auth_sig where
  "demo_auth =
     \<lparr>as_sig = Signature demo_user (SiweMsg demo_siwe), as_derivedVia = ''web3.eth.personal.sign'',
      as_signedMessage = SiweMsg demo_siwe, as_address = demo_user\<rparr>"

definition demo_ls :: lit_service where
  "demo_ls =
     \<lparr>ls_contract = \<lparr>c_target = demo_target, c_abi = [abi_fn_of KARAOKE_ACCESS_ABI], c_runner = RProvider\<rparr>,
      ls_chains = LIT_CHAINS\<rparr>"

definition demo_net :: lit_net where
  "demo_net = \<lparr>ln_ready = True, ln_store = (\<lambda>_. None), ln_next = 0, ln_calls = 1\<rparr>"

definition demo_w0 :: "unit world" where
  "demo_w0 =
     \<lparr>w_now = 1000, w_tz = (\<lambda>_. 0), w_chain = 84532, w_ledger = demo_ledger, w_lit = demo_net,
      w_db = \<lparr>db_user = True, db_docs = [], db_calls = 0\<rparr>, w_env = (\<lambda>_. None)\<rparr>"

definition demo_ed :: encrypted_data where
  "demo_ed =
     \<lparr>ed_ciphertext = ''ct:'' @ dec_string 0, ed_dataToEncryptHash = ''hash:'' @ dec_string 0,
      ed_evmContractConditions = [karaoke_condition demo_target 1 ''baseSepolia'']\<rparr>"

definition demo_w1 :: "unit world" where
  "demo_w1 =
     demo_w0\<lparr>w_lit := demo_net\<lparr>ln_store := (\<lambda>_. None)(ed_ciphertext demo_ed :=
        Some \<lparr>le_data = demo_lyrics, le_hash = ed_dataToEncryptHash demo_ed,
              le_conds = ed_evmContractConditions demo_ed\<rparr>), ln_next := 1, ln_calls := 2\<rparr>\<rparr>"

definition demo_w2 :: "unit world" where
  "demo_w2 = demo_w1\<lparr>w_ledger := demo_paid_ledger, w_now := 3600000\<rparr>"

definition demo_w2_unpaid :: "unit world" where
  "demo_w2_unpaid = demo_w1\<lparr>w_now := 3600000\<rparr>"

lemmas demo_defs = demo_target_def demo_user_def demo_lyrics_def demo_karaoke_def demo_ledger_def
  demo_paid_ledger_def demo_siwe_def demo_auth_def demo_ls_def demo_net_def demo_w0_def demo_ed_def
  demo_w1_def demo_w2_def demo_w2_unpaid_def

lemma demo_encrypt:
  "encryptString demo_ls demo_lyrics 1 84532 demo_auth demo_w0 = (Inr demo_ed, demo_w1)"
  by (simp add: encryptString_def createAccessControlConditions_def LIT_CHAINS_def lit_encryptJ_def
      lit_encrypt_def Let_def demo_defs)

lemma demo_auth_valid: "auth_sig_valid 3600000 demo_auth"
  by (simp add: auth_sig_valid_def demo_auth_def demo_siwe_def)

theorem getChainName_Inr_iff_witness:
  "\<exists>pre post. LIT_CHAINS = pre @ (''baseSepolia'', 84532) # post \<and> (84532::int) \<notin> snd ` set pre"
  using getChainName_Inr_iff [of LIT_CHAINS 84532 "''baseSepolia''"] by (simp add: LIT_CHAINS_def)

theorem decrypt_after_encrypt_witness:
  "chain_table_wf (ls_chains demo_ls) \<and>
   encryptString demo_ls demo_lyrics 1 84532 demo_auth demo_w0 = (Inr demo_ed, demo_w1) \<and>
   ln_store (w_lit demo_w2) (ed_ciphertext demo_ed) = ln_store (w_lit demo_w1) (ed_ciphertext demo_ed) \<and>
   ln_ready (w_lit demo_w2) \<and> w_chain demo_w2 = 84532 \<and>
   l_contracts (w_ledger demo_w2) (c_target (ls_contract demo_ls)) \<noteq> None \<and>
   auth_sig_valid (w_now demo_w2) demo_auth \<and>
   has_access (w_ledger demo_w2) (c_target (ls_contract demo_ls)) (as_address demo_auth) 1 \<and>
   fst (decryptString demo_ls demo_ed 84532 demo_auth demo_w2) = Inr demo_lyrics"
proof -
  have h1: "chain_table_wf (ls_chains demo_ls)" by (simp add: demo_ls_def LIT_CHAINS_wf)
  have h3: "ln_store (w_lit demo_w2) (ed_ciphertext demo_ed) = ln_store (w_lit demo_w1) (ed_ciphertext demo_ed)"
    by (simp add: demo_w2_def)
  have h4: "ln_ready (w_lit demo_w2)" by (simp add: demo_w2_def demo_w1_def demo_net_def)
  have h5: "w_chain demo_w2 = 84532" by (simp add: demo_w2_def demo_w1_def demo_w0_def)
  have h6: "l_contracts (w_ledger demo_w2) (c_target (ls_contract demo_ls)) \<noteq> None"
    by (simp add: demo_w2_def demo_paid_ledger_def demo_ls_def)
  have h7: "auth_sig_valid (w_now demo_w2) demo_auth"
    using demo_auth_valid by (simp add: demo_w2_def)
  have h8: "has_access (w_ledger demo_w2) (c_target (ls_contract demo_ls)) (as_address demo_auth) 1"
    by (simp add: demo_w2_def demo_paid_ledger_def demo_ls_def demo_auth_def has_access_def
        karaoke_hasSongAccess_def)
  show ?thesis
    using decrypt_after_encrypt [OF h1 demo_encrypt h3 h4 h5 h6 h7 h8] h1 demo_encrypt h3 h4 h5 h6 h7 h8
    by simp
qed

theorem decrypt_without_access_denied_witness:
  "chain_table_wf (ls_chains demo_ls) \<and>
   encryptString demo_ls demo_lyrics 1 84532 demo_auth demo_w0 = (Inr demo_ed, demo_w1) \<and>
   ln_ready (w_lit demo_w2_unpaid) \<and> w_chain demo_w2_unpaid = 84532 \<and>
   l_contracts (w_ledger demo_w2_unpaid) (c_target (ls_contract demo_ls)) \<noteq> None \<and>
   auth_sig_valid (w_now demo_w2_unpaid) demo_auth \<and>
   \<not> has_access (w_ledger demo_w2_unpaid) (c_target (ls_contract demo_ls)) (as_address demo_auth) 1 \<and>
   fst (decryptString demo_ls demo_ed 84532 demo_auth demo_w2_unpaid) = Inl (LitError AccessDenied)"
proof -
  have h1: "chain_table_wf (ls_chains demo_ls)" by (simp add: demo_ls_def LIT_CHAINS_wf)
  have h3: "ln_ready (w_lit demo_w2_unpaid)" by (simp add: demo_w2_unpaid_def demo_w1_def demo_net_def)
  have h4: "w_chain demo_w2_unpaid = 84532" by (simp add: demo_w2_unpaid_def demo_w1_def demo_w0_def)
  have h5: "l_contracts (w_ledger demo_w2_unpaid) (c_target (ls_contract demo_ls)) \<noteq> None"
    by (simp add: demo_w2_unpaid_def demo_w1_def demo_w0_def demo_ledger_def demo_ls_def)
  have h6: "auth_sig_valid (w_now demo_w2_unpaid) demo_auth"
    using demo_auth_valid by (simp add: demo_w2_unpaid_def)
  have h7: "\<not> has_access (w_ledger demo_w2_unpaid) (c_target (ls_contract demo_ls)) (as_address demo_auth) 1"
    by (simp add: demo_w2_unpaid_def demo_w1_def demo_w0_def demo_ledger_def demo_ls_def demo_karaoke_def
        has_access_def karaoke_hasSongAccess_def)
  show ?thesis
    using decrypt_without_access_denied [OF h1 demo_encrypt h3 h4 h5 h6 h7] h1 demo_encrypt h3 h4 h5 h6 h7
    by simp
qed

theorem lit_service_purchase_always_fails_witness:
  "LitProtocolService_new demo_target demo_w0 = (Inr demo_ls, demo_w0\<lparr>w_lit := demo_net\<lparr>ln_ready := False\<rparr>\<rparr>) \<and>
   purchaseSongAccess demo_ls 1 demo_w0 = (Inl (TypeError ''purchaseSong''), demo_w0)"
proof -
  have h: "LitProtocolService_new demo_target demo_w0 = (Inr demo_ls, demo_w0\<lparr>w_lit := demo_net\<lparr>ln_ready := False\<rparr>\<rparr>)"
    by (simp add: LitProtocolService_new_def demo_ls_def demo_w0_def)
  show ?thesis using lit_service_purchase_always_fails [OF h] h by simp
qed

end
