(* ===== verification/Session.thy ===== *)
theory Session
  imports Karaoke
begin

text \<open>
  Sessions of the application: a \<open>KaraokeService\<close> is used for any sequence of its
  operations, each awaited in turn, whose failures the caller may catch and go on from,
  while the world moves on around it: time passes and other wallets buy songs. A session
  is the reflexive-transitive closure of the step relation \<open>session_step\<close>. The
  theorems show, by rule induction, that the Lit network's store only grows and keeps
  its freshness invariant and that a well-formed OrbisDB store stays well formed in every
  session (C7); so a song stored once keeps its ciphertext however the session continues,
  and every song a search finds can be read without a store-side failure (C8). Access on
  the ledger is not preserved: the contract's owner may revoke it in a ledger step.
\<close>

section \<open>Operations and steps\<close>

datatype service_op =
    OpInitialize
  | OpAddSong orbis_config song_id string string string chain_id auth_sig
  | OpPurchaseSongAccess song_id
  | OpGetSongLyrics song chain_id auth_sig
  | OpSearchSongs orbis_config "string option"
  | OpCreateAuthSig address "nat list"
  | OpCheckContractBalance

text \<open>One awaited call of a method of the service, its value dropped.\<close>

fun run_op :: "karaoke_service \<Rightarrow> service_op \<Rightarrow> (song world, unit) js" where
  "run_op ks OpInitialize = initialize ks"
| "run_op ks (OpAddSong cfg songId title artist lyrics chainId authSig) =
     bindJ (addSong cfg ks songId title artist lyrics chainId authSig) (\<lambda>_. ret ())"
| "run_op ks (OpPurchaseSongAccess songId) = KaraokeService_purchaseSongAccess ks songId"
| "run_op ks (OpGetSongLyrics song chainId authSig) =
     bindJ (getSongLyrics ks song chainId authSig) (\<lambda>_. ret ())"
| "run_op ks (OpSearchSongs cfg query) = bindJ (searchSongs cfg ks query) (\<lambda>_. ret ())"
| "run_op ks (OpCreateAuthSig signer randomBytes) = bindJ (createAuthSig signer randomBytes) (\<lambda>_. ret ())"
| "run_op ks OpCheckContractBalance = bindJ (checkContractBalance ks) (\<lambda>_. ret ())"

text \<open>
  A step: one operation of the service (whatever its outcome, its effects persist), time
  passing, or a transaction of any wallet mined on the ledger.
\<close>

inductive session_step :: "karaoke_service \<Rightarrow> song world \<Rightarrow> song world \<Rightarrow> bool" for ks where
  step_op: "session_step ks w (snd (run_op ks op w))"
| step_tick: "0 \<le> d \<Longrightarrow> session_step ks w (w\<lparr>w_now := w_now w + d\<rparr>)"
| step_ledger: "ledger_send (w_ledger w) sender target f args v = Inr (r, l') \<Longrightarrow>
    session_step ks w (w\<lparr>w_ledger := l'\<rparr>)"

inductive_cases session_stepE: "session_step ks w w'"

text \<open>
  A song document is well formed when the three fields \<open>getSongLyrics\<close> needs are
  present and non-empty and the stored conditions parse as a condition set; the store is
  well formed when all its documents are.
\<close>

definition song_wf :: "song \<Rightarrow> bool" where
  "song_wf s \<longleftrightarrow> (case lyrics_fields s of None \<Rightarrow> False | Some (ct, h, c) \<Rightarrow> \<not> isl (parse_conds c))"

definition db_wf :: "song orbis_db \<Rightarrow> bool" where
  "db_wf db \<longleftrightarrow> list_all (\<lambda>(m, c, r). song_wf r) (db_docs db)"

text \<open>
  What a session never takes away: from a state where the network's freshness invariant
  holds, it still holds and every stored ciphertext is still there; and a well-formed
  store stays well formed.
\<close>

definition grows :: "song world \<Rightarrow> song world \<Rightarrow> bool" where
  "grows w w' \<longleftrightarrow>
     (lit_inv (w_lit w) \<longrightarrow> lit_inv (w_lit w') \<and> ln_store (w_lit w) \<subseteq>\<^sub>m ln_store (w_lit w')) \<and>
     (db_wf (w_db w) \<longrightarrow> db_wf (w_db w'))"

text \<open>A computation whose every run ends in a state its start \<open>grows\<close> to.\<close>

definition grows_by :: "(song world, 'a) js \<Rightarrow> bool" where
  "grows_by m \<longleftrightarrow> (\<forall>w. grows w (snd (m w)))"

named_theorems grows_by_intros

section \<open>Lemmas\<close>

lemma grows_refl [simp]: "grows w w"
  by (simp add: grows_def)

lemma grows_trans: "grows w1 w2 \<Longrightarrow> grows w2 w3 \<Longrightarrow> grows w1 w3"
  unfolding grows_def by (blast intro: map_le_trans)

lemma grows_same:
  "w_lit w' = w_lit w \<Longrightarrow> db_docs (w_db w') = db_docs (w_db w) \<Longrightarrow>
     grows w w'"
  by (simp add: grows_def db_wf_def)

lemma grows_ledger_update: "grows w (w\<lparr>w_ledger := l'\<rparr>)"
  by (simp add: grows_same)

lemma grows_byI:
  fixes m :: "(song world, 'a) js"
  shows "(\<And>w. grows w (snd (m w))) \<Longrightarrow> grows_by m"
  by (simp add: grows_by_def)

lemma grows_byD:
  fixes m :: "(song world, 'a) js"
  shows "grows_by m \<Longrightarrow> grows w (snd (m w))"
  by (simp add: grows_by_def)

text \<open>Computations that touch neither the network nor the stored documents.\<close>

lemma grows_by_same:
  fixes m :: "(song world, 'a) js"
  shows "(\<And>w. w_lit (snd (m w)) = w_lit w \<and> db_docs (w_db (snd (m w))) = db_docs (w_db w)) \<Longrightarrow>
           grows_by m"
  by (rule grows_byI) (simp add: grows_same)

lemma grows_by_ret [grows_by_intros]: "grows_by (ret x)"
  and grows_by_throw [grows_by_intros]: "grows_by (throw e)"
  and grows_by_liftE [grows_by_intros]: "grows_by (liftE r)"
  by (auto intro: grows_by_same)

text \<open>The continuation need only grow on the results the first computation returns.\<close>

lemma grows_by_bindJ_res:
  fixes m :: "(song world, 'a) js"
  assumes m: "grows_by m" and f: "\<And>w x w'. m w = (Inr x, w') \<Longrightarrow> grows w' (snd (f x w'))"
  shows "grows_by (bindJ m f)"
proof (rule grows_byI)
  fix w :: "song world"
  obtain r w1 where mw: "m w = (r, w1)" by fastforce
  from grows_byD [OF m, of w] mw have g1: "grows w w1" by simp
  show "grows w (snd (bindJ m f w))"
  proof (cases r)
    case (Inl e)
    with mw g1 show ?thesis by simp
  next
    case (Inr x)
    from f [of w x w1] g1 mw Inr show ?thesis by (simp add: grows_trans)
  qed
qed

lemma grows_by_bindJ [grows_by_intros]:
  fixes m :: "(song world, 'a) js"
  assumes m: "grows_by m" and f: "\<And>x. grows_by (f x)"
  shows "grows_by (bindJ m f)"
  using m by (rule grows_by_bindJ_res) (rule grows_byD [OF f])

lemma grows_by_case_prod [grows_by_intros]:
  "(\<And>a b. grows_by (f a b)) \<Longrightarrow> grows_by (case_prod f x)"
  by (cases x) simp

lemma grows_by_case_option [grows_by_intros]:
  "grows_by a \<Longrightarrow> (\<And>y. grows_by (b y)) \<Longrightarrow> grows_by (case_option a b x)"
  by (cases x) simp_all

lemma grows_by_if [grows_by_intros]:
  "grows_by a \<Longrightarrow> grows_by b \<Longrightarrow> grows_by (if c then a else b)"
  by simp

text \<open>A call through a contract object changes only the ledger.\<close>

lemma grows_by_invoke [grows_by_intros]: "grows_by (invoke c f args v)"
  by (rule grows_by_same) (simp add: invoke_def split: sum.split prod.split)

lemma grows_by_tx_wait [grows_by_intros]: "grows_by (tx_wait r)"
  by (cases r) (simp_all add: grows_by_intros)

text \<open>Inserting a well-formed document keeps the store well formed.\<close>

lemma grows_by_orbis_insertJ: "song_wf r \<Longrightarrow> grows_by (orbis_insertJ model ctx r)"
  by (rule grows_byI) (auto simp: grows_def db_wf_def orbis_insertJ_def orbis_insert_def)

lemma grows_by_orbis_selectJ [grows_by_intros]: "grows_by (orbis_selectJ field model ctx wh)"
  by (rule grows_by_same) (simp add: orbis_selectJ_def orbis_select_def)

lemma grows_by_encryptJ [grows_by_intros]: "grows_by (lit_encryptJ r)"
proof (rule grows_byI)
  fix w :: "song world"
  obtain res n' where enc: "lit_encrypt (w_lit w) r = (res, n')" by fastforce
  have "lit_inv (w_lit w) \<Longrightarrow> lit_inv n' \<and> ln_store (w_lit w) \<subseteq>\<^sub>m ln_store n'"
    using lit_encrypt_inv [OF _ enc] lit_encrypt_keeps [OF _ enc] by (auto simp: map_le_def)
  with enc show "grows w (snd (lit_encryptJ r w))"
    by (simp add: grows_def lit_encryptJ_apply)
qed

lemma grows_by_decryptJ [grows_by_intros]: "grows_by (lit_decryptJ tbl r)"
proof (rule grows_byI)
  fix w :: "song world"
  obtain res n' where dec: "lit_decrypt tbl (w_ledgers w) (w_now w) (w_lit w) r = (res, n')" by fastforce
  from lit_decrypt_store [OF dec] dec show "grows w (snd (lit_decryptJ tbl r w))"
    by (simp add: grows_def lit_decryptJ_apply lit_inv_def)
qed

lemma grows_by_connectJ [grows_by_intros]: "grows_by lit_connectJ"
  by (rule grows_byI) (auto simp: grows_def lit_connectJ_def lit_inv_def lit_connect_def)

lemma grows_by_encryptString [grows_by_intros]:
  "grows_by (encryptString ls text songId chainId authSig)"
  unfolding encryptString_def by (intro grows_by_intros)

lemma grows_by_decryptString [grows_by_intros]:
  "grows_by (decryptString ls ed chainId authSig)"
  unfolding decryptString_def by (intro grows_by_intros)

lemma grows_by_lit_client_ready [grows_by_intros]: "grows_by lit_client_ready"
  by (rule grows_by_same) (simp add: lit_client_ready_def)

lemma grows_by_decryptString_json [grows_by_intros]:
  "grows_by (decryptString_json ls ciphertext hash conditions chainId authSig)"
  unfolding decryptString_json_def by (intro grows_by_intros)

text \<open>
  \<open>addSong\<close> stores a well-formed song: the fields come from a successful encryption and
  the conditions are stored as their own JSON text.
\<close>

lemma addSong_song_wf:
  assumes "encryptString ls lyrics songId chainId authSig w = (Inr ed, w')"
  shows "song_wf \<lparr>s_title = title, s_artist = artist, s_songId = songId,
                  s_encryptedLyricsCiphertext = Some (ed_ciphertext ed),
                  s_encryptedLyricsHash = Some (ed_dataToEncryptHash ed),
                  s_encryptedLyricsConditions = Some (stringify_conds (ed_evmContractConditions ed))\<rparr>"
  using encryptString_fields_nonempty [OF assms]
  by (simp add: song_wf_def lyrics_fields_def parse_conds_stringify stringify_conds_nonempty)

lemma grows_by_addSong [grows_by_intros]:
  "grows_by (addSong cfg ks songId title artist lyrics chainId authSig)"
  unfolding addSong_def Let_def
proof (rule grows_by_bindJ_res [OF grows_by_encryptString])
  fix w w' :: "song world" and ed
  assume "encryptString (ks_litProtocol ks) lyrics songId chainId authSig w = (Inr ed, w')"
  from addSong_song_wf [OF this, of title artist] show "grows w' (snd (bindJ (orbis_insertJ (cfg_song_model cfg) (cfg_context cfg)
        \<lparr>s_title = title, s_artist = artist, s_songId = songId,
         s_encryptedLyricsCiphertext = Some (ed_ciphertext ed),
         s_encryptedLyricsHash = Some (ed_dataToEncryptHash ed),
         s_encryptedLyricsConditions = Some (stringify_conds (ed_evmContractConditions ed))\<rparr>)
       (\<lambda>result. case result of None \<Rightarrow> throw StoreFailed | Some r \<Rightarrow> ret r) w'))"
    by (intro grows_byD grows_by_bindJ grows_by_orbis_insertJ grows_by_intros)
qed

text \<open>Every operation of the service only adds to the network's store and the OrbisDB documents.\<close>

lemma run_op_grows: "grows_by (run_op ks op)"
proof (cases op)
  case OpInitialize
  show ?thesis by (simp add: OpInitialize initialize_def lit_service_connect_def grows_by_intros)
next
  case (OpAddSong cfg songId title artist lyrics chainId authSig)
  show ?thesis unfolding OpAddSong run_op.simps by (intro grows_by_intros)
next
  case (OpPurchaseSongAccess songId)
  show ?thesis
    unfolding OpPurchaseSongAccess run_op.simps KaraokeService_purchaseSongAccess_def
    by (intro grows_by_intros)
next
  case (OpGetSongLyrics song chainId authSig)
  show ?thesis unfolding OpGetSongLyrics run_op.simps getSongLyrics_def by (intro grows_by_intros)
next
  case (OpSearchSongs cfg query)
  show ?thesis unfolding OpSearchSongs run_op.simps searchSongs_def by (intro grows_by_intros)
next
  case (OpCreateAuthSig signer randomBytes)
  show ?thesis
    by (simp add: OpCreateAuthSig grows_by_intros grows_by_same createAuthSig_def Let_def)
next
  case OpCheckContractBalance
  show ?thesis
    by (simp add: OpCheckContractBalance grows_by_intros grows_by_same checkContractBalance_def)
qed

lemma session_step_grows: "session_step ks w w' \<Longrightarrow> grows w w'"
proof (induction rule: session_step.induct)
  case (step_op w op)
  show ?case by (rule grows_byD [OF run_op_grows])
next
  case (step_tick d w)
  show ?case by (rule grows_same) simp_all
next
  case (step_ledger w sender target f args v r l')
  show ?case by (rule grows_ledger_update)
qed

text \<open>By rule induction over the session: every reachable state grows from the first.\<close>

lemma session_grows:
  assumes "(session_step ks)\<^sup>*\<^sup>* w w'"
  shows "grows w w'"
  using assms
proof (induction rule: rtranclp_induct)
  case base
  then show ?case by simp
next
  case (step w1 w2)
  then show ?case by (blast dest: session_step_grows intro: grows_trans)
qed

text \<open>
  A song stored by \<open>addSong\<close> from a state where the network's invariant holds stays
  stored through every session that follows.
\<close>

lemma addSong_session_store:
  assumes inv: "lit_inv (w_lit w1)"
    and add: "addSong cfg ks songId title artist lyrics chainId a0 w1 = (res, w2)"
    and run: "(session_step ks)\<^sup>*\<^sup>* w2 w3"
  shows "ln_store (w_lit w2) \<subseteq>\<^sub>m ln_store (w_lit w3)"
proof -
  have g: "grows w1 w2"
    using grows_byD [OF grows_by_addSong, of w1 cfg ks songId title artist lyrics chainId a0] add by simp
  with inv have "lit_inv (w_lit w2)" by (simp add: grows_def)
  with session_grows [OF run] show ?thesis by (simp add: grows_def)
qed

text \<open>
  A wallet that can pay the price and the fee can always buy a song through the service's
  \<open>purchaseSongAccess\<close>, a step of the session that leaves it holding access; only the
  ledger changes.
\<close>

lemma session_purchase:
  assumes wc: "wallet_contract (ks_karaokeAccessContract ks) s"
    and dep: "l_contracts (w_ledger w) (c_target (ks_karaokeAccessContract ks)) = Some k"
    and price: "k_price k \<le> PURCHASE_VALUE"
    and rich: "PURCHASE_VALUE + l_fee (w_ledger w) \<le> l_balance (w_ledger w) s"
  obtains l' where "KaraokeService_purchaseSongAccess ks songId w = (Inr (), w\<lparr>w_ledger := l'\<rparr>)"
    and "session_step ks w (w\<lparr>w_ledger := l'\<rparr>)"
    and "has_access l' (c_target (ks_karaokeAccessContract ks)) s songId"
proof -
  obtain r l' where send: "ledger_send (w_ledger w) s (c_target (ks_karaokeAccessContract ks)) ''purchaseSong''
                             [VUint songId] PURCHASE_VALUE = Inr (r, l')"
    using dep price rich by (rule ledger_send_purchase_ok)
  have p: "KaraokeService_purchaseSongAccess ks songId w = (Inr (), w\<lparr>w_ledger := l'\<rparr>)"
    using KaraokeService_purchase_apply [OF wc, of songId w] send by simp
  then have "session_step ks w (w\<lparr>w_ledger := l'\<rparr>)"
    using step_op [of ks w "OpPurchaseSongAccess songId"] by simp
  with p ledger_send_grants [OF send] that show ?thesis by blast
qed

text \<open>
  A well-formed song passes the store-side guards of \<open>getSongLyrics\<close>: reading it is
  the access check on the contract followed by \<open>decryptString\<close> of the stored payload.
\<close>

lemma getSongLyrics_wf_song:
  assumes "song_wf song"
  obtains ct h cs where
    "getSongLyrics ks song chainId a =
       bindJ (invoke (ks_karaokeAccessContract ks) ''hasSongAccess'' [VAddr (as_address a), VUint (s_songId song)] 0)
         (\<lambda>_. decryptString (ks_litProtocol ks)
                \<lparr>ed_ciphertext = ct, ed_dataToEncryptHash = h, ed_evmContractConditions = cs\<rparr> chainId a)"
proof -
  from assms obtain ct h c where lf: "lyrics_fields song = Some (ct, h, c)" and ni: "\<not> isl (parse_conds c)"
    by (auto simp: song_wf_def split: option.splits)
  from ni obtain cs where pc: "parse_conds c = Inr cs" by (cases "parse_conds c") auto
  from pc obtain j where jp: "json_parse c = Inr j" and cj: "conds_of_json j = Inr cs"
    by (auto simp: parse_conds_def split: sum.splits)
  have "getSongLyrics ks song chainId a =
       bindJ (invoke (ks_karaokeAccessContract ks) ''hasSongAccess'' [VAddr (as_address a), VUint (s_songId song)] 0)
         (\<lambda>_. decryptString (ks_litProtocol ks)
                \<lparr>ed_ciphertext = ct, ed_dataToEncryptHash = h, ed_evmContractConditions = cs\<rparr> chainId a)"
    by (simp add: getSongLyrics_def lf jp liftE_Inr bindJ_ret_left decryptString_json_conds [OF cj])
  then show ?thesis by (rule that)
qed

text \<open>Every document a search returns from a well-formed store is well formed.\<close>

lemma searchSongs_wf:
  assumes "db_wf (w_db w)" and "fst (searchSongs cfg ks q w) = Inr songs" and "song \<in> set songs"
  shows "song_wf song"
  using assms
  by (auto simp: searchSongs_def orbis_selectJ_def orbis_select_def db_wf_def list_all_iff split: prod.splits)

text \<open>
  C7. Type invariant of the store: in every session, a store whose song documents are all
  well formed (the ciphertext, hash and conditions fields present and non-empty, the
  conditions valid condition-set JSON) stays so: \<open>addSong\<close> only inserts such songs and no
  other step adds or changes documents.
\<close>

theorem session_keeps_db_wf:
  assumes "(session_step ks)\<^sup>*\<^sup>* w w'" and "db_wf (w_db w)"
  shows "db_wf (w_db w')"
  using session_grows [OF assms(1)] assms(2) by (simp add: grows_def)

text \<open>
  C8. Songs found by \<open>searchSongs\<close> at any point of a session that started from a
  well-formed store can always be read without a store-side failure
  (\<open>NoEncryptedLyrics\<close>, a \<open>JSON.parse\<close> SyntaxError, invalid conditions): reading one is
  exactly the contract's access check followed by \<open>decryptString\<close> of the stored payload.
\<close>

theorem searchSongs_results_readable:
  assumes run: "(session_step ks)\<^sup>*\<^sup>* w w'" and wf: "db_wf (w_db w)"
    and found: "fst (searchSongs cfg ks q w') = Inr songs" and mem: "song \<in> set songs"
  shows "\<exists>ct h cs. getSongLyrics ks song chainId a =
           bindJ (invoke (ks_karaokeAccessContract ks) ''hasSongAccess'' [VAddr (as_address a), VUint (s_songId song)] 0)
             (\<lambda>_. decryptString (ks_litProtocol ks)
                    \<lparr>ed_ciphertext = ct, ed_dataToEncryptHash = h, ed_evmContractConditions = cs\<rparr> chainId a)"
proof -
  have "db_wf (w_db w')" using session_grows [OF run] wf by (simp add: grows_def)
  from searchSongs_wf [OF this found mem] show ?thesis
    by (rule getSongLyrics_wf_song) blast
qed

end
