(* ===== verification/Demos.thy ===== *)
theory Demos
  imports Scripts Scenarios Session
begin

text \<open>
  Concrete runs of the application layer (src/ceramic-orbis.ts, src/config.ts and the
  scripts) on the data of \<open>Scenarios\<close>: the same contract, buyer, lyrics and ledgers, an
  OrbisDB store holding songs, and an environment that sets the variables the
  configuration module reads. They instantiate the theorems of the application theories
  at inputs where their hypotheses hold.
\<close>

definition demo_env :: "string \<Rightarrow> string option" where
  "demo_env =
     [''VITE_CERAMIC_NODE_URL'' \<mapsto> ''https://ceramic.example'', ''ORBIS_NODE_URL'' \<mapsto> ''https://orbis.example'',
      ''VITE_ORBIS_ENVIRONMENT_ID'' \<mapsto> ''env-1'', ''VITE_ORBIS_SONG_MODEL'' \<mapsto> '''',
      ''ORBIS_SONG_MODEL'' \<mapsto> ''song-model'', ''ORBIS_CONTEXT_ID'' \<mapsto> ''ctx-1'',
      ''VITE_ORBIS_PRIVATE_KEY'' \<mapsto> ''orbis-key'', ''VITE_USER_PRIVATE_KEY'' \<mapsto> ''user-key'']"


definition demo_cfg :: orbis_config where
  "demo_cfg =
     \<lparr>cfg_ceramic_gateway = ''https://ceramic.example'', cfg_node_gateway = ''https://orbis.example'',
      cfg_node_env = ''env-1'', cfg_song_model = ''song-model'', cfg_context = ''ctx-1''\<rparr>"

definition demo_ks :: karaoke_service where
  "demo_ks =
     \<lparr>ks_litProtocol = demo_ls,
      ks_karaokeAccessContract = \<lparr>c_target = demo_target, c_abi = map human_abi_fn KARAOKE_SERVICE_ABI,
                                  c_runner = RWallet demo_user\<rparr>\<rparr>"

definition demo_sw0 :: "song world" where
  "demo_sw0 =
     \<lparr>w_now = 1000, w_tz = (\<lambda>_. 0), w_chain = 84532, w_ledger = demo_ledger, w_lit = demo_net,
      w_db = \<lparr>db_user = True, db_docs = [], db_calls = 0\<rparr>, w_env = demo_env\<rparr>"

text \<open>The song \<open>addSong\<close> stores for the demo lyrics, and the world after it.\<close>

definition demo_song :: song where
  "demo_song =
     \<lparr>s_title = ''Song Title'', s_artist = ''Artist Name'', s_songId = 1,
      s_encryptedLyricsCiphertext = Some (ed_ciphertext demo_ed),
      s_encryptedLyricsHash = Some (ed_dataToEncryptHash demo_ed),
      s_encryptedLyricsConditions = Some (stringify_conds (ed_evmContractConditions demo_ed))\<rparr>"

definition demo_sw1 :: "song world" where
  "demo_sw1 =
     demo_sw0\<lparr>w_lit := w_lit demo_w1,
              w_db := \<lparr>db_user = True, db_docs = [(''song-model'', ''ctx-1'', demo_song)], db_calls = 1\<rparr>\<rparr>"

text \<open>An hour later, the buyer has paid; or has paid and spent the rest; or has nothing.\<close>

definition demo_sw2 :: "song world" where
  "demo_sw2 = demo_sw1\<lparr>w_ledger := demo_paid_ledger, w_now := 3600000\<rparr>"

definition demo_sw_poor_owner :: "song world" where
  "demo_sw_poor_owner = demo_sw1\<lparr>w_ledger := demo_paid_ledger\<lparr>l_balance := (\<lambda>_. 0)\<rparr>, w_now := 3600000\<rparr>"

definition demo_sw_poor :: "song world" where
  "demo_sw_poor = demo_sw1\<lparr>w_ledger := demo_ledger\<lparr>l_balance := (\<lambda>_. 0)\<rparr>, w_now := 3600000\<rparr>"

definition demo_song_bare :: song where
  "demo_song_bare = demo_song\<lparr>s_encryptedLyricsCiphertext := Some []\<rparr>"

definition demo_song_garbled :: song where
  "demo_song_garbled = demo_song\<lparr>s_encryptedLyricsConditions := Some ''null''\<rparr>"

definition demo_bytes :: "nat list" where
  "demo_bytes = [0, 255, 16, 7, 128, 9, 200, 42]"

text \<open>The authorization \<open>createAuthSig\<close> makes at the start of the demo world.\<close>

definition demo_siwe_sig :: auth_sig where
  "demo_siwe_sig =
     (let m = \<lparr>sm_domain = ''localhost'', sm_address = demo_user,
               sm_statement = ''Sign this message to access encrypted lyrics with Lit Protocol.'',
               sm_uri = ''https://localhost/login'', sm_version = ''1'', sm_chainId = 1,
               sm_nonce = nonce_of demo_bytes, sm_issuedAt = 1000,
               sm_expirationTime = Some (1000 + 24 * HOUR_MS)\<rparr>
      in \<lparr>as_sig = Signature demo_user (SiweMsg m), as_derivedVia = ''web3.eth.personal.sign'',
          as_signedMessage = SiweMsg m, as_address = demo_user\<rparr>)"

text \<open>A host in a zone that leaves daylight-saving time 12 hours into the demo.\<close>

definition demo_sw_dst :: "song world" where
  "demo_sw_dst = demo_sw0\<lparr>w_tz := (\<lambda>t. if t < 12 * HOUR_MS then 2 * HOUR_MS else HOUR_MS)\<rparr>"

text \<open>The world example-usage runs against: the contract deployed at its hard-coded address.\<close>

definition demo_ex_w :: "song world" where
  "demo_ex_w = demo_sw0\<lparr>w_ledger := demo_ledger\<lparr>l_contracts := (\<lambda>_. None)(KARAOKE_ADDRESS := Some demo_karaoke)\<rparr>\<rparr>"

lemmas demo_app_defs = demo_env_def demo_cfg_def demo_ks_def demo_sw0_def demo_song_def demo_sw1_def
  demo_sw2_def demo_sw_poor_owner_def demo_sw_poor_def demo_song_bare_def demo_song_garbled_def
  demo_bytes_def

section \<open>Facts of the demo data\<close>

lemma demo_ks_wallet: "wallet_contract (ks_karaokeAccessContract demo_ks) demo_user"
  by (simp add: demo_ks_def wallet_contract_def abi_lookup_karaoke_service)

lemma demo_lyrics_fields:
  "lyrics_fields demo_song =
     Some (ed_ciphertext demo_ed, ed_dataToEncryptHash demo_ed, stringify_conds (ed_evmContractConditions demo_ed))"
  by (simp add: lyrics_fields_def demo_song_def demo_ed_def stringify_conds_nonempty)

lemma demo_encrypt_songs:
  "encryptString demo_ls demo_lyrics 1 84532 demo_auth demo_sw0 =
     (Inr demo_ed, demo_sw0\<lparr>w_lit := w_lit demo_w1\<rparr>)"
  by (simp add: encryptString_def createAccessControlConditions_def LIT_CHAINS_def lit_encryptJ_def
      lit_encrypt_def Let_def demo_defs demo_sw0_def)

lemma demo_addSong:
  "addSong demo_cfg demo_ks 1 ''Song Title'' ''Artist Name'' demo_lyrics 84532 demo_auth demo_sw0 =
     (Inr demo_song, demo_sw1)"
proof -
  have e: "encryptString (ks_litProtocol demo_ks) demo_lyrics 1 84532 demo_auth demo_sw0 =
             (Inr demo_ed, demo_sw0\<lparr>w_lit := w_lit demo_w1\<rparr>)"
    using demo_encrypt_songs by (simp add: demo_ks_def)
  show ?thesis
    unfolding addSong_def bindJ_apply e
    by (simp add: Let_def orbis_insertJ_def orbis_insert_def demo_sw0_def demo_sw1_def demo_song_def
        demo_cfg_def)
qed

lemma demo_ks_wf: "karaoke_service_wf demo_ks demo_user"
  by (simp add: karaoke_service_wf_def demo_ks_wallet) (simp add: demo_ks_def demo_ls_def LIT_CHAINS_wf)

lemma demo_lit_inv0: "lit_inv (w_lit demo_sw0)"
  by (simp add: lit_inv_def demo_sw0_def demo_net_def)

lemma demo_sw1_facts:
  "ln_ready (w_lit demo_sw1)" "w_chain demo_sw1 = 84532"
  "l_contracts (w_ledger demo_sw1) (c_target (ks_karaokeAccessContract demo_ks)) = Some demo_karaoke"
  by (simp_all add: demo_sw1_def demo_sw0_def demo_w1_def demo_net_def demo_ks_def demo_ledger_def)

text \<open>An hour passes after the song is stored.\<close>

lemma demo_tick: "(session_step demo_ks)\<^sup>*\<^sup>* demo_sw1 (demo_sw1\<lparr>w_now := 3600000\<rparr>)"
proof -
  have "session_step demo_ks demo_sw1 (demo_sw1\<lparr>w_now := w_now demo_sw1 + 3599000\<rparr>)"
    by (rule step_tick) simp
  then show ?thesis by (simp add: demo_sw1_def demo_sw0_def)
qed

text \<open>
  Reading the demo song on a world that holds its ciphertext: the network re-evaluates the
  condition on that world's ledger.
\<close>

lemma demo_read:
  assumes lit: "w_lit w = w_lit demo_sw1" and chain: "w_chain w = 84532"
    and dep: "l_contracts (w_ledger w) demo_target = Some k"
    and auth: "auth_sig_valid (w_now w) demo_auth"
  shows "getSongLyrics demo_ks demo_song 84532 demo_auth w =
     (if has_access (w_ledger w) demo_target demo_user 1 then Inr demo_lyrics else Inl (LitError AccessDenied),
      w\<lparr>w_lit := (w_lit w)\<lparr>ln_calls := Suc (ln_calls (w_lit w))\<rparr>\<rparr>)"
proof -
  have dep': "l_contracts (w_ledger w) (c_target (ks_karaokeAccessContract demo_ks)) = Some k"
    using dep by (simp add: demo_ks_def)
  have pc: "parse_conds (stringify_conds (ed_evmContractConditions demo_ed)) = Inr (ed_evmContractConditions demo_ed)"
    by (simp add: parse_conds_def stringify_conds_def json_parse_print conds_of_json_conds)
  have eta: "\<lparr>ed_ciphertext = ed_ciphertext demo_ed, ed_dataToEncryptHash = ed_dataToEncryptHash demo_ed,
              ed_evmContractConditions = ed_evmContractConditions demo_ed\<rparr> = demo_ed"
    by (simp add: demo_ed_def)
  have ch: "getChainName (ls_chains (ks_litProtocol demo_ks)) 84532 = Inr ''baseSepolia''"
    by (simp add: demo_ks_def demo_ls_def LIT_CHAINS_def)
  have cs: "createAccessControlConditions LIT_CHAINS demo_target 1 84532 = Inr (ed_evmContractConditions demo_ed)"
    by (simp add: createAccessControlConditions_def LIT_CHAINS_def demo_ed_def)
  have led: "w_ledgers w 84532 = Some (w_ledger w)" using chain by (simp add: w_ledgers_def)
  have hold: "conditions_hold LIT_CHAINS (w_ledgers w) demo_user (ed_evmContractConditions demo_ed)
                \<longleftrightarrow> has_access (w_ledger w) demo_target demo_user 1"
    using conditions_hold_created [where ledgers = "w_ledgers w" and l = "w_ledger w", OF LIT_CHAINS_wf cs led]
      dep by simp
  have ready: "ln_ready (w_lit w)" using lit by (simp add: demo_sw1_def demo_w1_def demo_net_def)
  have st: "ln_store (w_lit w) (ed_ciphertext demo_ed) =
              Some \<lparr>le_data = demo_lyrics, le_hash = ed_dataToEncryptHash demo_ed,
                    le_conds = ed_evmContractConditions demo_ed\<rparr>"
    using lit by (simp add: demo_sw1_def demo_w1_def)
  have ls: "ls_chains (ks_litProtocol demo_ks) = LIT_CHAINS" by (simp add: demo_ks_def demo_ls_def)
  have au: "as_address demo_auth = demo_user" by (simp add: demo_auth_def)
  show ?thesis
  proof (cases "has_access (w_ledger w) demo_target demo_user 1")
    case True
    with hold have "conditions_hold LIT_CHAINS (w_ledgers w) demo_user (ed_evmContractConditions demo_ed)" by simp
    with True ready auth st show ?thesis
      using getSongLyrics_parsed [OF demo_ks_wallet dep' demo_lyrics_fields pc] eta
      by (simp add: decryptString_apply [OF ch] ls au lit_decrypt_released)
  next
    case False
    with hold have "\<not> conditions_hold LIT_CHAINS (w_ledgers w) demo_user (ed_evmContractConditions demo_ed)" by simp
    with False ready auth show ?thesis
      using getSongLyrics_parsed [OF demo_ks_wallet dep' demo_lyrics_fields pc] eta
      by (simp add: decryptString_apply [OF ch] ls au lit_decrypt_denied)
  qed
qed

section \<open>Witnesses\<close>

theorem getEnvVar_prefix_irrelevant_witness:
  "\<not> (\<exists>xs ys. ''ORBIS_SONG_MODEL'' = xs @ ''VITE_'' @ ys) \<and>
   getEnvVar demo_env (''VITE_'' @ ''ORBIS_SONG_MODEL'') = getEnvVar demo_env ''ORBIS_SONG_MODEL''"
proof -
  have "\<not> contains ''ORBIS_SONG_MODEL'' ''VITE_''" by code_simp
  then have h: "\<not> (\<exists>xs ys. ''ORBIS_SONG_MODEL'' = xs @ ''VITE_'' @ ys)" by (simp add: contains_iff)
  show ?thesis using getEnvVar_prefix_irrelevant [OF h, of demo_env] h by simp
qed

theorem karaoke_purchase_grants_witness:
  "wallet_contract (ks_karaokeAccessContract demo_ks) demo_user \<and>
   l_contracts (w_ledger demo_sw0) (c_target (ks_karaokeAccessContract demo_ks)) = Some demo_karaoke \<and>
   k_price demo_karaoke \<le> PURCHASE_VALUE \<and>
   PURCHASE_VALUE + l_fee (w_ledger demo_sw0) \<le> l_balance (w_ledger demo_sw0) demo_user \<and>
   (\<exists>w'. KaraokeService_purchaseSongAccess demo_ks 1 demo_sw0 = (Inr (), w')
     \<and> has_access (w_ledger w') (c_target (ks_karaokeAccessContract demo_ks)) demo_user 1
     \<and> l_balance (w_ledger w') demo_user = PURCHASE_VALUE - 1000)"
proof -
  have h2: "l_contracts (w_ledger demo_sw0) (c_target (ks_karaokeAccessContract demo_ks)) = Some demo_karaoke"
    by (simp add: demo_sw0_def demo_ks_def demo_ledger_def)
  have h3: "k_price demo_karaoke \<le> PURCHASE_VALUE" by (simp add: demo_karaoke_def)
  have h4: "PURCHASE_VALUE + l_fee (w_ledger demo_sw0) \<le> l_balance (w_ledger demo_sw0) demo_user"
    by (simp add: demo_sw0_def demo_ledger_def PURCHASE_VALUE_def)
  have fee: "l_fee (w_ledger demo_sw0) = 1000" and bal: "l_balance (w_ledger demo_sw0) demo_user = 2 * PURCHASE_VALUE"
    by (simp_all add: demo_sw0_def demo_ledger_def)
  show ?thesis
    using karaoke_purchase_grants [OF demo_ks_wallet h2 h3 h4, of 1] demo_ks_wallet h2 h3 h4 fee bal
    by (simp add: PURCHASE_VALUE_def)
qed

theorem karaoke_purchase_insufficient_witness:
  "wallet_contract (ks_karaokeAccessContract demo_ks) demo_user \<and>
   l_balance (w_ledger demo_sw_poor) demo_user < PURCHASE_VALUE + l_fee (w_ledger demo_sw_poor) \<and>
   KaraokeService_purchaseSongAccess demo_ks 1 demo_sw_poor = (Inl (EthersError INSUFFICIENT_FUNDS), demo_sw_poor)"
proof -
  have h: "l_balance (w_ledger demo_sw_poor) demo_user < PURCHASE_VALUE + l_fee (w_ledger demo_sw_poor)"
    by (simp add: demo_sw_poor_def demo_ledger_def PURCHASE_VALUE_def)
  show ?thesis using karaoke_purchase_insufficient [OF demo_ks_wallet h, of 1] demo_ks_wallet h by simp
qed

theorem addSong_then_getSongLyrics_witness:
  "karaoke_service_wf demo_ks demo_user \<and>
   addSong demo_cfg demo_ks 1 ''Song Title'' ''Artist Name'' demo_lyrics 84532 demo_auth demo_sw0 =
     (Inr demo_song, demo_sw1) \<and>
   ln_store (w_lit demo_sw2) = ln_store (w_lit demo_sw1) \<and> ln_ready (w_lit demo_sw2) \<and>
   w_chain demo_sw2 = 84532 \<and>
   l_contracts (w_ledger demo_sw2) (c_target (ks_karaokeAccessContract demo_ks)) =
     Some (demo_karaoke\<lparr>k_access := {(demo_user, 1)}\<rparr>) \<and>
   auth_sig_valid (w_now demo_sw2) demo_auth \<and>
   has_access (w_ledger demo_sw2) (c_target (ks_karaokeAccessContract demo_ks)) (as_address demo_auth) 1 \<and>
   fst (getSongLyrics demo_ks demo_song 84532 demo_auth demo_sw2) = Inr demo_lyrics"
proof -
  note h1 = demo_ks_wf
  have h3: "ln_store (w_lit demo_sw2) = ln_store (w_lit demo_sw1)" by (simp add: demo_sw2_def)
  have h4: "ln_ready (w_lit demo_sw2)" by (simp add: demo_sw2_def demo_sw1_def demo_w1_def demo_net_def)
  have h5: "w_chain demo_sw2 = 84532" by (simp add: demo_sw2_def demo_sw1_def demo_sw0_def)
  have h6: "l_contracts (w_ledger demo_sw2) (c_target (ks_karaokeAccessContract demo_ks)) =
              Some (demo_karaoke\<lparr>k_access := {(demo_user, 1)}\<rparr>)"
    by (simp add: demo_sw2_def demo_ks_def demo_paid_ledger_def)
  have h7: "auth_sig_valid (w_now demo_sw2) demo_auth" using demo_auth_valid by (simp add: demo_sw2_def)
  have h8: "has_access (w_ledger demo_sw2) (c_target (ks_karaokeAccessContract demo_ks)) (as_address demo_auth) 1"
    by (simp add: demo_sw2_def demo_paid_ledger_def demo_ks_def demo_auth_def has_access_def
        karaoke_hasSongAccess_def)
  show ?thesis
    using addSong_then_getSongLyrics [OF h1 demo_addSong h3 h4 h5 h6 h7 h8] h1 demo_addSong h3 h4 h5 h6 h7 h8
    by simp
qed

theorem searchSongs_query_witness:
  "''ballad'' \<noteq> [] \<and> fst (searchSongs demo_cfg demo_ks (Some ''ballad'') demo_sw1) = Inr [] \<and>
   ''song'' \<noteq> [] \<and> fst (searchSongs demo_cfg demo_ks (Some ''song'') demo_sw1) = Inr [demo_song]"
proof -
  have songs: "songs_in (w_db demo_sw1) (cfg_song_model demo_cfg) (cfg_context demo_cfg) = [demo_song]"
    by (simp add: songs_in_def demo_sw1_def demo_cfg_def)
  have n1: "\<not> contains_insensitive ''Song Title'' ''ballad''" by code_simp
  have n2: "\<not> contains_insensitive ''Artist Name'' ''ballad''" by code_simp
  have y1: "contains_insensitive ''Song Title'' ''song''" by code_simp
  have q1: "''ballad'' \<noteq> []" and q2: "''song'' \<noteq> []" by simp_all
  show ?thesis
    using searchSongs_query [OF q1, of demo_cfg demo_ks demo_sw1] searchSongs_query [OF q2, of demo_cfg demo_ks demo_sw1]
      songs n1 n2 y1
    by (simp add: demo_song_def)
qed

theorem createAuthSig_valid_window_witness:
  "w_tz demo_sw0 = (\<lambda>_. 0) \<and> createAuthSig demo_user demo_bytes demo_sw0 = (Inr demo_siwe_sig, demo_sw0) \<and>
   auth_sig_valid (1000 + 23 * HOUR_MS) demo_siwe_sig \<and> \<not> auth_sig_valid (1000 + 25 * HOUR_MS) demo_siwe_sig"
proof -
  have h1: "w_tz demo_sw0 = (\<lambda>_. 0)" by (simp add: demo_sw0_def)
  have h2: "createAuthSig demo_user demo_bytes demo_sw0 = (Inr demo_siwe_sig, demo_sw0)"
    by (simp add: createAuthSig_apply demo_siwe_sig_def Let_def utc_time_def local_time_def demo_sw0_def)
  have now: "w_now demo_sw0 = 1000" by (simp add: demo_sw0_def)
  show ?thesis
    using createAuthSig_valid_window [OF h1 h2, of "1000 + 23 * HOUR_MS"]
      createAuthSig_valid_window [OF h1 h2, of "1000 + 25 * HOUR_MS"] h1 h2 now
    by (simp add: HOUR_MS_def)
qed

theorem unlock_attempt_recovers_witness:
  "wallet_contract (ks_karaokeAccessContract demo_ks) demo_user \<and>
   l_balance (w_ledger demo_sw_poor_owner) demo_user < PURCHASE_VALUE + l_fee (w_ledger demo_sw_poor_owner) \<and>
   getSongLyrics demo_ks demo_song 84532 demo_auth demo_sw_poor_owner =
     (Inr demo_lyrics, demo_sw_poor_owner\<lparr>w_lit := (w_lit demo_sw1)\<lparr>ln_calls := 3\<rparr>\<rparr>) \<and>
   unlock_attempt demo_ks demo_song 84532 demo_auth demo_sw_poor_owner =
     (Inr demo_lyrics, demo_sw_poor_owner\<lparr>w_lit := (w_lit demo_sw1)\<lparr>ln_calls := 3\<rparr>\<rparr>)"
proof -
  have poor: "l_balance (w_ledger demo_sw_poor_owner) demo_user < PURCHASE_VALUE + l_fee (w_ledger demo_sw_poor_owner)"
    by (simp add: demo_sw_poor_owner_def demo_paid_ledger_def demo_ledger_def)
  have "getSongLyrics demo_ks demo_song 84532 demo_auth demo_sw_poor_owner =
          (Inr demo_lyrics, demo_sw_poor_owner\<lparr>w_lit := (w_lit demo_sw1)\<lparr>ln_calls := 3\<rparr>\<rparr>)"
    using demo_read [of demo_sw_poor_owner] demo_auth_valid
    by (simp add: demo_sw_poor_owner_def demo_paid_ledger_def demo_sw1_def demo_sw0_def demo_w1_def
        has_access_def karaoke_hasSongAccess_def demo_net_def)
  with poor show ?thesis using unlock_attempt_recovers [OF demo_ks_wallet poor] demo_ks_wallet by simp
qed

theorem unlock_attempt_rethrows_witness:
  "wallet_contract (ks_karaokeAccessContract demo_ks) demo_user \<and>
   l_balance (w_ledger demo_sw_poor) demo_user < PURCHASE_VALUE + l_fee (w_ledger demo_sw_poor) \<and>
   getSongLyrics demo_ks demo_song 84532 demo_auth demo_sw_poor =
     (Inl (LitError AccessDenied), demo_sw_poor\<lparr>w_lit := (w_lit demo_sw1)\<lparr>ln_calls := 3\<rparr>\<rparr>) \<and>
   unlock_attempt demo_ks demo_song 84532 demo_auth demo_sw_poor =
     (Inl (EthersError INSUFFICIENT_FUNDS), demo_sw_poor\<lparr>w_lit := (w_lit demo_sw1)\<lparr>ln_calls := 3\<rparr>\<rparr>)"
proof -
  have poor: "l_balance (w_ledger demo_sw_poor) demo_user < PURCHASE_VALUE + l_fee (w_ledger demo_sw_poor)"
    by (simp add: demo_sw_poor_def demo_ledger_def PURCHASE_VALUE_def)
  have "getSongLyrics demo_ks demo_song 84532 demo_auth demo_sw_poor =
          (Inl (LitError AccessDenied), demo_sw_poor\<lparr>w_lit := (w_lit demo_sw1)\<lparr>ln_calls := 3\<rparr>\<rparr>)"
    using demo_read [of demo_sw_poor] demo_auth_valid
    by (simp add: demo_sw_poor_def demo_ledger_def demo_sw1_def demo_sw0_def demo_w1_def
        has_access_def karaoke_hasSongAccess_def demo_karaoke_def demo_net_def)
  with poor show ?thesis using unlock_attempt_rethrows [OF demo_ks_wallet poor] demo_ks_wallet by simp
qed

theorem decryptString_always_requests_witness:
  "getChainName (ls_chains demo_ls) 84532 = Inr ''baseSepolia'' \<and> ln_ready (w_lit demo_sw2) \<and>
   ln_calls (w_lit (snd (decryptString demo_ls (demo_ed\<lparr>ed_ciphertext := []\<rparr>) 84532 demo_auth demo_sw2))) = 3"
proof -
  have h1: "getChainName (ls_chains demo_ls) 84532 = Inr ''baseSepolia''"
    by (simp add: demo_ls_def LIT_CHAINS_def)
  have h2: "ln_ready (w_lit demo_sw2)" by (simp add: demo_sw2_def demo_sw1_def demo_w1_def demo_net_def)
  have c: "ln_calls (w_lit demo_sw2) = 2" by (simp add: demo_sw2_def demo_sw1_def demo_w1_def)
  show ?thesis using decryptString_always_requests [OF h1 h2] h1 h2 c by simp
qed

theorem karaoke_purchase_balance_witness:
  "wallet_contract (ks_karaokeAccessContract demo_ks) demo_user \<and>
   l_contracts (w_ledger demo_sw0) (c_target (ks_karaokeAccessContract demo_ks)) = Some demo_karaoke \<and>
   k_price demo_karaoke \<le> PURCHASE_VALUE \<and>
   PURCHASE_VALUE + l_fee (w_ledger demo_sw0) \<le> l_balance (w_ledger demo_sw0) demo_user \<and>
   (\<exists>w'. KaraokeService_purchaseSongAccess demo_ks 1 demo_sw0 = (Inr (), w')
     \<and> checkContractBalance demo_ks w' = (Inr ''0.001'', w'))"
proof -
  have h2: "l_contracts (w_ledger demo_sw0) (c_target (ks_karaokeAccessContract demo_ks)) = Some demo_karaoke"
    by (simp add: demo_sw0_def demo_ks_def demo_ledger_def)
  have h3: "k_price demo_karaoke \<le> PURCHASE_VALUE" by (simp add: demo_karaoke_def)
  have h4: "PURCHASE_VALUE + l_fee (w_ledger demo_sw0) \<le> l_balance (w_ledger demo_sw0) demo_user"
    by (simp add: demo_sw0_def demo_ledger_def PURCHASE_VALUE_def)
  have f: "k_funds demo_karaoke + PURCHASE_VALUE = PURCHASE_VALUE" by (simp add: demo_karaoke_def)
  show ?thesis
    using karaoke_purchase_balance [OF demo_ks_wallet h2 h3 h4, of 1] demo_ks_wallet h2 h3 h4 f
    by (simp add: format_ether_PURCHASE_VALUE)
qed

section \<open>Findings\<close>

text \<open>
  \<open>createAuthSig\<close> adds 24 hours on the local clock: on a host that leaves daylight-saving
  time during the day, the signature it makes is still accepted 24 and a half hours later
  (it expires after 25 hours).
\<close>

theorem createAuthSig_dst_fall_back:
  "\<exists>a. createAuthSig demo_user demo_bytes demo_sw_dst = (Inr a, demo_sw_dst)
       \<and> auth_sig_valid (w_now demo_sw_dst + 24 * HOUR_MS + 30 * 60000) a
       \<and> \<not> auth_sig_valid (w_now demo_sw_dst + 25 * HOUR_MS) a"
  by (simp add: createAuthSig_apply Let_def auth_sig_valid_def utc_time_def local_time_def
      demo_sw_dst_def demo_sw0_def HOUR_MS_def)

text \<open>
  \<open>getEnvVar\<close> removes \<open>VITE_\<close> wherever it first occurs, not only as a prefix: asked for
  \<open>ORBIS_VITE_KEY\<close>, it reads the variable \<open>VITE_ORBIS_KEY\<close>.
\<close>

theorem getEnvVar_inner_occurrence:
  "getEnvVar [''VITE_ORBIS_KEY'' \<mapsto> ''k''] ''ORBIS_VITE_KEY'' = Inr ''k''"
  by (simp add: getEnvVar_def env_or_def)


text \<open>Storing the demo song is a step of a session that starts from an empty store.\<close>

lemma demo_add_step: "(session_step demo_ks)\<^sup>*\<^sup>* demo_sw0 demo_sw1"
proof -
  have "session_step demo_ks demo_sw0
          (snd (run_op demo_ks (OpAddSong demo_cfg 1 ''Song Title'' ''Artist Name'' demo_lyrics 84532 demo_auth) demo_sw0))"
    by (rule step_op)
  then show ?thesis using demo_addSong by simp
qed

lemma demo_db_wf0: "db_wf (w_db demo_sw0)"
  by (simp add: db_wf_def demo_sw0_def)

theorem session_keeps_db_wf_witness:
  "(session_step demo_ks)\<^sup>*\<^sup>* demo_sw0 demo_sw1 \<and> db_wf (w_db demo_sw0) \<and> db_wf (w_db demo_sw1)"
  using session_keeps_db_wf [OF demo_add_step demo_db_wf0] demo_add_step demo_db_wf0 by simp

theorem searchSongs_results_readable_witness:
  "(session_step demo_ks)\<^sup>*\<^sup>* demo_sw0 demo_sw1 \<and> db_wf (w_db demo_sw0) \<and>
   fst (searchSongs demo_cfg demo_ks None demo_sw1) = Inr [demo_song] \<and> demo_song \<in> set [demo_song] \<and>
   (\<exists>ct h cs. getSongLyrics demo_ks demo_song 84532 demo_auth =
      bindJ (invoke (ks_karaokeAccessContract demo_ks) ''hasSongAccess'' [VAddr (as_address demo_auth), VUint (s_songId demo_song)] 0)
        (\<lambda>_. decryptString (ks_litProtocol demo_ks)
               \<lparr>ed_ciphertext = ct, ed_dataToEncryptHash = h, ed_evmContractConditions = cs\<rparr> 84532 demo_auth))"
proof -
  have found: "fst (searchSongs demo_cfg demo_ks None demo_sw1) = Inr [demo_song]"
    by (simp add: searchSongs_def orbis_selectJ_def orbis_select_def search_clause_def demo_sw1_def demo_cfg_def)
  have mem: "demo_song \<in> set [demo_song]" by simp
  show ?thesis
    using searchSongs_results_readable [OF demo_add_step demo_db_wf0 found mem, of 84532 demo_auth]
      demo_add_step demo_db_wf0 found mem by simp
qed


theorem nonce_of_hex_pairs_witness:
  "list_all (\<lambda>b. b < 256) [0, 171, 255::nat] \<and>
   nonce_of [0, 171, 255] = concat (map (\<lambda>b. [hex_digit (b div 16), hex_digit (b mod 16)]) [0, 171, 255::nat]) \<and>
   nonce_of [0, 171, 255] = ''00abff''"
proof -
  have h: "list_all (\<lambda>b. b < 256) [0, 171, 255::nat]" by simp
  have "concat (map (\<lambda>b. [hex_digit (b div 16), hex_digit (b mod 16)]) [0, 171, 255::nat]) = ''00abff''"
    unfolding hex_digit_def by code_simp
  then show ?thesis using nonce_of_hex_pairs [OF h] h by simp
qed


theorem getSongLyrics_no_lyrics_witness:
  "getSongLyrics demo_ks demo_song_bare 84532 demo_auth demo_sw2 = (Inl NoEncryptedLyrics, demo_sw2) \<and>
   getSongLyrics demo_ks demo_song 84532 demo_auth demo_sw2 \<noteq> (Inl NoEncryptedLyrics, demo_sw2)"
  using getSongLyrics_no_lyrics [of demo_ks demo_song_bare 84532 demo_auth demo_sw2]
    getSongLyrics_no_lyrics [of demo_ks demo_song 84532 demo_auth demo_sw2]
  by (simp add: demo_song_bare_def demo_song_def demo_ed_def stringify_conds_nonempty)

theorem getSongLyrics_bad_conditions_witness:
  "wallet_contract (ks_karaokeAccessContract demo_ks) demo_user \<and>
   l_contracts (w_ledger demo_sw2) (c_target (ks_karaokeAccessContract demo_ks)) =
     Some (demo_karaoke\<lparr>k_access := {(demo_user, 1)}\<rparr>) \<and>
   lyrics_fields demo_song_garbled = Some (ed_ciphertext demo_ed, ed_dataToEncryptHash demo_ed, ''null'') \<and>
   json_parse ''null'' = Inr JNull \<and> conds_of_json JNull = Inl (LitError InvalidConditions) \<and>
   getSongLyrics demo_ks demo_song_garbled 84532 demo_auth demo_sw2 = (Inl (LitError InvalidConditions), demo_sw2) \<and>
   getSongLyrics demo_ks demo_song_garbled 5 demo_auth demo_sw2 = (Inl (UnsupportedChainId 5), demo_sw2)"
proof -
  have h2: "l_contracts (w_ledger demo_sw2) (c_target (ks_karaokeAccessContract demo_ks)) =
              Some (demo_karaoke\<lparr>k_access := {(demo_user, 1)}\<rparr>)"
    by (simp add: demo_sw2_def demo_ks_def demo_paid_ledger_def)
  have h3: "lyrics_fields demo_song_garbled = Some (ed_ciphertext demo_ed, ed_dataToEncryptHash demo_ed, ''null'')"
    by (simp add: lyrics_fields_def demo_song_garbled_def demo_song_def demo_ed_def)
  have h4: "json_parse ''null'' = Inr JNull" by (simp add: json_parse_def QUOTE_def is_ws_def)
  have h5: "conds_of_json JNull = Inl (LitError InvalidConditions)" by (simp add: conds_of_json_def)
  have ch: "84532 \<in> snd ` set (ls_chains (ks_litProtocol demo_ks))" "5 \<notin> snd ` set (ls_chains (ks_litProtocol demo_ks))"
    by (simp_all add: demo_ks_def demo_ls_def LIT_CHAINS_def)
  have rd: "ln_ready (w_lit demo_sw2)" by (simp add: demo_sw2_def demo_sw1_def demo_w1_def demo_net_def)
  show ?thesis
    using getSongLyrics_bad_conditions [OF demo_ks_wallet h2 h3 h4 h5, of 84532 demo_auth]
      getSongLyrics_bad_conditions [OF demo_ks_wallet h2 h3 h4 h5, of 5 demo_auth]
      demo_ks_wallet h2 h3 h4 h5 ch rd
    by simp
qed


theorem example_main_refused_after_purchase_witness:
  "getEnvVar (w_env demo_ex_w) ''ORBIS_PRIVATE_KEY'' = Inr ''orbis-key'' \<and>
   w_chain demo_ex_w \<in> snd ` set LIT_CHAINS \<and>
   l_contracts (w_ledger demo_ex_w) KARAOKE_ADDRESS = Some demo_karaoke \<and>
   k_price demo_karaoke \<le> PURCHASE_VALUE \<and>
   PURCHASE_VALUE + l_fee (w_ledger demo_ex_w) \<le> l_balance (w_ledger demo_ex_w) demo_user \<and>
   \<not> list_ex (eval_where song_field
        (WOr [WContainsInsensitive ''title'' ''Song Title'', WContainsInsensitive ''artist'' ''Song Title'']))
      (songs_in (w_db demo_ex_w) (cfg_song_model demo_cfg) (cfg_context demo_cfg)) \<and>
   fst (example_main demo_cfg demo_user demo_ex_w) = Inl (LitError InvalidAuthSig) \<and>
   has_access (w_ledger (snd (example_main demo_cfg demo_user demo_ex_w))) KARAOKE_ADDRESS demo_user 1 \<and>
   l_balance (w_ledger (snd (example_main demo_cfg demo_user demo_ex_w))) demo_user = PURCHASE_VALUE - 1000"
proof -
  have h1: "getEnvVar (w_env demo_ex_w) ''ORBIS_PRIVATE_KEY'' = Inr ''orbis-key''"
    by (simp add: demo_ex_w_def demo_sw0_def demo_env_def getEnvVar_def env_or_def)
  have h2: "w_chain demo_ex_w \<in> snd ` set LIT_CHAINS"
    by (simp add: demo_ex_w_def demo_sw0_def LIT_CHAINS_def)
  have h3: "l_contracts (w_ledger demo_ex_w) KARAOKE_ADDRESS = Some demo_karaoke"
    by (simp add: demo_ex_w_def)
  have h4: "k_price demo_karaoke \<le> PURCHASE_VALUE" by (simp add: demo_karaoke_def)
  have h5: "PURCHASE_VALUE + l_fee (w_ledger demo_ex_w) \<le> l_balance (w_ledger demo_ex_w) demo_user"
    by (simp add: demo_ex_w_def demo_ledger_def PURCHASE_VALUE_def)
  have h6: "\<not> list_ex (eval_where song_field
        (WOr [WContainsInsensitive ''title'' ''Song Title'', WContainsInsensitive ''artist'' ''Song Title'']))
      (songs_in (w_db demo_ex_w) (cfg_song_model demo_cfg) (cfg_context demo_cfg))"
    by (simp add: demo_ex_w_def demo_sw0_def songs_in_def)
  have bal: "l_fee (w_ledger demo_ex_w) = 1000" "l_balance (w_ledger demo_ex_w) demo_user = 2 * PURCHASE_VALUE"
    by (simp_all add: demo_ex_w_def demo_sw0_def demo_ledger_def)
  show ?thesis using example_main_refused_after_purchase [OF h1 h2 h3 h4 h5 h6] h1 h2 h3 h4 h5 h6 bal
    by (simp add: PURCHASE_VALUE_def)
qed

end
