(* ===== verification/Spec2Isabelle.thy ===== *)
theory Spec2Isabelle
  imports Demos
begin

text \<open>
  \<^bold>\<open>A verification development for slumdog-bitcoinaire-poc.\<close>

  The program gates song lyrics behind an on-chain payment. Lyrics are encrypted with the
  Lit threshold-encryption network under a condition that calls
  \<open>hasSongAccess(user, songId)\<close> on the KaraokeAccess contract; the ciphertext is kept in
  OrbisDB; a reader buys access with \<open>purchaseSong\<close> and asks the Lit network to decrypt,
  which re-evaluates the condition on the ledger at that moment. The parts and the
  theories that model them, in import order:

  \<^item> \<open>Prelude\<close>: the program's error type (one constructor per exception it throws or
    lets through, \<open>error_code\<close> for \<open>error.code\<close>), the exception-and-state model of an
    \<open>async\<close> function (\<open>('s, 'a) js = 's \<Rightarrow> (error + 'a) \<times> 's\<close> with \<open>ret\<close>,
    \<open>throw\<close>, \<open>bindJ\<close> for \<open>await\<close>, \<open>catchJ\<close> for \<open>try/catch\<close>; effects before a throw
    persist), and decimal printing and parsing of numbers.
  \<^item> \<open>ChainRegistry\<close>: \<open>LitProtocolService.getChainName\<close> (src/lit-protocol.ts) as the
    first-match scan of the \<open>LIT_CHAINS\<close> table.
  \<^item> \<open>Ledger\<close>: the KaraokeAccess contract (not in the repository; modelled from the
    spec and its use), the ledger with balances and fees, and ethers v6 contract objects:
    a function missing from the ABI is a \<open>TypeError\<close>, a view function is a static call,
    any other is a transaction, which needs a wallet runner. The contract's owner can
    revoke an access (\<open>revokeAccess\<close>), so access on the ledger is not monotone.
  \<^item> \<open>Conditions\<close>: \<open>createAccessControlConditions\<close> and the condition literal
    (src/lit-protocol.ts), and the Lit nodes' evaluation of a condition (from the spec).
  \<^item> \<open>LitNetwork\<close>: the Lit network as an ideal functionality (encrypt binds data to
    its conditions under a fresh ciphertext and hash; decrypt checks the authorization,
    re-evaluates the conditions, and needs the exact hash and conditions), authorization
    signatures and their validity: the network accepts a SIWE challenge that is issued,
    carries an expiry and has not expired, and refuses a plain signed message.
  \<^item> \<open>OrbisDB\<close>, \<open>World\<close>: the document store, and the state the program runs against:
    clock and time zone, the provider's chain and ledger, the Lit network, the store and
    the environment, with ECMAScript's local-time conversions.
  \<^item> \<open>LitService\<close>: \<open>LitProtocolService\<close> (src/lit-protocol.ts): constructor,
    \<open>encryptString\<close>, \<open>decryptString\<close>, \<open>purchaseSongAccess\<close> with its insufficient-funds
    recovery. \<open>Scenarios\<close> runs them on the scripts' data.
  \<^item> \<open>Json\<close>, \<open>CondJson\<close>: \<open>JSON.stringify\<close> and \<open>JSON.parse\<close> (a fuelled
    recursive-descent parser) and the stored form of a condition set.
  \<^item> \<open>Config\<close>: src/config.ts (\<open>getEnvVar\<close>, module loading, \<open>initAuth\<close>).
  \<^item> \<open>Karaoke\<close>: \<open>KaraokeService\<close> (src/ceramic-orbis.ts): constructor with its
    human-readable ABI, \<open>initialize\<close>, \<open>addSong\<close>, \<open>purchaseSongAccess\<close>,
    \<open>getSongLyrics\<close>, \<open>searchSongs\<close>, \<open>createAuthSig\<close>, \<open>checkContractBalance\<close>.
    \<open>getSongLyrics\<close> hands the untyped result of \<open>JSON.parse\<close> to
    \<open>decryptString\<close>; \<open>decryptString_json\<close> models that call, in which the chain is
    checked first, then the client's readiness, then the shape of the conditions.
  \<^item> \<open>Scripts\<close>: the entry points src/unlock-song.ts and src/example-usage.ts.
  \<^item> \<open>Session\<close>: the service over time. \<open>service_op\<close> names the public methods of
    \<open>KaraokeService\<close>, \<open>run_op\<close> dispatches to them, and the inductive relation
    \<open>session_step\<close> interleaves them with clock ticks and with any ledger transaction
    of any wallet, the owner's revocations included. The relation \<open>grows\<close> (the
    network's invariant and store only grow, and a well-formed document store stays
    well formed) is
    shown for every combinator and operation (\<open>grows_by_intros\<close>) and, by rule
    induction, for every session.
    \<open>Demos\<close> runs the application layer on concrete data.

  Each operation of the source is one definition with the source's name (a clash is
  prefixed with its class: \<open>KaraokeService_purchaseSongAccess\<close>); its guards, early
  returns and \<open>await\<close>s appear in the source's order, and every \<open>throw\<close> is a left
  value. Log output is not modelled (src/utils/logger.ts and the \<open>console\<close> calls have
  no effect on results).

  \<^bold>\<open>What the lemmas show.\<close> The registry finds the first entry with the id (C1).
  The condition a song is encrypted under holds exactly for the holders of access on the
  ledger the Lit nodes read, so decryption after encryption returns the plaintext to a
  holder (C2) and refuses others (C3). \<open>LitProtocolService\<close>'s constructor gives it a
  read-only contract object without \<open>purchaseSong\<close>, so its \<open>purchaseSongAccess\<close>
  always fails with a \<open>TypeError\<close> (C4). The theorem below states the access-control
  contract of the whole read path as a refinement, valid after any session that follows
  the store (C5). For the application service: store-then-read returns the lyrics to a
  holder (C6); every document in the store stays well formed through every session (C7),
  so a song found by \<open>searchSongs\<close> is read through the access check and
  \<open>decryptString\<close> alone (C8); its purchase grants access (C10), fails without funds
  (C11) and moves the price to the contract (C18); search by query (C15); the validity
  window of its SIWE signature (C16) and its nonce, equal to the fixed-width hexadecimal
  encoding (C19); a song without lyrics fields is refused first (C20), and stored
  conditions of the wrong shape are reported after an unsupported chain and an
  unready client (C21). The decryption gateway sends every payload to the network (C14).
  Configuration lookup ignores the \<open>VITE_\<close> prefix (C17) and a missing variable stops
  unlock-song at startup (C22); unlock-song recovers from insufficient funds (C12, C13).
  The example script, run end to end on a fresh store, stores, finds and pays for the
  song and is then refused by the network, because it signs a plain message rather than
  the SIWE challenge (C9). From any point of a session that follows the store, a wallet
  that can pay obtains the lyrics by calling the service's \<open>purchaseSongAccess\<close> and
  then \<open>getSongLyrics\<close> (C23). On concrete data, \<open>Demos\<close> also shows that across a
  daylight-saving change the 24-hour SIWE signature lasts 25 hours, and that
  \<open>getEnvVar\<close> strips \<open>VITE_\<close> from the middle of a name.

  \<^bold>\<open>Fuel and bounds.\<close> \<open>json_parse\<close> gives its parser one unit of fuel per input
  character plus one; \<open>Json.json_fuel_le\<close> shows a printed value needs at most its
  length, so the round trip never runs out; \<open>Json.json_parse_fuel_sufficient\<close>
  shows the parser never needs more than one unit per character on any input, since every
  call consumes input and a parse needs only the fuel of the value it returns. Amounts are unbounded naturals (ethers uses
  bigints); chain ids and times are integers; song ids are naturals.

  \<^bold>\<open>Not modelled.\<close> Cryptography (signatures are the pair of signer and message;
  ciphertexts are fresh names), the SIWE message text (its fields are kept and
  \<open>toISOString\<close> is taken as exact), key derivation of wallets, the OrbisDB session
  protocol, network transport failures and timing, and the private, unused
  \<open>LitProtocolService.createAuthSig\<close> and \<open>authSigToSessionSigs\<close>. The guard of
  \<open>checkContractBalance\<close> cannot fail in the model, as every runner is connected to the
  provider.
\<close>

section \<open>The access-control contract of the read path\<close>

text \<open>
  What the system promises a reader of a stored song (spec, section 4.4): the lyrics if
  the reader holds access on the ledger at the moment of reading, and an access-denied
  error otherwise; nothing depends on what the reader claims.
\<close>

definition lyrics_policy :: "ledger \<Rightarrow> address \<Rightarrow> song_id \<Rightarrow> address \<Rightarrow> string \<Rightarrow> error + string" where
  "lyrics_policy l target songId reader lyrics =
     (if has_access l target reader songId then Inr lyrics else Inl (LitError AccessDenied))"

text \<open>
  C5. Refinement: for a song stored by \<open>addSong\<close> from a state where the Lit network's
  invariant holds, after any session of service operations, clock ticks and ledger
  transactions, and for a valid authorization, \<open>KaraokeService.getSongLyrics\<close> (through
  \<open>JSON.parse\<close>, \<open>decryptString\<close> and the Lit network) returns exactly what the policy
  prescribes for the reader on the ledger of that moment, and its only effect is one
  request to the Lit network.
\<close>

theorem getSongLyrics_refines_policy:
  assumes wf: "Karaoke.karaoke_service_wf ks s"
    and inv: "lit_inv (w_lit w1)"
    and add: "addSong cfg ks songId title artist lyrics chainId a0 w1 = (Inr song, w2)"
    and run: "(Session.session_step ks)\<^sup>*\<^sup>* w2 w3"
    and ready: "ln_ready (w_lit w3)" and chain: "w_chain w3 = chainId"
    and deployed: "l_contracts (w_ledger w3) (c_target (ks_karaokeAccessContract ks)) = Some k"
    and auth: "auth_sig_valid (w_now w3) a"
  shows "getSongLyrics ks song chainId a w3 =
           (lyrics_policy (w_ledger w3) (c_target (ks_karaokeAccessContract ks)) songId (as_address a) lyrics,
            w3\<lparr>w_lit := (w_lit w3)\<lparr>ln_calls := Suc (ln_calls (w_lit w3))\<rparr>\<rparr>)"
proof -
  have keep: "ln_store (w_lit w2) \<subseteq>\<^sub>m ln_store (w_lit w3)" by (rule addSong_session_store [OF inv add run])
  show ?thesis
    using getSongLyrics_after_addSong [OF wf add keep ready chain deployed auth]
    by (simp add: lyrics_policy_def)
qed

text \<open>
  The demo song is stored from an empty network; an hour passes in the session; the
  reader, who has not paid, is refused.
\<close>

theorem getSongLyrics_refines_policy_witness:
  "karaoke_service_wf demo_ks demo_user \<and> lit_inv (w_lit demo_sw0) \<and>
   addSong demo_cfg demo_ks 1 ''Song Title'' ''Artist Name'' demo_lyrics 84532 demo_auth demo_sw0 =
     (Inr demo_song, demo_sw1) \<and>
   (session_step demo_ks)\<^sup>*\<^sup>* demo_sw1 (demo_sw1\<lparr>w_now := 3600000\<rparr>) \<and>
   ln_ready (w_lit demo_sw1) \<and> w_chain demo_sw1 = 84532 \<and>
   l_contracts (w_ledger demo_sw1) (c_target (ks_karaokeAccessContract demo_ks)) = Some demo_karaoke \<and>
   auth_sig_valid 3600000 demo_auth \<and>
   fst (getSongLyrics demo_ks demo_song 84532 demo_auth (demo_sw1\<lparr>w_now := 3600000\<rparr>)) =
     Inl (LitError AccessDenied)"
proof -
  have no: "\<not> has_access (w_ledger demo_sw1) (c_target (ks_karaokeAccessContract demo_ks)) (as_address demo_auth) 1"
    by (simp add: demo_sw1_def demo_sw0_def demo_ledger_def demo_ks_def demo_auth_def has_access_def
        karaoke_hasSongAccess_def demo_karaoke_def)
  show ?thesis
    using getSongLyrics_refines_policy [OF demo_ks_wf demo_lit_inv0 demo_addSong demo_tick, of demo_karaoke demo_auth]
      demo_ks_wf demo_lit_inv0 demo_addSong demo_tick demo_sw1_facts demo_auth_valid no
    by (simp add: lyrics_policy_def)
qed


text \<open>
  C23. Liveness of the purchase path: however a session has gone on since a song was
  stored, the service's wallet, if it can pay the price and the fee, can call the
  service's \<open>purchaseSongAccess\<close>, which succeeds, and \<open>getSongLyrics\<close> with its
  valid authorization then returns the lyrics.
\<close>

theorem reader_can_obtain_lyrics:
  assumes wf: "Karaoke.karaoke_service_wf ks s"
    and inv: "lit_inv (w_lit w1)"
    and add: "addSong cfg ks songId title artist lyrics chainId a0 w1 = (Inr song, w2)"
    and run: "(Session.session_step ks)\<^sup>*\<^sup>* w2 w3"
    and ready: "ln_ready (w_lit w3)" and chain: "w_chain w3 = chainId"
    and deployed: "l_contracts (w_ledger w3) (c_target (ks_karaokeAccessContract ks)) = Some k"
    and price: "k_price k \<le> PURCHASE_VALUE"
    and rich: "PURCHASE_VALUE + l_fee (w_ledger w3) \<le> l_balance (w_ledger w3) s"
    and auth: "auth_sig_valid (w_now w3) a" and reader: "as_address a = s"
  shows "\<exists>w4. KaraokeService_purchaseSongAccess ks songId w3 = (Inr (), w4)
           \<and> fst (getSongLyrics ks song chainId a w4) = Inr lyrics"
proof -
  let ?t = "c_target (ks_karaokeAccessContract ks)"
  from wf have wc: "wallet_contract (ks_karaokeAccessContract ks) s" by (simp add: karaoke_service_wf_def)
  obtain l' where buy: "KaraokeService_purchaseSongAccess ks songId w3 = (Inr (), w3\<lparr>w_ledger := l'\<rparr>)"
    and st: "session_step ks w3 (w3\<lparr>w_ledger := l'\<rparr>)" and acc: "has_access l' ?t s songId"
    by (rule session_purchase [OF wc deployed price rich])
  have run4: "(session_step ks)\<^sup>*\<^sup>* w2 (w3\<lparr>w_ledger := l'\<rparr>)" using run st by simp
  have keep: "ln_store (w_lit w2) \<subseteq>\<^sub>m ln_store (w_lit (w3\<lparr>w_ledger := l'\<rparr>))"
    by (rule addSong_session_store [OF inv add run4])
  obtain k' where dep4: "l_contracts l' ?t = Some k'" using acc by (auto simp: has_access_def split: option.splits)
  have "getSongLyrics ks song chainId a (w3\<lparr>w_ledger := l'\<rparr>) =
          (if has_access l' ?t (as_address a) songId then Inr lyrics else Inl (LitError AccessDenied),
           w3\<lparr>w_ledger := l', w_lit := (w_lit w3)\<lparr>ln_calls := Suc (ln_calls (w_lit w3))\<rparr>\<rparr>)"
    using getSongLyrics_after_addSong [OF wf add keep, of k' a] ready chain dep4 auth by simp
  with acc reader buy show ?thesis by auto
qed

text \<open>
  The demo service's wallet has not paid when the song is stored; an hour later it buys
  the song through the service and reads the lyrics.
\<close>

theorem reader_can_obtain_lyrics_witness:
  "karaoke_service_wf demo_ks demo_user \<and> lit_inv (w_lit demo_sw0) \<and>
   addSong demo_cfg demo_ks 1 ''Song Title'' ''Artist Name'' demo_lyrics 84532 demo_auth demo_sw0 =
     (Inr demo_song, demo_sw1) \<and>
   (session_step demo_ks)\<^sup>*\<^sup>* demo_sw1 (demo_sw1\<lparr>w_now := 3600000\<rparr>) \<and>
   ln_ready (w_lit demo_sw1) \<and> w_chain demo_sw1 = 84532 \<and>
   l_contracts (w_ledger demo_sw1) (c_target (ks_karaokeAccessContract demo_ks)) = Some demo_karaoke \<and>
   k_price demo_karaoke \<le> PURCHASE_VALUE \<and>
   PURCHASE_VALUE + l_fee (w_ledger demo_sw1) \<le> l_balance (w_ledger demo_sw1) demo_user \<and>
   auth_sig_valid 3600000 demo_auth \<and> as_address demo_auth = demo_user \<and>
   (\<exists>w4. KaraokeService_purchaseSongAccess demo_ks 1 (demo_sw1\<lparr>w_now := 3600000\<rparr>) = (Inr (), w4) \<and>
      fst (getSongLyrics demo_ks demo_song 84532 demo_auth w4) = Inr demo_lyrics)"
proof -
  have price: "k_price demo_karaoke \<le> PURCHASE_VALUE" by (simp add: demo_karaoke_def)
  have rich: "PURCHASE_VALUE + l_fee (w_ledger demo_sw1) \<le> l_balance (w_ledger demo_sw1) demo_user"
    by (simp add: demo_sw1_def demo_sw0_def demo_ledger_def PURCHASE_VALUE_def)
  have who: "as_address demo_auth = demo_user" by (simp add: demo_auth_def)
  show ?thesis
    using reader_can_obtain_lyrics [OF demo_ks_wf demo_lit_inv0 demo_addSong demo_tick, of demo_karaoke demo_auth]
      demo_ks_wf demo_lit_inv0 demo_addSong demo_tick demo_sw1_facts demo_auth_valid price rich who
    by simp
qed

end
